theory Spec2Isabelle
  imports Complex_Main
begin

section \<open>Data model\<close>

text \<open>
  The program computes with C++ \<^verbatim>\<open>double\<close>s. Here a \<^verbatim>\<open>double\<close> is read as a real
  number: rounding, infinities and NaN are not represented, and every theorem below is a
  statement about the formulas of the source evaluated in exact arithmetic. Where the
  source would leave the reals (a logarithm of zero, a division by zero, a square root of a
  negative number) the theorems carry a hypothesis that excludes the case.

  Members of the classes are record fields. The fields of \<^verbatim>\<open>o2scl::fermion\<close>,
  \<^verbatim>\<open>o2scl::thermo\<close> and \<^verbatim>\<open>o2scl::boson\<close> carry a prefix, since the three classes
  share the member names \<^verbatim>\<open>ed\<close>, \<^verbatim>\<open>pr\<close> and \<^verbatim>\<open>en\<close>.
\<close>

record fermion =
  f_n :: real
  f_m :: real
  f_mu :: real
  f_ms :: real
  f_ed :: real
  f_pr :: real
  f_en :: real

record thermo =
  th_ed :: real
  th_pr :: real
  th_en :: real

record boson =
  b_ed :: real
  b_pr :: real
  b_en :: real

text \<open>The members of \<^verbatim>\<open>virial_solver\<close> that \<^verbatim>\<open>eos.cpp\<close> assigns.\<close>

record virial_solver =
  acl_nn :: real
  acl_pn :: real
  acl_T :: real
  acl_b_n :: real
  acl_b_pn :: real
  acl_lambda :: real
  acl_zn :: real
  acl_zp :: real
  acl_mfn2_mu_p :: real
  acl_mfn2_mu_n :: real
  acl_dbndT :: real
  acl_dbpndT :: real
  acl_dlambdadT :: real

record eos_crust_virial_v2 =
  bn_params :: "real list"
  bpn_params :: "real list"

text \<open>The Skyrme couplings that \<^verbatim>\<open>eos.cpp\<close> reads or sets.\<close>

record eos_had_skyrme =
  sk_t0 :: real
  sk_t1 :: real
  sk_t2 :: real
  sk_t3 :: real
  sk_x0 :: real
  sk_x1 :: real
  sk_x2 :: real
  sk_x3 :: real
  sk_alpha :: real

text \<open>
  An \<^verbatim>\<open>o2scl::table_units\<close> as the source uses it: a number of lines and a lookup by
  column name and row, which fails on an unknown column or a row out of range.
\<close>

record table_units =
  get_nlines :: nat
  tab_get :: "string \<Rightarrow> int \<Rightarrow> real option"

record eos =
  model_selected :: bool
  test_ns_cs2 :: bool
  electron :: fermion
  photon :: boson
  ns_fit_parms :: "real list"
  g_virial :: real
  dgvirialdT :: real
  select_cs2_test :: bool
  f_deg :: real
  f_virial :: real
  s_virial :: real
  old_ns_fit :: bool
  ns_record :: bool
  ns_nb_max :: real
  neutron :: fermion
  proton :: fermion
  n_chiral :: fermion
  p_chiral :: fermion
  th2 :: thermo
  th_chiral :: thermo
  sk :: eos_had_skyrme
  sk_chiral :: eos_had_skyrme
  verbose :: int
  ecv :: eos_crust_virial_v2
  a_virial :: real
  b_virial :: real
  qmc_alpha :: real
  qmc_beta :: real
  qmc_a :: real
  qmc_b :: real
  qmc_n0 :: real
  phi :: real
  eos_S :: real
  eos_L :: real
  eos_EoA :: real
  eos_K :: real
  eos_n0 :: real
  chi2_ns :: real
  i_ns :: int
  i_skyrme :: int
  acl :: virial_solver
  nstar_tab :: table_units
  UNEDF_tab :: table_units

text \<open>
  Modelled from the spec: the macro \<^verbatim>\<open>O2SCL_ERR\<close>, which O2scl defines and the sources at
  hand only use. Section 7 of the specification makes a violated precondition fatal (``fail
  fast with a descriptive error''), so a call that reaches the macro does not return. The
  type lists every way in which a call does not return: that error handler, a solver that
  reports non-convergence through it, a failed table lookup or fit, and \<^verbatim>\<open>exit(-1)\<close>.
\<close>

datatype error =
  No_Model_Selected
  | Row_Not_Allowed
  | Table_Lookup_Failed
  | Solver_Not_Converged
  | Fit_Failed
  | Exit_Process

text \<open>The objects that a property evaluation works on: \<^verbatim>\<open>*this\<close> and the three references
  \<^verbatim>\<open>n\<close>, \<^verbatim>\<open>p\<close>, \<^verbatim>\<open>th\<close>.\<close>

type_synonym eos_call = "eos \<times> fermion \<times> fermion \<times> thermo"

section \<open>External collaborators\<close>

text \<open>
  The routines of O2scl and GSL, and the class \<^verbatim>\<open>virial_solver\<close>, are not part of the
  sources at hand. They are parameters of the model, collected in one record:

  \<^item> \<open>hc_mev_fm\<close>: the constant \<^verbatim>\<open>o2scl_const::hc_mev_fm\<close>;
  \<^item> \<open>gsl_sf_hyperg_2F1\<close>: the Gauss hypergeometric function of GSL;
  \<^item> \<open>msolve_coeff\<close>: \<^verbatim>\<open>mroot_hybrids::msolve\<close> on a residual of two unknowns that has no
    side effect, from an initial guess; \<open>None\<close> is non-convergence;
  \<^item> \<open>solve_fugacity\<close>, \<open>mfn21\<close>, \<open>mfn31\<close>, \<open>mfn41\<close>: the methods of \<^verbatim>\<open>virial_solver\<close>;
    each returns the two entries of its vector and the solver object as it leaves it;
  \<^item> \<open>calc_e\<close>, \<open>calc_temp_e\<close>, \<open>eff_mass\<close>, \<open>alt_params_saturation\<close>: the methods of
    \<^verbatim>\<open>eos_had_skyrme\<close>, given the couplings of the object they are called on;
  \<^item> \<open>pair_density\<close>, \<open>massless_calc\<close>: the lepton and photon integrals;
  \<^item> \<open>fit\<close>: \<^verbatim>\<open>fit_nonlin::fit\<close> on the fit function, the data rows
    \<open>(x, y, error)\<close> and the initial parameters, returning the fitted parameters and
    \<open>\<chi>\<^sup>2\<close>;
  \<^item> \<open>msolve_state\<close>: \<^verbatim>\<open>mroot_hybrids::msolve\<close> with \<^verbatim>\<open>err_nonconv=false\<close> on a residual
    of one unknown that works on the \<^verbatim>\<open>eos\<close> object (the residual takes the abscissa and
    the old content of its output vector); it returns the solver's return code, the final
    abscissa and the object as the evaluations left it;
  \<^item> \<open>deriv\<close>: \<^verbatim>\<open>deriv_gsl::deriv\<close> on a function that works on the objects of a call;
  \<^item> \<open>szttos\<close>: the conversion of a \<^verbatim>\<open>size_t\<close> to a string.

  The arithmetic of \<^verbatim>\<open>double\<close>s enters the model where it decides how often a loop runs:

  \<^item> \<open>double_range lo hi step\<close>: the values that the variable of a loop
    \<^verbatim>\<open>for (v = lo; v < hi; v += step)\<close> takes, one after the other, when the sums are those
    of \<^verbatim>\<open>double\<close>s. The sums of reals do not determine them: for the bound 0.24 the
    variable of \<^verbatim>\<open>for(nb=0.04;nb<ns_nb_max;nb+=0.02)\<close> reaches 0.23999999999999996, and the
    loop makes an eleventh pass where the sums of reals end after ten. Nothing is assumed
    about these values.
\<close>

record externals =
  hc_mev_fm :: real
  gsl_sf_hyperg_2F1 :: "real \<Rightarrow> real \<Rightarrow> real \<Rightarrow> real \<Rightarrow> real"
  msolve_coeff :: "(real \<times> real \<Rightarrow> int \<times> real \<times> real) \<Rightarrow> real \<times> real \<Rightarrow> (real \<times> real) option"
  solve_fugacity :: "virial_solver \<Rightarrow> ((real \<times> real) \<times> virial_solver) option"
  mfn21 :: "virial_solver \<Rightarrow> (real \<times> real) \<times> virial_solver"
  mfn31 :: "virial_solver \<Rightarrow> (real \<times> real) \<times> virial_solver"
  mfn41 :: "virial_solver \<Rightarrow> (real \<times> real) \<times> virial_solver"
  calc_e :: "eos_had_skyrme \<Rightarrow> fermion \<Rightarrow> fermion \<Rightarrow> thermo \<Rightarrow> fermion \<times> fermion \<times> thermo"
  calc_temp_e :: "eos_had_skyrme \<Rightarrow> fermion \<Rightarrow> fermion \<Rightarrow> real \<Rightarrow> thermo
    \<Rightarrow> fermion \<times> fermion \<times> thermo"
  eff_mass :: "eos_had_skyrme \<Rightarrow> fermion \<Rightarrow> fermion \<Rightarrow> fermion \<times> fermion"
  alt_params_saturation :: "eos_had_skyrme \<Rightarrow> real list \<Rightarrow> eos_had_skyrme"
  pair_density :: "fermion \<Rightarrow> real \<Rightarrow> fermion"
  massless_calc :: "boson \<Rightarrow> real \<Rightarrow> boson"
  fit :: "(real list \<Rightarrow> real \<Rightarrow> real) \<Rightarrow> (real \<times> real \<times> real) list \<Rightarrow> real list
    \<Rightarrow> (real list \<times> real) option"
  msolve_state :: "(real \<Rightarrow> real \<Rightarrow> eos \<Rightarrow> error + (int \<times> real) \<times> eos) \<Rightarrow> real \<Rightarrow> eos
    \<Rightarrow> error + (int \<times> real) \<times> eos"
  deriv :: "real \<Rightarrow> (real \<Rightarrow> eos_call \<Rightarrow> error + real \<times> eos_call) \<Rightarrow> eos_call
    \<Rightarrow> error + real \<times> eos_call"
  szttos :: "nat \<Rightarrow> string"
  double_range :: "real \<Rightarrow> real \<Rightarrow> real \<Rightarrow> real list"

section \<open>Elementary functions\<close>

text \<open>
  \<^verbatim>\<open>pow(x, y)\<close> of the C library, where its value is a finite real: a power with an integral
  exponent is defined for every base, any other power for a nonnegative base.
\<close>

definition pow :: "real \<Rightarrow> real \<Rightarrow> real" where
  "pow x y = (if y \<in> \<int> then x powi \<lfloor>y\<rfloor> else x powr y)"

section \<open>The fit to the neutron star equation of state\<close>

definition fit_fun :: "bool \<Rightarrow> real list \<Rightarrow> real \<Rightarrow> real" where
  "fit_fun old parms nb =
     (if old then
        sqrt nb * parms ! 0 + nb * parms ! 1 + nb * sqrt nb * parms ! 2 + nb * nb * parms ! 3 +
        nb * nb * nb * parms ! 4
      else
        nb * parms ! 0 + nb * nb * parms ! 1 + nb * nb * nb * parms ! 2 +
        nb * nb * nb * nb * parms ! 3 + nb * nb * nb * nb * nb * parms ! 4)"

definition ed_fit :: "externals \<Rightarrow> eos \<Rightarrow> real \<Rightarrow> real" where
  "ed_fit x st nb = fit_fun (old_ns_fit st) (ns_fit_parms st) nb * nb / hc_mev_fm x"

definition mu_fit :: "externals \<Rightarrow> eos \<Rightarrow> real \<Rightarrow> real" where
  "mu_fit x st nb =
     (if old_ns_fit st then
        (1.5 * sqrt nb * ns_fit_parms st ! 0 + 2.0 * nb * ns_fit_parms st ! 1 +
         2.5 * nb * sqrt nb * ns_fit_parms st ! 2 + 3.0 * nb * nb * ns_fit_parms st ! 3 +
         4.0 * nb * nb * nb * ns_fit_parms st ! 4) / hc_mev_fm x
      else
        (2.0 * nb * ns_fit_parms st ! 0 + 3.0 * nb * nb * ns_fit_parms st ! 1 +
         4.0 * nb * nb * nb * ns_fit_parms st ! 2 +
         5.0 * nb * nb * nb * nb * ns_fit_parms st ! 3 +
         6.0 * nb * nb * nb * nb * nb * ns_fit_parms st ! 4) / hc_mev_fm x)"

definition dmudn_fit :: "externals \<Rightarrow> eos \<Rightarrow> real \<Rightarrow> real" where
  "dmudn_fit x st nb =
     (if old_ns_fit st then
        (0.75 / sqrt nb * ns_fit_parms st ! 0 + 2.0 * ns_fit_parms st ! 1 +
         3.75 * sqrt nb * ns_fit_parms st ! 2 + 6.0 * nb * ns_fit_parms st ! 3 +
         12.0 * nb * nb * ns_fit_parms st ! 4) / hc_mev_fm x
      else
        (2.0 * ns_fit_parms st ! 0 + 6.0 * nb * ns_fit_parms st ! 1 +
         12.0 * nb * nb * ns_fit_parms st ! 2 + 20.0 * nb * nb * nb * ns_fit_parms st ! 3 +
         30.0 * nb * nb * nb * nb * ns_fit_parms st ! 4) / hc_mev_fm x)"

definition cs2_fit :: "externals \<Rightarrow> eos \<Rightarrow> real \<Rightarrow> real" where
  "cs2_fit x st nb = dmudn_fit x st nb * nb / (mu_fit x st nb + 939.565 / hc_mev_fm x)"

definition energy_density_ns :: "externals \<Rightarrow> eos \<Rightarrow> real \<Rightarrow> real" where
  "energy_density_ns x st nn = ed_fit x st nn"

section \<open>The causal extension at high density\<close>

definition solve_coeff_big :: "real \<Rightarrow> real \<Rightarrow> real \<Rightarrow> real \<times> real \<Rightarrow> int \<times> real \<times> real" where
  "solve_coeff_big ns_nb_max_l cs_ns_2 cs_ns_last xv =
     (let a1l = fst xv; a2l = snd xv;
          y0 = 1.0 - a1l + (a1l * a2l * pow ns_nb_max_l a1l) / (1.0 + a2l * pow ns_nb_max_l a1l)
               - cs_ns_last;
          y1 = 1.0 - a1l + (a1l * a2l * pow 2.0 a1l) / (1.0 + a2l * pow 2.0 a1l) - cs_ns_2
      in (0, y0, y1))"

definition solve_coeff_small :: "real \<Rightarrow> real \<Rightarrow> real \<Rightarrow> real \<times> real \<Rightarrow> int \<times> real \<times> real" where
  "solve_coeff_small ns_nb_max_l cs_ns_2 cs_ns_last xv =
     (let a1l = fst xv; a2l = snd xv;
          y0 = (a1l - a1l * a2l * pow ns_nb_max_l a1l / (1.0 + a2l * pow ns_nb_max_l a1l))
               - cs_ns_last;
          y1 = (a1l - a1l * a2l * pow 2.0 a1l / (1.0 + a2l * pow 2.0 a1l)) - cs_ns_2
      in (0, y0, y1))"

text \<open>
  \<^verbatim>\<open>new_ns_eos(nb, n, e_ns, densdnn)\<close>: the result is the pair of the two output arguments.
  The solver is called with its default \<^verbatim>\<open>err_nonconv=true\<close>, so non-convergence does not
  return. Of the last three cases exactly one holds of two reals; the source writes the third
  as a test for equality.
\<close>

definition new_ns_eos :: "externals \<Rightarrow> eos \<Rightarrow> real \<Rightarrow> fermion \<Rightarrow> error + real \<times> real" where
  "new_ns_eos x st nb n =
     (let e_ns_last = ed_fit x st (ns_nb_max st);
          p_ns_last = mu_fit x st (ns_nb_max st) * ns_nb_max st - e_ns_last
      in
      if nb < ns_nb_max st - 0.000001 then
        Inr (energy_density_ns x st nb, mu_fit x st nb)
      else
        let cs_ns_last = cs2_fit x st (ns_nb_max st);
            cs_ns_2 = phi st
        in
        if cs_ns_2 > cs_ns_last then
          (case msolve_coeff x (solve_coeff_big (ns_nb_max st) cs_ns_2 cs_ns_last) (1.0, 1.0) of
             None \<Rightarrow> Inl Solver_Not_Converged
           | Some (a1l, a2l) \<Rightarrow>
               let c1l = (e_ns_last + f_m n * ns_nb_max st + p_ns_last) /
                         ((ns_nb_max st * ns_nb_max st) * (a2l + pow (ns_nb_max st) (- a1l)));
                   c2l = 0.5 * (e_ns_last + f_m n * ns_nb_max st - p_ns_last +
                         a1l * (e_ns_last + f_m n * ns_nb_max st + p_ns_last) /
                         ((a1l - 2.0) * (1.0 + a2l * pow (ns_nb_max st) a1l)));
                   e_ns = - f_m n * nb +
                          (a2l * nb * nb / 2.0 + pow nb (2.0 - a1l) / (2.0 - a1l)) * c1l + c2l;
                   densdnn = - f_m n + c1l * (a2l * nb + pow nb (1.0 - a1l))
               in Inr (e_ns, densdnn))
        else if cs_ns_2 < cs_ns_last then
          (case msolve_coeff x (solve_coeff_small (ns_nb_max st) cs_ns_2 cs_ns_last) (2.5, 1.0) of
             None \<Rightarrow> Inl Solver_Not_Converged
           | Some (a1l, a2l) \<Rightarrow>
               let hyperg = gsl_sf_hyperg_2F1 x 1.0 1.0 (1.0 - 1.0 / a1l)
                              (1.0 / a2l * pow nb (- a1l) / (1.0 / a2l * pow nb (- a1l) + 1.0));
                   hyperg_max = gsl_sf_hyperg_2F1 x 1.0 1.0 (1.0 - 1.0 / a1l)
                              (1.0 / a2l * pow (ns_nb_max st) (- a1l) /
                               (1.0 / a2l * pow (ns_nb_max st) (- a1l) + 1.0));
                   hyperg_new = hyperg * (1.0 / (1.0 + 1.0 / a2l * pow nb (- a1l)));
                   hyperg_max_new =
                     hyperg_max * (1.0 / (1.0 + 1.0 / a2l * pow (ns_nb_max st) (- a1l)));
                   c1l = pow (ns_nb_max st) (- a1l - 1.0) * (a2l * pow (ns_nb_max st) a1l + 1.0) *
                         (e_ns_last + f_m n * ns_nb_max st + p_ns_last);
                   c2l = pow (ns_nb_max st) (- a1l) *
                         (a2l * pow (ns_nb_max st) a1l * (e_ns_last + f_m n * ns_nb_max st) -
                          (a2l * pow (ns_nb_max st) a1l + 1.0) * hyperg_max_new *
                          (e_ns_last + f_m n * ns_nb_max st + p_ns_last)) / a2l;
                   e_ns = (c1l * nb * hyperg_new) / a2l + c2l - f_m n * nb;
                   densdnn = - (a2l * f_m n * pow nb a1l - c1l * pow nb a1l + f_m n) /
                             (a2l * pow nb a1l + 1.0)
               in Inr (e_ns, densdnn))
        else
          (let e_ns = - f_m n * nb + (e_ns_last + f_m n * ns_nb_max st + p_ns_last) /
                      (1.0 + cs_ns_last) * pow (nb / ns_nb_max st) (cs_ns_last + 1.0) +
                      (cs_ns_last * (e_ns_last + f_m n * ns_nb_max st) - p_ns_last) /
                      (1.0 + cs_ns_last);
               densdnn = - f_m n + (e_ns_last + f_m n * ns_nb_max st + p_ns_last) *
                         pow (nb / ns_nb_max st) cs_ns_last / ns_nb_max st
           in Inr (e_ns, densdnn)))"


section \<open>The virial coefficients\<close>

definition bn_func :: "real list \<Rightarrow> real \<Rightarrow> real" where
  "bn_func par T =
     par ! 0 + par ! 1 * T + par ! 2 * T * T + par ! 3 * T * T * T +
     par ! 4 * exp (- par ! 5 * pow (T - par ! 6) 2.0) + par ! 7 * exp (- par ! 8 * (T - par ! 9))"

definition bpn_func :: "real list \<Rightarrow> real \<Rightarrow> real" where
  "bpn_func par T =
     par ! 0 * exp (- par ! 1 * (T + par ! 2) * (T + par ! 2)) +
     par ! 3 * exp (- par ! 4 * (T + par ! 5))"

definition bn_f :: "eos_crust_virial_v2 \<Rightarrow> real \<Rightarrow> real" where
  "bn_f v T = bn_func (bn_params v) T"

definition bpn_f :: "eos_crust_virial_v2 \<Rightarrow> real \<Rightarrow> real" where
  "bpn_f v T = bpn_func (bpn_params v) T"

definition dbndT_f :: "eos_crust_virial_v2 \<Rightarrow> real \<Rightarrow> real" where
  "dbndT_f v T =
     bn_params v ! 1 + 2.0 * bn_params v ! 2 * T + 3.0 * bn_params v ! 3 * T * T -
     2.0 * bn_params v ! 4 * bn_params v ! 5 * (T - bn_params v ! 6) *
       exp (- bn_params v ! 5 * pow (T - bn_params v ! 6) 2.0) -
     bn_params v ! 7 * bn_params v ! 8 * exp (- bn_params v ! 8 * (T - bn_params v ! 9))"

definition dbpndT_f :: "eos_crust_virial_v2 \<Rightarrow> real \<Rightarrow> real" where
  "dbpndT_f v T =
     - bpn_params v ! 0 * bpn_params v ! 1 * 2.0 * (bpn_params v ! 2 + T) *
       exp (- bpn_params v ! 1 * (T + bpn_params v ! 2) * (T + bpn_params v ! 2)) -
     bpn_params v ! 3 * bpn_params v ! 4 * exp (- bpn_params v ! 4 * (T + bpn_params v ! 5))"

section \<open>The virial free energy\<close>

text \<open>The six output arguments of \<^verbatim>\<open>free_energy_density_virial\<close>.\<close>

record virial_derivs =
  dmundnn :: real
  dmundpn :: real
  dmupdnn :: real
  dmupdpn :: real
  dmundT :: real
  dmupdT :: real

text \<open>
  \<^verbatim>\<open>free_energy_density_virial(n, p, T, th, dmundnn, ..., dmupdT)\<close>. The source tests
  \<^verbatim>\<open>nn*pow(lambda,3.0)>1.0e-5 || pn*pow(lambda,3.0)>1.0e-5\<close> six times on unchanged values;
  the test is \<open>dense\<close> below. The result is the returned free energy, the six derivatives,
  and the objects written: \<^verbatim>\<open>*this\<close> (through \<^verbatim>\<open>acl\<close>), \<^verbatim>\<open>n\<close>, \<^verbatim>\<open>p\<close> and \<^verbatim>\<open>th\<close>.
\<close>

definition free_energy_density_virial ::
  "externals \<Rightarrow> eos \<Rightarrow> fermion \<Rightarrow> fermion \<Rightarrow> real \<Rightarrow> thermo
   \<Rightarrow> error + real \<times> virial_derivs \<times> eos \<times> fermion \<times> fermion \<times> thermo" where
  "free_energy_density_virial x st n p T th =
     (let nn = f_n n;
          pn = f_n p;
          T_MeV = T * hc_mev_fm x;
          b_n = bn_f (ecv st) T_MeV;
          dbndT = dbndT_f (ecv st) T_MeV * hc_mev_fm x;
          b_pn = bpn_f (ecv st) T_MeV;
          dbpndT = dbpndT_f (ecv st) T_MeV * hc_mev_fm x;
          lambda = sqrt (4.0 * pi / (f_m n + f_m p) / T);
          dlambdadT = - sqrt (pi / (f_m n + f_m p)) / pow (sqrt T) 3.0;
          a = (acl st)\<lparr>acl_nn := nn, acl_pn := pn, acl_T := T, acl_b_n := b_n,
                acl_b_pn := b_pn, acl_lambda := lambda\<rparr>;
          dense = (nn * pow lambda 3.0 > 0.00001 \<or> pn * pow lambda 3.0 > 0.00001)
      in
      case (if dense then
              (case solve_fugacity x a of
                 None \<Rightarrow> Inl Solver_Not_Converged
               | Some (xv, a) \<Rightarrow> Inr (n\<lparr>f_mu := fst xv\<rparr>, p\<lparr>f_mu := snd xv\<rparr>, a))
            else
              (let n = n\<lparr>f_mu := ln (nn * pow lambda 3.0 / 2.0) * T\<rparr>;
                   p = p\<lparr>f_mu := ln (pn * pow lambda 3.0 / 2.0) * T\<rparr>;
                   a = a\<lparr>acl_zn := exp (f_mu n / T)\<rparr>;
                   a = a\<lparr>acl_zp := exp (f_mu p / T)\<rparr>
               in Inr (n, p, a)))
      of
        Inl e \<Rightarrow> Inl e
      | Inr (n, p, a) \<Rightarrow>
         (let zn = exp (f_mu n / T);
              zp = exp (f_mu p / T);
              th = th\<lparr>th_pr :=
                     (if dense then
                        2.0 * T / pow lambda 3.0 *
                          (zn + zp + (zn * zn + zp * zp) * b_n + 2.0 * zp * zn * b_pn)
                      else 2.0 * T / pow lambda 3.0 * (zn + zp))\<rparr>;
              f_vir = f_mu n * nn + f_mu p * pn - th_pr th;
              th = th\<lparr>th_en :=
                     (if dense then
                        5.0 * th_pr th / 2.0 / T - nn * ln zn - pn * ln zp +
                        2.0 * T / pow lambda 3.0 *
                          ((zn * zn + zp * zp) * dbndT + 2.0 * zp * zn * dbpndT)
                      else 5.0 * th_pr th / 2.0 / T - nn * ln zn - pn * ln zp)\<rparr>;
              th = th\<lparr>th_ed := f_vir + T * th_en th\<rparr>;
              a = a\<lparr>acl_mfn2_mu_p := f_mu p\<rparr>;
              a = a\<lparr>acl_mfn2_mu_n := f_mu n\<rparr>;
              (dmundnn_v, dmupdnn_v, a) =
                (if dense then (case mfn21 x a of (x2, a) \<Rightarrow> (fst x2, snd x2, a))
                 else (T * pow lambda 3.0 / 2.0 / zn, 0, a));
              (dmundpn_v, dmupdpn_v, a) =
                (if dense then (case mfn31 x a of (x3, a) \<Rightarrow> (fst x3, snd x3, a))
                 else (0, T * pow lambda 3.0 / 2.0 / zp, a));
              a = a\<lparr>acl_dbndT := dbndT, acl_dbpndT := dbpndT, acl_dlambdadT := dlambdadT\<rparr>;
              (dmundT_v, dmupdT_v, a) =
                (if dense then (case mfn41 x a of (x4, a) \<Rightarrow> (fst x4, snd x4, a))
                 else (f_mu n / T, f_mu p / T, a))
          in Inr (f_vir,
                  \<lparr>dmundnn = dmundnn_v, dmundpn = dmundpn_v, dmupdnn = dmupdnn_v,
                   dmupdpn = dmupdpn_v, dmundT = dmundT_v, dmupdT = dmupdT_v\<rparr>,
                  st\<lparr>acl := a\<rparr>, n, p, th)))"

section \<open>The energy of neutron matter\<close>

definition energy_density_qmc :: "externals \<Rightarrow> eos \<Rightarrow> real \<Rightarrow> real \<Rightarrow> real" where
  "energy_density_qmc x st nn np =
     (qmc_a st * pow ((nn + np) / qmc_n0 st) (qmc_alpha st) +
      qmc_b st * pow ((nn + np) / qmc_n0 st) (qmc_beta st)) * (nn + np) / hc_mev_fm x"

text \<open>
  The values that a loop \<^verbatim>\<open>for (v = lo; v < hi; v += step)\<close> over \<^verbatim>\<open>double\<close>s gives its
  variable, in exact arithmetic. Every such loop of the source has a positive step and a
  body that leaves the variable alone. The function is used for the loops whose bounds are
  constants of the source, which make as many passes with the sums of \<^verbatim>\<open>double\<close>s as with
  the sums of reals. The loop of \<^verbatim>\<open>min_max_cs2\<close>, whose bound is read from the neutron star
  table, takes its values from \<open>double_range\<close> instead.
\<close>

function for_range :: "real \<Rightarrow> real \<Rightarrow> real \<Rightarrow> real list" where
  "for_range lo hi step =
     (if lo < hi \<and> 0 < step then lo # for_range (lo + step) hi step else [])"
  by pat_completeness auto
termination
proof (relation "measure (\<lambda>(lo, hi, step). nat \<lceil>(hi - lo) / step\<rceil>)")
  show "wf (measure (\<lambda>(lo, hi, step). nat \<lceil>(hi - lo) / step\<rceil>))"
    by simp
next
  fix lo hi step :: real
  assume a: "lo < hi \<and> 0 < step"
  then have "(hi - (lo + step)) / step = (hi - lo) / step - 1"
    by (simp add: field_simps)
  moreover have "0 < (hi - lo) / step"
    using a by simp
  ultimately show "((lo + step, hi, step), (lo, hi, step))
      \<in> measure (\<lambda>(lo, hi, step). nat \<lceil>(hi - lo) / step\<rceil>)"
    by (simp add: nat_less_iff ceiling_diff_one)
qed

declare for_range.simps [simp del]


section \<open>The free energy density\<close>

text \<open>
  The local variables that \<^verbatim>\<open>free_energy_density\<close> reads off the five Skyrme evaluations
  (the local \<^verbatim>\<open>P_skyrme_eqdenT0\<close> is never read and is left out).
\<close>

record skyrme_values =
  mu_n_skyrme_eqdenT0 :: real
  mu_p_skyrme_eqdenT0 :: real
  f_skyrme_eqdenT0 :: real
  f_skyrme_eqden_T :: real
  mu_p_eqden_T :: real
  mu_n_eqden_T :: real
  s_eqden_T :: real
  f_skyrme_eqden_T0 :: real
  mu_p_eqden_T0 :: real
  mu_n_eqden_T0 :: real
  f_skyrme_neut_T :: real
  mu_p_neut_T :: real
  mu_n_neut_T :: real
  s_neut_T :: real
  f_skyrme_neut_T0 :: real
  mu_p_neut_T0 :: real
  mu_n_neut_T0 :: real

text \<open>
  The part of \<^verbatim>\<open>free_energy_density\<close> from ``Compute the Skyrme EOS in nuclear matter at
  T=0'' up to the QMC section: the densities of \<^verbatim>\<open>n\<close> and \<^verbatim>\<open>p\<close> are overwritten with
  \<^verbatim>\<open>(nn+pn)/2\<close>, and the chiral objects of \<^verbatim>\<open>*this\<close> are evaluated at equal densities and
  in pure neutron matter, each at \<open>T\<close> and at zero temperature.
\<close>

definition fed_skyrme ::
  "externals \<Rightarrow> real \<Rightarrow> real \<Rightarrow> real \<Rightarrow> eos_call \<Rightarrow> skyrme_values \<times> eos_call" where
  "fed_skyrme x nn pn T c =
     (case c of (st, n, p, th) \<Rightarrow>
        let n = n\<lparr>f_n := (nn + pn) / 2.0\<rparr>;
            p = p\<lparr>f_n := (nn + pn) / 2.0\<rparr>;
            (n, p, th) = calc_e x (sk st) n p th;
            nc0 = (n_chiral st)\<lparr>f_n := (nn + pn) / 2.0\<rparr>;
            pc0 = (p_chiral st)\<lparr>f_n := (nn + pn) / 2.0\<rparr>;
            (nc1, pc1, thc1) = calc_temp_e x (sk_chiral st) nc0 pc0 T (th_chiral st);
            (nc2, pc2, thc2) = calc_e x (sk_chiral st) nc1 pc1 thc1;
            nc3 = nc2\<lparr>f_n := nn + pn\<rparr>;
            pc3 = pc2\<lparr>f_n := 0.0\<rparr>;
            (nc4, pc4, thc4) = calc_temp_e x (sk_chiral st) nc3 pc3 T thc2;
            (nc5, pc5, thc5) = calc_e x (sk_chiral st) nc4 pc4 thc4
        in (\<lparr>mu_n_skyrme_eqdenT0 = f_mu n,
             mu_p_skyrme_eqdenT0 = f_mu p,
             f_skyrme_eqdenT0 = th_ed th,
             f_skyrme_eqden_T = th_ed thc1 - T * th_en thc1,
             mu_p_eqden_T = f_mu pc1,
             mu_n_eqden_T = f_mu nc1,
             s_eqden_T = th_en thc1,
             f_skyrme_eqden_T0 = th_ed thc2,
             mu_p_eqden_T0 = f_mu pc2,
             mu_n_eqden_T0 = f_mu nc2,
             f_skyrme_neut_T = th_ed thc4 - T * th_en thc4,
             mu_p_neut_T = f_mu pc4,
             mu_n_neut_T = f_mu nc4,
             s_neut_T = th_en thc4,
             f_skyrme_neut_T0 = th_ed thc5,
             mu_p_neut_T0 = f_mu pc5,
             mu_n_neut_T0 = f_mu nc5\<rparr>,
            st\<lparr>n_chiral := nc5, p_chiral := pc5, th_chiral := thc5\<rparr>, n, p, th))"

text \<open>
  The loop of the \<^verbatim>\<open>test_ns_cs2\<close> block: each pass overwrites \<^verbatim>\<open>e_ns\<close> and
  \<^verbatim>\<open>densdnn\<close>. (The table it fills, the file it writes and the plotting command it starts
  are not part of the state.)
\<close>

fun ns_test_loop ::
  "externals \<Rightarrow> eos \<Rightarrow> fermion \<Rightarrow> real list \<Rightarrow> real \<times> real \<Rightarrow> error + real \<times> real" where
  "ns_test_loop x st n [] r = Inr r"
| "ns_test_loop x st n (nb # nbs) r =
     (case new_ns_eos x st nb n of Inl e \<Rightarrow> Inl e | Inr r' \<Rightarrow> ns_test_loop x st n nbs r')"

text \<open>
  The call of \<^verbatim>\<open>new_ns_eos\<close> and the \<^verbatim>\<open>test_ns_cs2\<close> block. The block uses the local
  \<^verbatim>\<open>nb\<close> as its loop variable, so the result carries the value of \<^verbatim>\<open>nb\<close> afterwards
  along with \<^verbatim>\<open>e_ns\<close> and \<^verbatim>\<open>densdnn\<close>.
\<close>

definition fed_neutron_star ::
  "externals \<Rightarrow> eos \<Rightarrow> real \<Rightarrow> fermion \<Rightarrow> error + real \<times> real \<times> real" where
  "fed_neutron_star x st nb n =
     (case new_ns_eos x st nb n of
        Inl e \<Rightarrow> Inl e
      | Inr r \<Rightarrow>
          if test_ns_cs2 st then
            (case ns_test_loop x st n (for_range 0.08 2.0 0.01) r of
               Inl e \<Rightarrow> Inl e
             | Inr (e_ns, densdnn) \<Rightarrow>
                 Inr (0.08 + 0.01 * real (length (for_range 0.08 2.0 0.01)), e_ns, densdnn))
          else Inr (nb, fst r, snd r))"

text \<open>What the sections ``Combine all the results'', ``Compute derivatives for chemical
  potentials'' and ``Compute derivatives for entropy'' compute.\<close>

record combined_values =
  f_deg_v :: real
  f_total_v :: real
  n_mu_v :: real
  p_mu_v :: real
  dgvirialdT_v :: real
  th_en_v :: real

definition fed_combine ::
  "externals \<Rightarrow> eos \<Rightarrow> real \<Rightarrow> real \<Rightarrow> real \<Rightarrow> real \<Rightarrow> real \<Rightarrow> real \<Rightarrow> real \<Rightarrow> real \<Rightarrow> real
   \<Rightarrow> real \<Rightarrow> real \<Rightarrow> virial_derivs \<Rightarrow> skyrme_values \<Rightarrow> real \<Rightarrow> real \<Rightarrow> real
   \<Rightarrow> combined_values" where
  "fed_combine x st T nn pn nb ye n0 dfvirialdT mu_n_virial mu_p_virial zn zp dv sv e_qmc e_ns
     densdnn =
     (let gamma = 20.0;
          h = 1.0 / (1.0 + exp (gamma * (nn + pn - n0 * 1.5)));
          e_combine = e_qmc * h + e_ns * (1.0 - h);
          e_sym = e_combine - f_skyrme_eqdenT0 sv;
          dyednn = - pn / nb / nb;
          dyedpn = nn / nb / nb;
          delta2 = (1.0 - 2.0 * ye) * (1.0 - 2.0 * ye);
          ddelta2dnn = 2.0 * (1.0 - 2.0 * ye) * (- 2.0 * dyednn);
          ddelta2dpn = 2.0 * (1.0 - 2.0 * ye) * (- 2.0 * dyedpn);
          f_deg_l = f_skyrme_eqdenT0 sv + delta2 * e_sym +
                    delta2 * (f_skyrme_neut_T sv - f_skyrme_neut_T0 sv) +
                    (1.0 - delta2) * (f_skyrme_eqden_T sv - f_skyrme_eqden_T0 sv);
          f_total = f_virial st * g_virial st + f_deg_l * (1.0 - g_virial st);
          dgvirialdnn =
            - (1.0 / pow (a_virial st * zn * zn + a_virial st * zp * zp +
                          b_virial st * zn * zp + 1.0) 2.0) *
              (2.0 * a_virial st * zn * zn / T * dmundnn dv +
               2.0 * a_virial st * zp * zp / T * dmupdnn dv +
               b_virial st * zn * zp / T * dmundnn dv +
               b_virial st * zn * zp / T * dmupdnn dv);
          dgvirialdpn =
            - (1.0 / pow (a_virial st * zn * zn + a_virial st * zp * zp +
                          b_virial st * zn * zp + 1.0) 2.0) *
              (2.0 * a_virial st * zn * zn / T * dmundpn dv +
               2.0 * a_virial st * zp * zp / T * dmupdpn dv +
               b_virial st * zn * zp / T * dmundpn dv +
               b_virial st * zn * zp / T * dmupdpn dv);
          dfvirialdnn = mu_n_virial;
          dfvirialdpn = mu_p_virial;
          dfskyrme_eqden_T0dnn = (mu_n_skyrme_eqdenT0 sv + mu_p_skyrme_eqdenT0 sv) / 2.0;
          dfskyrme_eqden_T0dpn = dfskyrme_eqden_T0dnn;
          dhdnn = - gamma * exp (gamma * (nn + pn - 1.5 * n0)) /
                  (1.0 + exp (gamma * (nn + pn - 1.5 * n0))) /
                  (1.0 + exp (gamma * (nn + pn - 1.5 * n0)));
          desymdnn =
            ((qmc_a st * pow ((nn + pn) / qmc_n0 st) (qmc_alpha st) * (qmc_alpha st + 1.0) +
              qmc_b st * pow ((nn + pn) / qmc_n0 st) (qmc_beta st) * (qmc_beta st + 1.0)) /
             hc_mev_fm x) * h + e_qmc * dhdnn +
            densdnn * (1.0 - h) - e_ns * dhdnn - dfskyrme_eqden_T0dpn / 2.0 -
            dfskyrme_eqden_T0dnn / 2.0;
          desymdpn = desymdnn;
          dfdegdnn =
            dfskyrme_eqden_T0dnn + (1.0 - 2.0 * ye) * (1.0 - 2.0 * ye) * desymdnn +
            ddelta2dnn * e_sym +
            delta2 * (mu_n_neut_T sv - mu_n_neut_T0 sv) +
            ddelta2dnn * (f_skyrme_neut_T sv - f_skyrme_neut_T0 sv) +
            (1.0 - delta2) * (mu_n_eqden_T sv / 2.0 + mu_p_eqden_T sv / 2.0 -
                              mu_n_eqden_T0 sv / 2.0 - mu_p_eqden_T0 sv / 2.0) -
            ddelta2dnn * (f_skyrme_eqden_T sv - f_skyrme_eqden_T0 sv);
          dfdegdpn =
            dfskyrme_eqden_T0dpn + (1.0 - 2.0 * ye) * (1.0 - 2.0 * ye) * desymdpn +
            ddelta2dpn * e_sym +
            delta2 * (mu_n_neut_T sv - mu_n_neut_T0 sv) +
            ddelta2dpn * (f_skyrme_neut_T sv - f_skyrme_neut_T0 sv) +
            (1.0 - delta2) * (mu_p_eqden_T sv / 2.0 + mu_n_eqden_T sv / 2.0 -
                              mu_p_eqden_T0 sv / 2.0 - mu_n_eqden_T0 sv / 2.0) -
            ddelta2dpn * (f_skyrme_eqden_T sv - f_skyrme_eqden_T0 sv);
          n_mu = dfvirialdnn * g_virial st + f_virial st * dgvirialdnn +
                 dfdegdnn * (1 - g_virial st) + f_deg_l * (- dgvirialdnn);
          p_mu = dfvirialdpn * g_virial st + f_virial st * dgvirialdpn +
                 dfdegdpn * (1 - g_virial st) + f_deg_l * (- dgvirialdpn);
          dgvirialdT_l =
            - (1.0 / pow (1.0 + a_virial st * zn * zn + a_virial st * zp * zp +
                          b_virial st * zn * zp) 2.0) *
              (2.0 * a_virial st * zn * zn * dmundT dv / T -
               2.0 * a_virial st * zn * zn * mu_n_virial / T / T +
               2.0 * a_virial st * zp * zp * dmupdT dv / T -
               2.0 * a_virial st * zp * zp * mu_p_virial / T / T +
               b_virial st * zn * zp * dmundT dv / T + b_virial st * zn * zp * dmupdT dv / T -
               b_virial st * zn * zp * mu_n_virial / T / T -
               b_virial st * zn * zp * mu_p_virial / T / T);
          dfdegdT = delta2 * (- s_neut_T sv) + (1.0 - delta2) * (- s_eqden_T sv);
          th_en_l = - (dfvirialdT * g_virial st + f_virial st * dgvirialdT_l +
                       dfdegdT * (1 - g_virial st) + f_deg_l * (- dgvirialdT_l))
      in \<lparr>f_deg_v = f_deg_l, f_total_v = f_total, n_mu_v = n_mu, p_mu_v = p_mu,
          dgvirialdT_v = dgvirialdT_l, th_en_v = th_en_l\<rparr>)"

text \<open>
  \<^verbatim>\<open>free_energy_density(n, p, T, th)\<close>. The result is the returned \<^verbatim>\<open>f_total\<close> and the
  objects written. \<^verbatim>\<open>O2SCL_ERR\<close> does not return. The references \<^verbatim>\<open>n\<close>, \<^verbatim>\<open>p\<close> and
  \<^verbatim>\<open>th\<close> are objects of their own here, as in every call of the source, which passes
  \<^verbatim>\<open>neutron\<close>, \<^verbatim>\<open>proton\<close> and \<^verbatim>\<open>th2\<close> or local copies and never the chiral objects.
  The output under \<^verbatim>\<open>verbose>=1\<close> does not change the state.
\<close>

definition free_energy_density ::
  "externals \<Rightarrow> eos \<Rightarrow> fermion \<Rightarrow> fermion \<Rightarrow> real \<Rightarrow> thermo \<Rightarrow> error + real \<times> eos_call" where
  "free_energy_density x st n p T th =
     (if model_selected st = False then Inl No_Model_Selected
      else
        let nn = f_n n;
            pn = f_n p;
            nb = nn + pn;
            ye = pn / nb;
            n0 = 0.16
        in
        case free_energy_density_virial x st n p T th of
          Inl e \<Rightarrow> Inl e
        | Inr (f_vir, dv, st, n, p, th) \<Rightarrow>
            let st = st\<lparr>f_virial := f_vir\<rparr>;
                st = st\<lparr>s_virial := th_en th\<rparr>;
                dfvirialdT = - th_en th;
                mu_n_virial = f_mu n;
                mu_p_virial = f_mu p;
                zn = exp (mu_n_virial / T);
                zp = exp (mu_p_virial / T);
                st = st\<lparr>g_virial := 1.0 / (a_virial st * zn * zn + a_virial st * zp * zp +
                                           b_virial st * zn * zp + 1.0)\<rparr>;
                (sv, st, n, p, th) = fed_skyrme x nn pn T (st, n, p, th);
                e_qmc = energy_density_qmc x st nn pn
            in
            case fed_neutron_star x st nb n of
              Inl e \<Rightarrow> Inl e
            | Inr (nb, e_ns, densdnn) \<Rightarrow>
                let cv = fed_combine x st T nn pn nb ye n0 dfvirialdT mu_n_virial mu_p_virial
                           zn zp dv sv e_qmc e_ns densdnn;
                    st = st\<lparr>f_deg := f_deg_v cv\<rparr>;
                    n = n\<lparr>f_mu := n_mu_v cv\<rparr>;
                    p = p\<lparr>f_mu := p_mu_v cv\<rparr>;
                    st = st\<lparr>dgvirialdT := dgvirialdT_v cv\<rparr>;
                    n = n\<lparr>f_n := nn\<rparr>;
                    p = p\<lparr>f_n := pn\<rparr>;
                    th = th\<lparr>th_en := th_en_v cv\<rparr>;
                    th = th\<lparr>th_pr := - f_total_v cv + f_n n * f_mu n + f_n p * f_mu p\<rparr>;
                    th = th\<lparr>th_ed := f_total_v cv + T * th_en th\<rparr>
                in Inr (f_total_v cv, st, n, p, th))"


section \<open>Quantities with the leptons and photons\<close>

text \<open>Sequencing of calls that may not return.\<close>

definition bind_err :: "error + 'a \<Rightarrow> ('a \<Rightarrow> error + 'b) \<Rightarrow> error + 'b" where
  "bind_err r f = (case r of Inl e \<Rightarrow> Inl e | Inr v \<Rightarrow> f v)"

text \<open>
  The next four functions take the arguments \<^verbatim>\<open>nn\<close>, \<^verbatim>\<open>pn\<close>, \<^verbatim>\<open>T\<close> and work on the objects
  \<^verbatim>\<open>*this\<close>, \<^verbatim>\<open>n\<close>, \<^verbatim>\<open>p\<close>, \<^verbatim>\<open>th\<close>.
\<close>

definition entropy :: "externals \<Rightarrow> real \<Rightarrow> real \<Rightarrow> real \<Rightarrow> eos_call \<Rightarrow> error + real \<times> eos_call" where
  "entropy x nn pn T c =
     (case c of (st, n, p, th) \<Rightarrow>
        let n = n\<lparr>f_n := nn\<rparr>;
            p = p\<lparr>f_n := pn\<rparr>
        in
        case free_energy_density x st n p T th of
          Inl e \<Rightarrow> Inl e
        | Inr (f, st, n, p, th) \<Rightarrow>
            let el = (electron st)\<lparr>f_n := pn\<rparr>;
                el = el\<lparr>f_mu := f_m el\<rparr>;
                st = st\<lparr>electron := pair_density x el T\<rparr>;
                st = st\<lparr>photon := massless_calc x (photon st) T\<rparr>
            in Inr (th_en th + f_en (electron st) + b_en (photon st), st, n, p, th))"

definition ed :: "externals \<Rightarrow> real \<Rightarrow> real \<Rightarrow> real \<Rightarrow> eos_call \<Rightarrow> error + real \<times> eos_call" where
  "ed x nn pn T c =
     (case c of (st, n, p, th) \<Rightarrow>
        let n = n\<lparr>f_n := nn\<rparr>;
            p = p\<lparr>f_n := pn\<rparr>
        in
        case free_energy_density x st n p T th of
          Inl e \<Rightarrow> Inl e
        | Inr (f, st, n, p, th) \<Rightarrow>
            let el = (electron st)\<lparr>f_n := pn\<rparr>;
                el = el\<lparr>f_mu := f_m el\<rparr>;
                st = st\<lparr>electron := pair_density x el T\<rparr>;
                st = st\<lparr>photon := massless_calc x (photon st) T\<rparr>
            in Inr (th_ed th + f_ed (electron st) + b_ed (photon st) + f_m n * nn + f_m p * pn,
                    st, n, p, th))"

definition dfdnn_total ::
  "externals \<Rightarrow> real \<Rightarrow> real \<Rightarrow> real \<Rightarrow> eos_call \<Rightarrow> error + real \<times> eos_call" where
  "dfdnn_total x nn pn T c =
     (case c of (st, n, p, th) \<Rightarrow>
        let n = n\<lparr>f_n := nn\<rparr>;
            p = p\<lparr>f_n := pn\<rparr>
        in
        case free_energy_density x st n p T th of
          Inl e \<Rightarrow> Inl e
        | Inr (f, st, n, p, th) \<Rightarrow>
            let el = (electron st)\<lparr>f_n := pn\<rparr>;
                el = el\<lparr>f_mu := f_m el\<rparr>;
                st = st\<lparr>electron := pair_density x el T\<rparr>
            in Inr (f_mu n + f_m n, st, n, p, th))"

definition dfdpn_total ::
  "externals \<Rightarrow> real \<Rightarrow> real \<Rightarrow> real \<Rightarrow> eos_call \<Rightarrow> error + real \<times> eos_call" where
  "dfdpn_total x nn pn T c =
     (case c of (st, n, p, th) \<Rightarrow>
        let n = n\<lparr>f_n := nn\<rparr>;
            p = p\<lparr>f_n := pn\<rparr>
        in
        case free_energy_density x st n p T th of
          Inl e \<Rightarrow> Inl e
        | Inr (f, st, n, p, th) \<Rightarrow>
            let el = (electron st)\<lparr>f_n := pn\<rparr>;
                el = el\<lparr>f_mu := f_m el\<rparr>;
                st = st\<lparr>electron := pair_density x el T\<rparr>
            in Inr (f_mu p + f_mu (electron st) + f_m p, st, n, p, th))"

section \<open>The speed of sound at fixed electron fraction\<close>

text \<open>
  \<^verbatim>\<open>cs2_fixYe(n, p, T, th)\<close>. The nine derivatives are taken by \<^verbatim>\<open>deriv_gsl\<close> of functions
  that work on the objects of the call through references. The entropy and the energy
  density are then evaluated on the copies \<^verbatim>\<open>n1\<close>, \<^verbatim>\<open>p1\<close>, \<^verbatim>\<open>th1\<close>, which are local, and on
  \<^verbatim>\<open>*this\<close>.
\<close>

definition cs2_fixYe :: "externals \<Rightarrow> real \<Rightarrow> eos_call \<Rightarrow> error + real \<times> eos_call" where
  "cs2_fixYe x T c =
     (case c of (st, n, p, th) \<Rightarrow>
      let nn = f_n n;
          pn = f_n p
      in
      bind_err (free_energy_density x st n p T th) (\<lambda>(f, st, n, p, th).
      let th1 = th; n1 = n; p1 = p in
      bind_err (deriv x nn (\<lambda>v. dfdnn_total x v pn T) (st, n, p, th)) (\<lambda>(dfdnn_totaldnn, c).
      bind_err (deriv x pn (\<lambda>v. dfdnn_total x nn v T) c) (\<lambda>(dfdnn_totaldpn, c).
      bind_err (deriv x T (\<lambda>v. dfdnn_total x nn pn v) c) (\<lambda>(dfdnn_totaldT, c).
      bind_err (deriv x nn (\<lambda>v. dfdpn_total x v pn T) c) (\<lambda>(dfdpn_totaldnn, c).
      bind_err (deriv x pn (\<lambda>v. dfdpn_total x nn v T) c) (\<lambda>(dfdpn_totaldpn, c).
      bind_err (deriv x T (\<lambda>v. dfdpn_total x nn pn v) c) (\<lambda>(dfdpn_totaldT, c).
      bind_err (deriv x T (\<lambda>v. entropy x nn pn v) c) (\<lambda>(dsdT, c).
      bind_err (deriv x nn (\<lambda>v. entropy x v pn T) c) (\<lambda>(dsdnn, c).
      bind_err (deriv x pn (\<lambda>v. entropy x nn v T) c) (\<lambda>(dsdpn, c).
      let dfdnbdT = dfdnn_totaldT;
          dfdnedT = dfdpn_totaldT - dfdnn_totaldT;
          dfdnbdne = dfdnn_totaldpn - dfdnn_totaldnn;
          dfdTdT = - dsdT;
          dfdnbdnb = dfdnn_totaldnn;
          dfdnedne = dfdpn_totaldpn + dfdnn_totaldnn - dfdpn_totaldnn - dfdnn_totaldpn
      in
      bind_err (dfdpn_total x nn pn T c) (\<lambda>(dfdpn_total1, c).
      bind_err (dfdnn_total x nn pn T c) (\<lambda>(dfdnn_total1, (st, n, p, th)).
      let nb = f_n n1 + f_n p1;
          mub = dfdnn_total1;
          mul = dfdpn_total1 - dfdnn_total1
      in
      bind_err (entropy x (f_n n1) (f_n p1) T (st, n1, p1, th1)) (\<lambda>(s, (st, n1, p1, th1)).
      bind_err (ed x (f_n n1) (f_n p1) T (st, n1, p1, th1)) (\<lambda>(ed1, (st, n1, p1, th1)).
      let ne = f_n p1;
          dPdnb = dfdnbdnb * nb + dfdnbdne * ne;
          dPdne = dfdnbdne * nb + dfdnedne * ne;
          dPdT = dfdnbdT * nb + dfdnedT * ne + s;
          pr = mul * ne + mub * nb + T * s - ed1;
          cs_sq = (- nb * dPdnb * dfdTdT - ne * dPdne * dfdTdT +
                   dPdT * (dfdnbdT * nb + dfdnedT * ne + s)) / ((pr + ed1) * (- dfdTdT))
      in Inr (cs_sq, st, n, p, th))))))))))))))))"

section \<open>Fitting the neutron star table\<close>

text \<open>
  \<^verbatim>\<open>min_max_cs2(cs2_min, cs2_max)\<close>. The loop \<^verbatim>\<open>for(nb=0.04;nb<ns_nb_max;nb+=0.02)\<close> runs
  over the values that the sums of \<^verbatim>\<open>double\<close>s give \<^verbatim>\<open>nb\<close>.
\<close>

definition min_max_cs2 :: "externals \<Rightarrow> eos \<Rightarrow> real \<times> real" where
  "min_max_cs2 x st =
     (let cs2 = cs2_fit x st 0.08
      in fold (\<lambda>nb (cs2_min, cs2_max).
                 let cs2 = cs2_fit x st nb
                 in (if cs2 < cs2_min then cs2 else cs2_min,
                     if cs2 > cs2_max then cs2 else cs2_max))
           (double_range x 0.04 (ns_nb_max st) 0.02) (cs2, cs2))"

text \<open>
  \<^verbatim>\<open>ns_fit(row)\<close>. The comparison \<^verbatim>\<open>row>=nstar_tab.get_nlines()\<close> converts the \<^verbatim>\<open>int\<close> to
  \<^verbatim>\<open>size_t\<close>, so a negative row is rejected as well. The local table \<^verbatim>\<open>nstar_high\<close> is the
  list \<open>rows\<close> of its columns \<^verbatim>\<open>nb\<close> and \<^verbatim>\<open>EoA\<close>; the column \<^verbatim>\<open>Eerr\<close> is
  \<^verbatim>\<open>abs(EoA)/100\<close>, and of the columns added after the fit only \<^verbatim>\<open>cs2_fit\<close> is read again.
  The loop that readjusts \<^verbatim>\<open>ns_nb_max\<close> runs to \<^verbatim>\<open>get_nlines()-1\<close> in \<^verbatim>\<open>size_t\<close>; on an
  empty table its first lookup is out of range.
\<close>

definition ns_fit :: "externals \<Rightarrow> eos \<Rightarrow> int \<Rightarrow> error + eos" where
  "ns_fit x st row =
     (if row < 0 \<or> row \<ge> int (get_nlines (nstar_tab st)) then Inl Row_Not_Allowed
      else
        let st = st\<lparr>i_ns := row\<rparr>;
            st = st\<lparr>ns_fit_parms := [- 6102.748, 3053.497, 4662.834, - 837.1958, - 522.8209]\<rparr>
        in
        case tab_get (nstar_tab st) ''nb_max'' (i_ns st) of
          None \<Rightarrow> Inl Table_Lookup_Failed
        | Some nb_max \<Rightarrow>
            let st = st\<lparr>ns_nb_max := nb_max\<rparr>;
                idx = takeWhile (\<lambda>i. 0.04 + real i * 0.012 < ns_nb_max st + 0.000001) [0..<100]
            in
            case those (map (\<lambda>i. tab_get (nstar_tab st) (''EoA_'' @ szttos x i) (i_ns st)) idx) of
              None \<Rightarrow> Inl Table_Lookup_Failed
            | Some vals \<Rightarrow>
                let rows = map (\<lambda>(i, v). (0.04 + real i * 0.012, v * hc_mev_fm x))
                             (filter (\<lambda>(i, v). \<bar>v\<bar> > 0.01) (zip idx vals));
                    dat = map (\<lambda>(nb, EoA). (nb, EoA, \<bar>EoA\<bar> / 100)) rows
                in
                case fit x (fit_fun (old_ns_fit st)) dat (ns_fit_parms st) of
                  None \<Rightarrow> Inl Fit_Failed
                | Some (parms, chi2) \<Rightarrow>
                    let st = st\<lparr>ns_fit_parms := parms, chi2_ns := chi2\<rparr>;
                        nbs = map fst rows;
                        cs2s = map (\<lambda>nb. cs2_fit x st nb) nbs
                    in
                    if rows = [] then Inl Table_Lookup_Failed
                    else
                      let nb_new =
                            fold (\<lambda>j nb_new.
                                    if cs2s ! j < 1.0 \<and> cs2s ! (j + 1) > 1.0 then
                                      nbs ! j + (nbs ! (j + 1) - nbs ! j) * (1.0 - cs2s ! j) /
                                                (cs2s ! (j + 1) - cs2s ! j)
                                    else nb_new)
                              [0..<length rows - 1] 0.0;
                          st = (if nb_new > 0.01 then st\<lparr>ns_nb_max := nb_new\<rparr> else st)
                      in if ns_record st then Inl Exit_Process else Inr st)"

section \<open>Selecting a model\<close>

text \<open>
  \<^verbatim>\<open>solve_Ye(nv, x, y, nb, T, muL)\<close> on the objects \<^verbatim>\<open>neutron\<close>, \<^verbatim>\<open>proton\<close>, \<^verbatim>\<open>th2\<close> of
  \<^verbatim>\<open>*this\<close>; \<open>Ye\<close> is \<^verbatim>\<open>x[0]\<close> and \<open>y\<close> the content of \<^verbatim>\<open>y[0]\<close> on entry, which the early
  return leaves as it is.
\<close>

definition solve_Ye ::
  "externals \<Rightarrow> real \<Rightarrow> real \<Rightarrow> real \<Rightarrow> real \<Rightarrow> real \<Rightarrow> eos \<Rightarrow> error + (int \<times> real) \<times> eos" where
  "solve_Ye x nb T muL Ye y st =
     (let st = st\<lparr>neutron := (neutron st)\<lparr>f_n := nb * (1.0 - Ye)\<rparr>\<rparr>;
          st = st\<lparr>proton := (proton st)\<lparr>f_n := nb * Ye\<rparr>\<rparr>;
          (n, p) = eff_mass x (sk st) (neutron st) (proton st);
          st = st\<lparr>neutron := n, proton := p\<rparr>
      in
      if f_ms (neutron st) < 0.0 \<or> f_ms (proton st) < 0.0 then Inr ((1, y), st)
      else
        case free_energy_density x st (neutron st) (proton st) T (th2 st) of
          Inl e \<Rightarrow> Inl e
        | Inr (f, st, n, p, th) \<Rightarrow>
            let st = st\<lparr>neutron := n, proton := p, th2 := th\<rparr>;
                st = st\<lparr>photon := massless_calc x (photon st) T\<rparr>;
                el = (electron st)\<lparr>f_n := f_n (proton st)\<rparr>;
                el = el\<lparr>f_mu := f_m el\<rparr>;
                st = st\<lparr>electron := pair_density x el T\<rparr>
            in Inr ((0, f_mu (neutron st) - f_mu (proton st) - f_mu (electron st) + muL +
                        f_m (neutron st) - f_m (proton st)), st))"

text \<open>The loop ``Test to make sure dineutrons are not bound'': \<open>False\<close> is the return with
  code 4.\<close>

fun dineutron_loop :: "externals \<Rightarrow> eos \<Rightarrow> real list \<Rightarrow> bool \<times> eos" where
  "dineutron_loop x st [] = (True, st)"
| "dineutron_loop x st (nb # nbs) =
     (let st = st\<lparr>neutron := (neutron st)\<lparr>f_n := nb\<rparr>\<rparr>;
          st = st\<lparr>proton := (proton st)\<lparr>f_n := 0.0\<rparr>\<rparr>;
          (n, p, th) = calc_e x (sk st) (neutron st) (proton st) (th2 st);
          st = st\<lparr>neutron := n, proton := p, th2 := th\<rparr>
      in if th_ed (th2 st) / nb < 0.0 then (False, st\<lparr>model_selected := False\<rparr>)
         else dineutron_loop x st nbs)"

text \<open>The block that the source repeats three times under ``Ensure effective masses are
  positive'', for the densities \<open>nn\<close> and \<open>pn\<close>.\<close>

definition effective_masses :: "eos \<Rightarrow> real \<Rightarrow> real \<Rightarrow> eos" where
  "effective_masses st nn pn =
     (let n = (neutron st)\<lparr>f_n := nn\<rparr>;
          p = (proton st)\<lparr>f_n := pn\<rparr>;
          term = 0.25 * (sk_t1 (sk st) * (1.0 + sk_x1 (sk st) / 2.0) +
                         sk_t2 (sk st) * (1.0 + sk_x2 (sk st) / 2.0));
          term2 = 0.25 * (sk_t2 (sk st) * (0.5 + sk_x2 (sk st)) -
                          sk_t1 (sk st) * (0.5 + sk_x1 (sk st)));
          n = n\<lparr>f_ms := f_m n / (1.0 + 2.0 * ((f_n n + f_n p) * term + f_n n * term2) * f_m n)\<rparr>;
          p = p\<lparr>f_ms := f_m p / (1.0 + 2.0 * ((f_n n + f_n p) * term + f_n p * term2) * f_m p)\<rparr>
      in st\<lparr>neutron := n, proton := p\<rparr>)"

text \<open>The loop ``Test beta equilibrium''; the result is the code returned (8 or 9), or 0
  when the loop ends.\<close>

fun beta_eq_loop :: "externals \<Rightarrow> eos \<Rightarrow> real list \<Rightarrow> error + int \<times> eos" where
  "beta_eq_loop x st [] = Inr (0, st)"
| "beta_eq_loop x st (nbx # nbxs) =
     (let verbose_store = verbose st;
          st = st\<lparr>verbose := 0\<rparr>
      in
      case msolve_state x (solve_Ye x nbx (1.0 / hc_mev_fm x) 0.0) 0.05 st of
        Inl e \<Rightarrow> Inl e
      | Inr ((ret, Ye), st) \<Rightarrow>
          if ret \<noteq> 0 then Inr (8, st\<lparr>model_selected := False\<rparr>)
          else
            let st = st\<lparr>verbose := verbose_store\<rparr>
            in if Ye < 0.0 \<or> Ye > 1.0 then Inr (9, st\<lparr>model_selected := False\<rparr>)
               else beta_eq_loop x st nbxs)"

text \<open>The points of the three nested loops under ``Test cs2'', in the order of the
  evaluation, and the loop itself: a negative value ends the process.\<close>

definition cs2_grid :: "externals \<Rightarrow> (real \<times> real \<times> real) list" where
  "cs2_grid x =
     concat (map (\<lambda>nbx.
       concat (map (\<lambda>yex.
         map (\<lambda>Tx. (nbx, yex, Tx))
           (for_range (1.0 / hc_mev_fm x) (10.01 / hc_mev_fm x) (9.0 / hc_mev_fm x)))
         (for_range 0.05 0.4501 0.1)))
       (for_range 0.1 2.00001 0.05))"

fun cs2_loop :: "externals \<Rightarrow> eos \<Rightarrow> (real \<times> real \<times> real) list \<Rightarrow> error + eos" where
  "cs2_loop x st [] = Inr st"
| "cs2_loop x st ((nbx, yex, Tx) # pts) =
     (let st = st\<lparr>neutron := (neutron st)\<lparr>f_n := nbx * (1.0 - yex)\<rparr>\<rparr>;
          st = st\<lparr>proton := (proton st)\<lparr>f_n := nbx * yex\<rparr>\<rparr>
      in
      case cs2_fixYe x Tx (st, neutron st, proton st, th2 st) of
        Inl e \<Rightarrow> Inl e
      | Inr (cs2x, st, n, p, th) \<Rightarrow>
          let st = st\<lparr>neutron := n, proton := p, th2 := th\<rparr>
          in if cs2x < 0.0 then Inl Exit_Process else cs2_loop x st pts)"


text \<open>
  \<^verbatim>\<open>select_internal\<close> from the lookups in the Skyrme table to its end. The result is the
  returned code and the object.
\<close>

definition select_skyrme :: "externals \<Rightarrow> eos \<Rightarrow> error + int \<times> eos" where
  "select_skyrme x st =
     (case those (map (\<lambda>c. tab_get (UNEDF_tab st) c (i_skyrme st))
                   [''rho0'', ''Crdr0'', ''Vp'', ''EoA'', ''Crdr1'', ''CrdJ0'', ''K'', ''Ms_inv'',
                    ''Vn'', ''CrdJ1'']) of
        Some [rho0, Crdr0, Vp, EoA, Crdr1, CrdJ0, K, Ms_inv, Vn, CrdJ1] \<Rightarrow>
          let st = st\<lparr>eos_n0 := rho0\<rparr>;
              st = st\<lparr>eos_EoA := EoA\<rparr>;
              st = st\<lparr>eos_K := K\<rparr>;
              st = st\<lparr>qmc_b := eos_S st + EoA - qmc_a st\<rparr>;
              st = st\<lparr>qmc_beta := (eos_L st / 3.0 - qmc_a st * qmc_alpha st) / qmc_b st\<rparr>
          in
          if qmc_b st < 0.0 \<or> qmc_beta st > 5.0 then Inr (3, st\<lparr>model_selected := False\<rparr>)
          else
            let Ms_star = 1 / Ms_inv;
                st = st\<lparr>sk := alt_params_saturation x (sk st)
                       [rho0, EoA / hc_mev_fm x, K / hc_mev_fm x, Ms_star,
                        eos_S st / hc_mev_fm x, eos_L st / hc_mev_fm x, 1.0 / 1.249,
                        Crdr0 / hc_mev_fm x, Crdr1 / hc_mev_fm x, CrdJ0 / hc_mev_fm x,
                        CrdJ1 / hc_mev_fm x]\<rparr>
            in
            case dineutron_loop x st (for_range 0.01 0.16 0.001) of
              (False, st) \<Rightarrow> Inr (4, st)
            | (True, st) \<Rightarrow>
                let st = effective_masses st 1.0 1.0 in
                if f_ms (neutron st) < 0.0 \<or> f_ms (proton st) < 0.0 then
                  Inr (5, st\<lparr>model_selected := False\<rparr>)
                else
                  let st = effective_masses st 2.0 0.0 in
                  if f_ms (neutron st) < 0.0 \<or> f_ms (proton st) < 0.0 then
                    Inr (6, st\<lparr>model_selected := False\<rparr>)
                  else
                    let st = effective_masses st 0.0 2.0 in
                    if f_ms (neutron st) < 0.0 \<or> f_ms (proton st) < 0.0 then
                      Inr (7, st\<lparr>model_selected := False\<rparr>)
                    else
                      case beta_eq_loop x st (for_range 0.1 2.00001 0.05) of
                        Inl e \<Rightarrow> Inl e
                      | Inr (code, st) \<Rightarrow>
                          if code \<noteq> 0 then Inr (code, st)
                          else
                            let st = st\<lparr>model_selected := True\<rparr> in
                            if select_cs2_test st then
                              (case cs2_loop x st (cs2_grid x) of
                                 Inl e \<Rightarrow> Inl e
                               | Inr st \<Rightarrow> Inr (0, st))
                            else Inr (0, st)
      | _ \<Rightarrow> Inl Table_Lookup_Failed)"

definition select_internal ::
  "externals \<Rightarrow> eos \<Rightarrow> int \<Rightarrow> int \<Rightarrow> real \<Rightarrow> real \<Rightarrow> real \<Rightarrow> real \<Rightarrow> real \<Rightarrow> error + int \<times> eos" where
  "select_internal x st i_ns_loc i_skyrme_loc qmc_alpha_loc qmc_a_loc eos_L_loc eos_S_loc phi_loc =
     (let st = st\<lparr>i_ns := i_ns_loc\<rparr>;
          st = st\<lparr>i_skyrme := i_skyrme_loc\<rparr>;
          st = st\<lparr>qmc_alpha := qmc_alpha_loc\<rparr>;
          st = st\<lparr>qmc_a := qmc_a_loc\<rparr>;
          st = st\<lparr>eos_L := eos_L_loc\<rparr>;
          st = st\<lparr>eos_S := eos_S_loc\<rparr>;
          st = st\<lparr>phi := phi_loc\<rparr>;
          st = st\<lparr>model_selected := True\<rparr>
      in
      case ns_fit x st (i_ns st) of
        Inl e \<Rightarrow> Inl e
      | Inr st \<Rightarrow>
          let (ns_min_cs2, ns_max_cs2) = min_max_cs2 x st in
          if ns_min_cs2 < 0.0 then Inr (1, st\<lparr>model_selected := False\<rparr>)
          else if 9.17 * eos_S st - 266.0 > eos_L st \<or> 14.3 * eos_S st - 379.0 < eos_L st then
            Inr (2, st\<lparr>model_selected := False\<rparr>)
          else select_skyrme x st)"

text \<open>
  \<^verbatim>\<open>point\<close>, with its three arguments already converted from strings: the baryon density,
  the electron fraction and the temperature in MeV.
\<close>

definition point :: "externals \<Rightarrow> eos \<Rightarrow> real \<Rightarrow> real \<Rightarrow> real \<Rightarrow> error + int \<times> eos" where
  "point x st nB Ye T_MeV =
     (if model_selected st = False then Inr (1, st)
      else
        let T = T_MeV / hc_mev_fm x;
            st = st\<lparr>neutron := (neutron st)\<lparr>f_n := nB * (1.0 - Ye)\<rparr>\<rparr>;
            st = st\<lparr>proton := (proton st)\<lparr>f_n := nB * Ye\<rparr>\<rparr>
        in
        case free_energy_density x st (neutron st) (proton st) T (th2 st) of
          Inl e \<Rightarrow> Inl e
        | Inr (f, st, n, p, th) \<Rightarrow> Inr (0, st\<lparr>neutron := n, proton := p, th2 := th\<rparr>))"

text \<open>The thermal wavelength that \<^verbatim>\<open>free_energy_density_virial\<close> computes as
  \<^verbatim>\<open>lambda\<close>, for the statements about its two regimes.\<close>

definition thermal_wavelength :: "fermion \<Rightarrow> fermion \<Rightarrow> real \<Rightarrow> real" where
  "thermal_wavelength n p T = sqrt (4.0 * pi / (f_m n + f_m p) / T)"

text \<open>The regime weight as the specification writes it, as a function of the modulation
  coefficients and the two fugacities.\<close>

definition g_virial_formula :: "real \<Rightarrow> real \<Rightarrow> real \<Rightarrow> real \<Rightarrow> real" where
  "g_virial_formula a b z_n z_p = 1 / (a * z_n\<^sup>2 + a * z_p\<^sup>2 + b * z_n * z_p + 1)"

text \<open>
  What the replay of an evaluation asks of the collaborators: each reads only what its caller
  has set. The fugacity solver reads the six members set before its call and determines the
  fugacities; \<^verbatim>\<open>mfn21\<close> and \<^verbatim>\<open>mfn31\<close> read, beyond these, the two chemical potentials set
  before their calls. A Skyrme evaluation reads the densities and masses of the two particles
  (and the temperature), overwrites everything else, and keeps the masses.
\<close>

definition acl_inputs_eq :: "virial_solver \<Rightarrow> virial_solver \<Rightarrow> bool" where
  "acl_inputs_eq a a' \<longleftrightarrow>
     acl_nn a = acl_nn a' \<and> acl_pn a = acl_pn a' \<and> acl_T a = acl_T a' \<and>
     acl_b_n a = acl_b_n a' \<and> acl_b_pn a = acl_b_pn a' \<and> acl_lambda a = acl_lambda a'"

definition acl_fugacity_eq :: "virial_solver \<Rightarrow> virial_solver \<Rightarrow> bool" where
  "acl_fugacity_eq a a' \<longleftrightarrow>
     acl_inputs_eq a a' \<and> acl_zn a = acl_zn a' \<and> acl_zp a = acl_zp a'"

definition acl_mu_eq :: "virial_solver \<Rightarrow> virial_solver \<Rightarrow> bool" where
  "acl_mu_eq a a' \<longleftrightarrow>
     acl_fugacity_eq a a' \<and> acl_mfn2_mu_p a = acl_mfn2_mu_p a' \<and>
     acl_mfn2_mu_n a = acl_mfn2_mu_n a'"

definition fermion_inputs_eq :: "fermion \<Rightarrow> fermion \<Rightarrow> bool" where
  "fermion_inputs_eq n n' \<longleftrightarrow> f_n n = f_n n' \<and> f_m n = f_m n'"

definition collaborators_read_inputs :: "externals \<Rightarrow> bool" where
  "collaborators_read_inputs x \<longleftrightarrow>
     (\<forall>a a'. acl_inputs_eq a a' \<longrightarrow>
        rel_option (\<lambda>r r'. fst r = fst r' \<and> acl_fugacity_eq (snd r) (snd r'))
          (solve_fugacity x a) (solve_fugacity x a')) \<and>
     (\<forall>a a'. acl_mu_eq a a' \<longrightarrow>
        fst (mfn21 x a) = fst (mfn21 x a') \<and> acl_mu_eq (snd (mfn21 x a)) (snd (mfn21 x a'))) \<and>
     (\<forall>a a'. acl_mu_eq a a' \<longrightarrow>
        fst (mfn31 x a) = fst (mfn31 x a') \<and> acl_mu_eq (snd (mfn31 x a)) (snd (mfn31 x a'))) \<and>
     (\<forall>s n p th n' p' th'. fermion_inputs_eq n n' \<and> fermion_inputs_eq p p' \<longrightarrow>
        calc_e x s n p th = calc_e x s n' p' th') \<and>
     (\<forall>s n p T th n' p' th'. fermion_inputs_eq n n' \<and> fermion_inputs_eq p p' \<longrightarrow>
        calc_temp_e x s n p T th = calc_temp_e x s n' p' T th') \<and>
     (\<forall>s n p th. f_m (fst (calc_e x s n p th)) = f_m n \<and>
        f_m (fst (snd (calc_e x s n p th))) = f_m p) \<and>
     (\<forall>s n p T th. f_m (fst (calc_temp_e x s n p T th)) = f_m n \<and>
        f_m (fst (snd (calc_temp_e x s n p T th))) = f_m p)"

section \<open>Example values\<close>

text \<open>
  Concrete collaborators and a concrete object, on which the theorems below are
  instantiated. The collaborators are simple functions of their types: a solver returns its
  initial guess, the fugacity solver returns zero chemical potentials and unit fugacities,
  a Skyrme evaluation returns the particles at rest with the densities and masses it was
  given, and the variable of a loop takes the values of exact arithmetic.
\<close>

definition ex_fermion :: "real \<Rightarrow> fermion" where
  "ex_fermion m = \<lparr>f_n = 0, f_m = m, f_mu = 0, f_ms = m, f_ed = 0, f_pr = 0, f_en = 0\<rparr>"

definition ex_externals :: externals where
  "ex_externals =
     \<lparr>hc_mev_fm = 197.33,
      gsl_sf_hyperg_2F1 = (\<lambda>a b c z. 1),
      msolve_coeff = (\<lambda>f guess. Some guess),
      solve_fugacity = (\<lambda>a. Some ((0, 0), a\<lparr>acl_zn := 1, acl_zp := 1\<rparr>)),
      mfn21 = (\<lambda>a. ((0, 0), a)),
      mfn31 = (\<lambda>a. ((0, 0), a)),
      mfn41 = (\<lambda>a. ((0, 0), a)),
      calc_e = (\<lambda>s n p th. (ex_fermion (f_m n)\<lparr>f_n := f_n n\<rparr>, ex_fermion (f_m p)\<lparr>f_n := f_n p\<rparr>,
                          \<lparr>th_ed = 0, th_pr = 0, th_en = 0\<rparr>)),
      calc_temp_e = (\<lambda>s n p T th. (ex_fermion (f_m n)\<lparr>f_n := f_n n\<rparr>,
                                 ex_fermion (f_m p)\<lparr>f_n := f_n p\<rparr>,
                                 \<lparr>th_ed = 0, th_pr = 0, th_en = T\<rparr>)),
      eff_mass = (\<lambda>s n p. (n, p)),
      alt_params_saturation = (\<lambda>s v. s),
      pair_density = (\<lambda>e T. e),
      massless_calc = (\<lambda>b T. b),
      fit = (\<lambda>f dat parms. Some (parms, 0)),
      msolve_state = (\<lambda>f x0 st. Inr ((0, x0), st)),
      deriv = (\<lambda>v f c. Inr (1, c)),
      szttos = (\<lambda>i. []),
      double_range = for_range\<rparr>"

definition ex_eos :: eos where
  "ex_eos =
     \<lparr>model_selected = True, test_ns_cs2 = False,
      electron = ex_fermion 0.0026, photon = \<lparr>b_ed = 0, b_pr = 0, b_en = 0\<rparr>,
      ns_fit_parms = [469.7825, 0, 0, 0, 0],
      g_virial = 0, dgvirialdT = 0, select_cs2_test = True, f_deg = 0, f_virial = 0,
      s_virial = 0, old_ns_fit = False, ns_record = False, ns_nb_max = 1,
      neutron = ex_fermion 4.76, proton = ex_fermion 4.75,
      n_chiral = ex_fermion 4.76, p_chiral = ex_fermion 4.75,
      th2 = \<lparr>th_ed = 0, th_pr = 0, th_en = 0\<rparr>, th_chiral = \<lparr>th_ed = 0, th_pr = 0, th_en = 0\<rparr>,
      sk = \<lparr>sk_t0 = 0, sk_t1 = 0, sk_t2 = 0, sk_t3 = 0, sk_x0 = 0, sk_x1 = 0, sk_x2 = 0,
            sk_x3 = 0, sk_alpha = 0\<rparr>,
      sk_chiral = \<lparr>sk_t0 = 0, sk_t1 = 0, sk_t2 = 0, sk_t3 = 0, sk_x0 = 0, sk_x1 = 0, sk_x2 = 0,
            sk_x3 = 0, sk_alpha = 0\<rparr>,
      verbose = 0,
      ecv = \<lparr>bn_params = [0, 0, 0, 0, 0, 0, 0, 0, 0, 0], bpn_params = [0, 0, 0, 0, 0, 0]\<rparr>,
      a_virial = 3, b_virial = 0, qmc_alpha = 0.48, qmc_beta = 3.45, qmc_a = 12.7,
      qmc_b = 2.12, qmc_n0 = 0.16, phi = 0.6, eos_S = 32, eos_L = 50, eos_EoA = 0, eos_K = 0,
      eos_n0 = 0, chi2_ns = 0, i_ns = 0, i_skyrme = 0,
      acl = \<lparr>acl_nn = 0, acl_pn = 0, acl_T = 0, acl_b_n = 0, acl_b_pn = 0, acl_lambda = 0,
             acl_zn = 0, acl_zp = 0, acl_mfn2_mu_p = 0, acl_mfn2_mu_n = 0, acl_dbndT = 0,
             acl_dbpndT = 0, acl_dlambdadT = 0\<rparr>,
      nstar_tab = \<lparr>get_nlines = 1, tab_get = (\<lambda>c r. Some 1)\<rparr>,
      UNEDF_tab = \<lparr>get_nlines = 1, tab_get = (\<lambda>c r. Some 1)\<rparr>\<rparr>"

text \<open>
  Collaborators and an object for runs of \<^verbatim>\<open>select_internal\<close>: the fit returns a linear
  energy per baryon, every derivative is 1000, and the neutron star table has one row with
  every entry 0.05, so that the fit ends at the density 0.05. With this bound the loop of
  \<^verbatim>\<open>min_max_cs2\<close> makes one pass, at 0.04, with the sums of \<^verbatim>\<open>double\<close>s as with the sums
  of reals: the next value, 0.06 up to rounding, is beyond the bound.
\<close>

definition ex_externals_select :: externals where
  "ex_externals_select =
     ex_externals\<lparr>fit := (\<lambda>f dat parms. Some ([469.7825, 0, 0, 0, 0], 0)),
                  deriv := (\<lambda>v f c. Inr (1000, c))\<rparr>"

definition ex_eos_select :: eos where
  "ex_eos_select =
     ex_eos\<lparr>a_virial := 0,
             nstar_tab := \<lparr>get_nlines = 1, tab_get = (\<lambda>c r. Some 0.05)\<rparr>\<rparr>"


section \<open>Continuity of the causal extension\<close>

lemma pow_pos: "0 < x \<Longrightarrow> pow x y = x powr y"
  by (auto simp: pow_def Ints_def powr_real_of_int power_int_def power_inverse)

lemma pow_one [simp]: "pow 1 y = 1"
  by (simp add: pow_pos)

lemma big_alg:
  fixes N a1 a2 m e p q :: real
  assumes "N \<noteq> 0" "a1 \<noteq> 2" "a2 + q \<noteq> 0" "q \<noteq> 0"
  shows "- m * N + (a2 * N * N / 2 + N * N * q / (2 - a1)) *
           ((e + m * N + p) / ((N * N) * (a2 + q))) +
         0.5 * (e + m * N - p + a1 * (e + m * N + p) / ((a1 - 2) * (1 + a2 * (1 / q)))) = e"
proof -
  have 1: "2 - a1 \<noteq> 0" "a1 - 2 \<noteq> 0" "q + a2 \<noteq> 0" using assms by auto
  show ?thesis using assms 1
    apply (simp add: divide_simps)
    apply algebra
    done
qed

lemma big_mu_alg:
  fixes N a2 m e p q :: real
  assumes "N \<noteq> 0" "a2 + q \<noteq> 0"
  shows "- m + (e + m * N + p) / ((N * N) * (a2 + q)) * (a2 * N + N * q) = (e + p) / N"
  using assms
  apply (simp add: divide_simps)
  apply algebra
  done

lemma small_alg:
  fixes N a2 m e p H q r s :: real
  assumes "N \<noteq> 0" "a2 \<noteq> 0" "q * r = 1" "s * N = q"
  shows "(s * (a2 * r + 1) * (e + m * N + p) * N * H) / a2 +
         q * (a2 * r * (e + m * N) - (a2 * r + 1) * H * (e + m * N + p)) / a2
         - m * N = e"
  using assms
  apply (simp add: divide_simps)
  apply algebra
  done

lemma small_mu_alg:
  fixes N a2 m e p q r s :: real
  assumes "N \<noteq> 0" "a2 * r + 1 \<noteq> 0" "s * r * N = 1"
  shows "- (a2 * m * r - s * (a2 * r + 1) * (e + m * N + p) * r + m) / (a2 * r + 1) = (e + p) / N"
  using assms
  apply (simp add: divide_simps)
  apply algebra
  done

lemma const_alg:
  fixes N m e p cs :: real
  assumes "1 + cs \<noteq> 0"
  shows "- m * N + (e + m * N + p) / (1 + cs) * 1 + (cs * (e + m * N) - p) / (1 + cs) = e"
  using assms
  apply (simp add: divide_simps)
  apply algebra
  done

lemma new_ns_eos_increasing:
  assumes N: "0 < ns_nb_max st"
    and br: "phi st > cs2_fit x st (ns_nb_max st)"
    and sol: "msolve_coeff x (solve_coeff_big (ns_nb_max st) (phi st) (cs2_fit x st (ns_nb_max st)))
               (1, 1) = Some (a1l, a2l)"
    and a1: "a1l \<noteq> 2" and D: "a2l + pow (ns_nb_max st) (- a1l) \<noteq> 0"
  shows "new_ns_eos x st (ns_nb_max st) n =
           Inr (ed_fit x st (ns_nb_max st), mu_fit x st (ns_nb_max st))"
proof -
  define N where "N = ns_nb_max st"
  define q where "q = N powr (- a1l)"
  have Np: "0 < N" using N by (simp add: N_def)
  have q: "q \<noteq> 0" using Np by (simp add: q_def)
  have p0: "pow N (- a1l) = q" using Np by (simp add: pow_pos q_def)
  have p1: "pow N a1l = 1 / q" using Np by (simp add: pow_pos q_def powr_minus divide_simps)
  have p2: "pow N (2 - a1l) = N * N * q"
    using Np by (simp add: pow_pos q_def powr_diff powr_minus divide_simps power2_eq_square)
  have p3: "pow N (1 - a1l) = N * q"
    using Np by (simp add: pow_pos q_def powr_diff powr_minus divide_simps)
  have D': "a2l + q \<noteq> 0" using D p0 by (simp add: N_def)
  have N0: "N \<noteq> 0" using Np by simp
  have mu: "(ed_fit x st N + (mu_fit x st N * N - ed_fit x st N)) / N = mu_fit x st N"
    using N0 by simp
  show ?thesis
    using br sol
      big_alg[OF N0 a1 D' q, where m = "f_m n" and e = "ed_fit x st N"
        and p = "mu_fit x st N * N - ed_fit x st N"]
      big_mu_alg[OF N0 D', where m = "f_m n" and e = "ed_fit x st N"
        and p = "mu_fit x st N * N - ed_fit x st N"] mu
    unfolding new_ns_eos_def N_def[symmetric]
    by (simp add: Let_def p0 p1 p2 p3)
qed


lemma new_ns_eos_decreasing:
  assumes N: "0 < ns_nb_max st"
    and br: "phi st < cs2_fit x st (ns_nb_max st)"
    and sol: "msolve_coeff x (solve_coeff_small (ns_nb_max st) (phi st) (cs2_fit x st (ns_nb_max st)))
               (2.5, 1) = Some (a1l, a2l)"
    and a2: "a2l \<noteq> 0" and D: "a2l * pow (ns_nb_max st) a1l + 1 \<noteq> 0"
  shows "new_ns_eos x st (ns_nb_max st) n =
           Inr (ed_fit x st (ns_nb_max st), mu_fit x st (ns_nb_max st))"
proof -
  define N where "N = ns_nb_max st"
  define q where "q = pow N (- a1l)"
  define r where "r = pow N a1l"
  define s where "s = pow N (- a1l - 1)"
  define H where "H = gsl_sf_hyperg_2F1 x 1 1 (1 - 1 / a1l) (1 / a2l * q / (1 / a2l * q + 1)) *
                      (1 / (1 + 1 / a2l * q))"
  have Np: "0 < N" using N by (simp add: N_def)
  have N0: "N \<noteq> 0" using Np by simp
  have qr: "q * r = 1" using Np by (simp add: q_def r_def pow_pos powr_add[symmetric])
  have sN: "s * N = q" using Np by (simp add: q_def s_def pow_pos powr_diff)
  have srN: "s * r * N = 1"
  proof -
    have "s * r * N = (s * N) * r" by (simp add: mult_ac)
    then show ?thesis by (simp add: sN qr)
  qed
  have D': "a2l * r + 1 \<noteq> 0" using D by (simp add: r_def N_def)
  have pq: "pow N (- a1l) = q" by (simp add: q_def)
  have pr: "pow N a1l = r" by (simp add: r_def)
  have ps: "pow N (- a1l - 1) = s" by (simp add: s_def)
  have mu: "(ed_fit x st N + (mu_fit x st N * N - ed_fit x st N)) / N = mu_fit x st N"
    using N0 by simp
  have nb: "\<not> N < N - 1 / 1000000" by simp
  show ?thesis
    using br sol
      small_alg[OF N0 a2 qr sN, where e = "ed_fit x st N" and m = "f_m n"
        and p = "mu_fit x st N * N - ed_fit x st N" and H = H]
      small_mu_alg[OF N0 D' srN, where m = "f_m n" and e = "ed_fit x st N"
        and p = "mu_fit x st N * N - ed_fit x st N"]
      mu
    unfolding new_ns_eos_def N_def[symmetric]
    by (simp add: Let_def H_def pq pr ps)
qed

lemma new_ns_eos_constant:
  assumes N: "0 < ns_nb_max st"
    and br: "phi st = cs2_fit x st (ns_nb_max st)"
    and cs: "1 + cs2_fit x st (ns_nb_max st) \<noteq> 0"
  shows "new_ns_eos x st (ns_nb_max st) n =
           Inr (ed_fit x st (ns_nb_max st), mu_fit x st (ns_nb_max st))"
proof -
  define N where "N = ns_nb_max st"
  have Np: "0 < N" using N by (simp add: N_def)
  have N0: "N \<noteq> 0" using Np by simp
  have mu: "(ed_fit x st N + (mu_fit x st N * N - ed_fit x st N)) / N = mu_fit x st N"
    using N0 by simp
  show ?thesis
    using br N0
      const_alg[OF cs[folded N_def], where m = "f_m n" and N = N and e = "ed_fit x st N"
        and p = "mu_fit x st N * N - ed_fit x st N"]
    unfolding new_ns_eos_def N_def[symmetric] Let_def
    by (simp add: field_simps)
qed

text \<open>
  Claim C1. At \<^verbatim>\<open>nb = ns_nb_max\<close> the energy density and the chemical potential that
  \<^verbatim>\<open>new_ns_eos\<close> returns are \<^verbatim>\<open>ed_fit(ns_nb_max)\<close> and \<^verbatim>\<open>mu_fit(ns_nb_max)\<close>, in each of
  the three branches (sound speed increasing, decreasing, constant) and for whatever
  parameters \<open>a1l\<close>, \<open>a2l\<close> the solver returned, provided that \<^verbatim>\<open>ns_nb_max\<close> is positive and
  the divisors of the branch taken are not zero.
\<close>

theorem new_ns_eos_continuity:
  assumes "0 < ns_nb_max st"
    and "new_ns_eos x st (ns_nb_max st) n = Inr (e_ns, densdnn)"
    and "\<And>a1l a2l. phi st > cs2_fit x st (ns_nb_max st) \<Longrightarrow>
           msolve_coeff x (solve_coeff_big (ns_nb_max st) (phi st) (cs2_fit x st (ns_nb_max st)))
             (1, 1) = Some (a1l, a2l) \<Longrightarrow>
           a1l \<noteq> 2 \<and> a2l + pow (ns_nb_max st) (- a1l) \<noteq> 0"
    and "\<And>a1l a2l. phi st < cs2_fit x st (ns_nb_max st) \<Longrightarrow>
           msolve_coeff x (solve_coeff_small (ns_nb_max st) (phi st) (cs2_fit x st (ns_nb_max st)))
             (2.5, 1) = Some (a1l, a2l) \<Longrightarrow>
           a1l \<noteq> 0 \<and> a2l \<noteq> 0 \<and> a2l * pow (ns_nb_max st) a1l + 1 \<noteq> 0"
    and "phi st = cs2_fit x st (ns_nb_max st) \<Longrightarrow> 1 + cs2_fit x st (ns_nb_max st) \<noteq> 0"
  shows "e_ns = ed_fit x st (ns_nb_max st) \<and> densdnn = mu_fit x st (ns_nb_max st)"
proof -
  consider (inc) "phi st > cs2_fit x st (ns_nb_max st)"
    | (dec) "phi st < cs2_fit x st (ns_nb_max st)"
    | (const) "phi st = cs2_fit x st (ns_nb_max st)"
    by linarith
  then have "new_ns_eos x st (ns_nb_max st) n =
               Inr (ed_fit x st (ns_nb_max st), mu_fit x st (ns_nb_max st))"
  proof cases
    case inc
    show ?thesis
    proof (cases "msolve_coeff x (solve_coeff_big (ns_nb_max st) (phi st)
                    (cs2_fit x st (ns_nb_max st))) (1, 1)")
      case None
      with inc assms(2) show ?thesis
        by (simp add: new_ns_eos_def Let_def)
    next
      case (Some a)
      obtain a1l a2l where a: "a = (a1l, a2l)" by (cases a)
      from assms(3)[OF inc Some[unfolded a]] show ?thesis
        using new_ns_eos_increasing[OF assms(1) inc Some[unfolded a]] by simp
    qed
  next
    case dec
    show ?thesis
    proof (cases "msolve_coeff x (solve_coeff_small (ns_nb_max st) (phi st)
                    (cs2_fit x st (ns_nb_max st))) (2.5, 1)")
      case None
      with dec assms(2) show ?thesis
        by (simp add: new_ns_eos_def Let_def)
    next
      case (Some a)
      obtain a1l a2l where a: "a = (a1l, a2l)" by (cases a)
      from assms(4)[OF dec Some[unfolded a]] show ?thesis
        using new_ns_eos_decreasing[OF assms(1) dec Some[unfolded a]] by simp
    qed
  next
    case const
    from assms(5)[OF const] show ?thesis
      using new_ns_eos_constant[OF assms(1) const] by simp
  qed
  with assms(2) show ?thesis by simp
qed

lemma ex_cs2_fit: "cs2_fit ex_externals (ex_eos\<lparr>phi := v\<rparr>) 1 = 1 / 2"
  by (simp add: cs2_fit_def dmudn_fit_def mu_fit_def ex_eos_def ex_externals_def)

lemma ex_new_ns_eos_returns:
  "\<exists>e d. new_ns_eos ex_externals (ex_eos\<lparr>phi := v\<rparr>) 1 n = Inr (e, d)"
  by (simp add: new_ns_eos_def Let_def ex_cs2_fit) (simp add: ex_externals_def ex_eos_def)

theorem new_ns_eos_continuity_witness:
  "0 < ns_nb_max ex_eos \<and>
   new_ns_eos ex_externals (ex_eos\<lparr>phi := 0.6\<rparr>) (ns_nb_max ex_eos) (neutron ex_eos) =
     Inr (ed_fit ex_externals (ex_eos\<lparr>phi := 0.6\<rparr>) (ns_nb_max ex_eos),
          mu_fit ex_externals (ex_eos\<lparr>phi := 0.6\<rparr>) (ns_nb_max ex_eos)) \<and>
   new_ns_eos ex_externals (ex_eos\<lparr>phi := 0.4\<rparr>) (ns_nb_max ex_eos) (neutron ex_eos) =
     Inr (ed_fit ex_externals (ex_eos\<lparr>phi := 0.4\<rparr>) (ns_nb_max ex_eos),
          mu_fit ex_externals (ex_eos\<lparr>phi := 0.4\<rparr>) (ns_nb_max ex_eos)) \<and>
   new_ns_eos ex_externals (ex_eos\<lparr>phi := 0.5\<rparr>) (ns_nb_max ex_eos) (neutron ex_eos) =
     Inr (ed_fit ex_externals (ex_eos\<lparr>phi := 0.5\<rparr>) (ns_nb_max ex_eos),
          mu_fit ex_externals (ex_eos\<lparr>phi := 0.5\<rparr>) (ns_nb_max ex_eos))"
proof -
  have N: "ns_nb_max ex_eos = 1" by (simp add: ex_eos_def)
  have sol: "msolve_coeff ex_externals f g = Some g" for f g
    by (simp add: ex_externals_def)
  have "new_ns_eos ex_externals (ex_eos\<lparr>phi := v\<rparr>) 1 (neutron ex_eos) =
          Inr (ed_fit ex_externals (ex_eos\<lparr>phi := v\<rparr>) 1, mu_fit ex_externals (ex_eos\<lparr>phi := v\<rparr>) 1)"
    for v
  proof -
    obtain e d where r: "new_ns_eos ex_externals (ex_eos\<lparr>phi := v\<rparr>) 1 (neutron ex_eos) = Inr (e, d)"
      using ex_new_ns_eos_returns by blast
    have "e = ed_fit ex_externals (ex_eos\<lparr>phi := v\<rparr>) (ns_nb_max (ex_eos\<lparr>phi := v\<rparr>)) \<and>
          d = mu_fit ex_externals (ex_eos\<lparr>phi := v\<rparr>) (ns_nb_max (ex_eos\<lparr>phi := v\<rparr>))"
      by (rule new_ns_eos_continuity[where n = "neutron ex_eos"])
         (use r in \<open>auto simp: N sol ex_cs2_fit\<close>)
    then show ?thesis using r by (simp add: N)
  qed
  then show ?thesis by (simp add: N)
qed

section \<open>The two regimes of the virial gas\<close>

lemma pow_3 [simp]: "pow x 3 = x ^ 3"
  by (simp add: pow_def)

lemma pow_2 [simp]: "pow x 2 = x ^ 2"
  by (simp add: pow_def)

lemma virial_dilute:
  assumes ret: "free_energy_density_virial x st n p T th = Inr (f_vir, dv, st', n', p', th')"
    and dil: "f_n n * thermal_wavelength n p T ^ 3 \<le> 0.00001"
             "f_n p * thermal_wavelength n p T ^ 3 \<le> 0.00001"
  shows "f_mu n' = ln (f_n n * thermal_wavelength n p T ^ 3 / 2) * T"
    and "f_mu p' = ln (f_n p * thermal_wavelength n p T ^ 3 / 2) * T"
    and "th_pr th' = 2 * T / thermal_wavelength n p T ^ 3 * (exp (f_mu n' / T) + exp (f_mu p' / T))"
    and "dmundnn dv = T * thermal_wavelength n p T ^ 3 / 2 / exp (f_mu n' / T)"
    and "dmupdpn dv = T * thermal_wavelength n p T ^ 3 / 2 / exp (f_mu p' / T)"
    and "dmupdnn dv = 0" and "dmundpn dv = 0"
    and "acl_zn (acl st') = exp (f_mu n' / T)" and "acl_zp (acl st') = exp (f_mu p' / T)"
  using ret dil
  by (auto simp: free_energy_density_virial_def thermal_wavelength_def Let_def not_less[symmetric]
      split: if_splits)

lemma virial_dense:
  assumes ret: "free_energy_density_virial x st n p T th = Inr (f_vir, dv, st', n', p', th')"
    and den: "f_n n * thermal_wavelength n p T ^ 3 > 0.00001 \<or>
              f_n p * thermal_wavelength n p T ^ 3 > 0.00001"
  shows "\<exists>a. solve_fugacity x
            ((acl st)\<lparr>acl_nn := f_n n, acl_pn := f_n p, acl_T := T,
               acl_b_n := bn_f (ecv st) (T * hc_mev_fm x),
               acl_b_pn := bpn_f (ecv st) (T * hc_mev_fm x),
               acl_lambda := thermal_wavelength n p T\<rparr>) = Some ((f_mu n', f_mu p'), a)"
    and "th_pr th' = 2 * T / thermal_wavelength n p T ^ 3 *
           (exp (f_mu n' / T) + exp (f_mu p' / T) +
            (exp (f_mu n' / T) * exp (f_mu n' / T) + exp (f_mu p' / T) * exp (f_mu p' / T)) *
              bn_f (ecv st) (T * hc_mev_fm x) +
            2 * exp (f_mu p' / T) * exp (f_mu n' / T) * bpn_f (ecv st) (T * hc_mev_fm x))"
  using ret den
  by (auto simp: free_energy_density_virial_def thermal_wavelength_def Let_def
      split: if_splits option.splits prod.splits)


lemma virial_dilute_returns:
  assumes "f_n n * thermal_wavelength n p T ^ 3 \<le> 0.00001"
          "f_n p * thermal_wavelength n p T ^ 3 \<le> 0.00001"
  shows "\<exists>f_vir dv st' n' p' th'.
           free_energy_density_virial x st n p T th = Inr (f_vir, dv, st', n', p', th')"
  using assms
  by (simp add: free_energy_density_virial_def thermal_wavelength_def Let_def not_less[symmetric])

lemma virial_dense_returns:
  assumes "f_n n * thermal_wavelength n p T ^ 3 > 0.00001 \<or>
           f_n p * thermal_wavelength n p T ^ 3 > 0.00001"
    and "\<And>a. solve_fugacity x a \<noteq> None"
  shows "\<exists>f_vir dv st' n' p' th'.
           free_energy_density_virial x st n p T th = Inr (f_vir, dv, st', n', p', th')"
proof -
  let ?a = "(acl st)\<lparr>acl_nn := f_n n, acl_pn := f_n p, acl_T := T,
               acl_b_n := bn_f (ecv st) (T * hc_mev_fm x),
               acl_b_pn := bpn_f (ecv st) (T * hc_mev_fm x),
               acl_lambda := thermal_wavelength n p T\<rparr>"
  obtain xv a where "solve_fugacity x ?a = Some (xv, a)"
    using assms(2)[of ?a] by (cases "solve_fugacity x ?a") auto
  then show ?thesis
    using assms(1)
    by (auto simp: free_energy_density_virial_def thermal_wavelength_def Let_def
        split: prod.splits)
qed

lemma thermal_wavelength_pos:
  "0 < T \<Longrightarrow> 0 < f_m n + f_m p \<Longrightarrow> 0 < thermal_wavelength n p T"
  by (simp add: thermal_wavelength_def)

text \<open>
  Claim C7. When \<open>n\<^sub>n \<lambda>\<^sup>3\<close> and \<open>n\<^sub>p \<lambda>\<^sup>3\<close> are both at most \<open>10\<^sup>-\<^sup>5\<close> (in particular when
  both are below), \<^verbatim>\<open>free_energy_density_virial\<close> takes the classical branch: the
  fugacities are \<open>z = n \<lambda>\<^sup>3 / 2\<close>, the chemical potentials \<open>\<mu> = T ln z\<close>, and the pressure is
  \<open>2 T / \<lambda>\<^sup>3 (z\<^sub>n + z\<^sub>p)\<close>. When either product exceeds \<open>10\<^sup>-\<^sup>5\<close>, the chemical potentials
  are the result of the fugacity solver and the pressure has the second virial terms
  \<open>(z\<^sub>n\<^sup>2 + z\<^sub>p\<^sup>2) b\<^sub>n + 2 z\<^sub>p z\<^sub>n b\<^sub>p\<^sub>n\<close>. Temperature, masses and densities are positive.
\<close>

theorem virial_regimes:
  assumes "free_energy_density_virial x st n p T th = Inr (f_vir, dv, st', n', p', th')"
    and "0 < T" and "0 < f_m n + f_m p" and "0 < f_n n" and "0 < f_n p"
  shows "(f_n n * thermal_wavelength n p T ^ 3 \<le> 0.00001 \<and>
          f_n p * thermal_wavelength n p T ^ 3 \<le> 0.00001 \<longrightarrow>
            exp (f_mu n' / T) = f_n n * thermal_wavelength n p T ^ 3 / 2 \<and>
            exp (f_mu p' / T) = f_n p * thermal_wavelength n p T ^ 3 / 2 \<and>
            f_mu n' = T * ln (f_n n * thermal_wavelength n p T ^ 3 / 2) \<and>
            f_mu p' = T * ln (f_n p * thermal_wavelength n p T ^ 3 / 2) \<and>
            th_pr th' = 2 * T / thermal_wavelength n p T ^ 3 *
                          (exp (f_mu n' / T) + exp (f_mu p' / T))) \<and>
         (f_n n * thermal_wavelength n p T ^ 3 > 0.00001 \<or>
          f_n p * thermal_wavelength n p T ^ 3 > 0.00001 \<longrightarrow>
            (\<exists>a. solve_fugacity x
                    ((acl st)\<lparr>acl_nn := f_n n, acl_pn := f_n p, acl_T := T,
                       acl_b_n := bn_f (ecv st) (T * hc_mev_fm x),
                       acl_b_pn := bpn_f (ecv st) (T * hc_mev_fm x),
                       acl_lambda := thermal_wavelength n p T\<rparr>) =
                  Some ((f_mu n', f_mu p'), a)) \<and>
            th_pr th' = 2 * T / thermal_wavelength n p T ^ 3 *
              (exp (f_mu n' / T) + exp (f_mu p' / T) +
               (exp (f_mu n' / T) * exp (f_mu n' / T) + exp (f_mu p' / T) * exp (f_mu p' / T)) *
                 bn_f (ecv st) (T * hc_mev_fm x) +
               2 * exp (f_mu p' / T) * exp (f_mu n' / T) * bpn_f (ecv st) (T * hc_mev_fm x)))"
proof (intro conjI impI)
  assume dil: "f_n n * thermal_wavelength n p T ^ 3 \<le> 0.00001 \<and>
               f_n p * thermal_wavelength n p T ^ 3 \<le> 0.00001"
  have l: "0 < thermal_wavelength n p T ^ 3"
    using thermal_wavelength_pos[OF assms(2,3)] by simp
  have zn: "0 < f_n n * thermal_wavelength n p T ^ 3 / 2"
    and zp: "0 < f_n p * thermal_wavelength n p T ^ 3 / 2"
    using l assms(4,5) by simp_all
  note d = virial_dilute[OF assms(1) conjunct1[OF dil] conjunct2[OF dil]]
  show "f_mu n' = T * ln (f_n n * thermal_wavelength n p T ^ 3 / 2)"
    using d(1) by (simp add: mult.commute)
  show "f_mu p' = T * ln (f_n p * thermal_wavelength n p T ^ 3 / 2)"
    using d(2) by (simp add: mult.commute)
  show "exp (f_mu n' / T) = f_n n * thermal_wavelength n p T ^ 3 / 2"
    using d(1) zn assms(2) by simp
  show "exp (f_mu p' / T) = f_n p * thermal_wavelength n p T ^ 3 / 2"
    using d(2) zp assms(2) by simp
  show "th_pr th' = 2 * T / thermal_wavelength n p T ^ 3 *
                      (exp (f_mu n' / T) + exp (f_mu p' / T))"
    by (rule d(3))
next
  assume den: "f_n n * thermal_wavelength n p T ^ 3 > 0.00001 \<or>
               f_n p * thermal_wavelength n p T ^ 3 > 0.00001"
  note d = virial_dense[OF assms(1) den]
  show "\<exists>a. solve_fugacity x
              ((acl st)\<lparr>acl_nn := f_n n, acl_pn := f_n p, acl_T := T,
                 acl_b_n := bn_f (ecv st) (T * hc_mev_fm x),
                 acl_b_pn := bpn_f (ecv st) (T * hc_mev_fm x),
                 acl_lambda := thermal_wavelength n p T\<rparr>) =
            Some ((f_mu n', f_mu p'), a)"
    by (rule d(1))
  show "th_pr th' = 2 * T / thermal_wavelength n p T ^ 3 *
          (exp (f_mu n' / T) + exp (f_mu p' / T) +
           (exp (f_mu n' / T) * exp (f_mu n' / T) + exp (f_mu p' / T) * exp (f_mu p' / T)) *
             bn_f (ecv st) (T * hc_mev_fm x) +
           2 * exp (f_mu p' / T) * exp (f_mu n' / T) * bpn_f (ecv st) (T * hc_mev_fm x))"
    by (rule d(2))
qed

text \<open>
  Claim C3, as amended. In the dilute limit the derivatives that
  \<^verbatim>\<open>free_energy_density_virial\<close> returns are \<open>\<partial>\<mu>\<^sub>n/\<partial>n\<^sub>n = T \<lambda>\<^sup>3 / (2 z\<^sub>n)\<close> and
  \<open>\<partial>\<mu>\<^sub>p/\<partial>n\<^sub>p = T \<lambda>\<^sup>3 / (2 z\<^sub>p)\<close>, with both cross derivatives zero; for positive
  temperature, masses and densities these are \<open>T / n\<^sub>n\<close> and \<open>T / n\<^sub>p\<close>. The claim as stated
  has \<open>T / (2 z)\<close>, without the factor \<open>\<lambda>\<^sup>3\<close>; the counterexample below shows that the
  code does not return that.
\<close>

theorem virial_dilute_derivatives:
  assumes "free_energy_density_virial x st n p T th = Inr (f_vir, dv, st', n', p', th')"
    and "f_n n * thermal_wavelength n p T ^ 3 \<le> 0.00001"
    and "f_n p * thermal_wavelength n p T ^ 3 \<le> 0.00001"
  shows "dmundnn dv = T * thermal_wavelength n p T ^ 3 / (2 * exp (f_mu n' / T)) \<and>
         dmupdpn dv = T * thermal_wavelength n p T ^ 3 / (2 * exp (f_mu p' / T)) \<and>
         dmupdnn dv = 0 \<and> dmundpn dv = 0 \<and>
         (0 < T \<and> 0 < f_m n + f_m p \<and> 0 < f_n n \<and> 0 < f_n p \<longrightarrow>
            dmundnn dv = T / f_n n \<and> dmupdpn dv = T / f_n p)"
proof -
  note d = virial_dilute[OF assms]
  have "dmundnn dv = T / f_n n \<and> dmupdpn dv = T / f_n p"
    if pos: "0 < T \<and> 0 < f_m n + f_m p \<and> 0 < f_n n \<and> 0 < f_n p"
  proof -
    have l: "0 < thermal_wavelength n p T ^ 3"
      using thermal_wavelength_pos[of T n p] pos by simp
    have zn: "0 < f_n n * thermal_wavelength n p T ^ 3 / 2"
      and zp: "0 < f_n p * thermal_wavelength n p T ^ 3 / 2"
      using l pos by simp_all
    have en: "exp (f_mu n' / T) = f_n n * thermal_wavelength n p T ^ 3 / 2"
      using d(1) zn pos by simp
    have ep: "exp (f_mu p' / T) = f_n p * thermal_wavelength n p T ^ 3 / 2"
      using d(2) zp pos by simp
    have "dmundnn dv = T * thermal_wavelength n p T ^ 3 / (f_n n * thermal_wavelength n p T ^ 3)"
      unfolding d(4) en by simp
    moreover have "dmupdpn dv =
        T * thermal_wavelength n p T ^ 3 / (f_n p * thermal_wavelength n p T ^ 3)"
      unfolding d(5) ep by simp
    ultimately show ?thesis
      using l by simp
  qed
  then show ?thesis
    using d(4,5,6,7) by simp
qed


lemma ex_wavelength_bounds:
  "1 < thermal_wavelength (neutron ex_eos) (proton ex_eos) (1 / 10)"
  "thermal_wavelength (neutron ex_eos) (proton ex_eos) (1 / 10) < 10"
proof -
  have v: "thermal_wavelength (neutron ex_eos) (proton ex_eos) (1 / 10) = sqrt (4 * pi / 0.951)"
    by (simp add: thermal_wavelength_def ex_eos_def ex_fermion_def)
  have "1 < 4 * pi / 0.951" using pi_ge_two by simp
  then show "1 < thermal_wavelength (neutron ex_eos) (proton ex_eos) (1 / 10)"
    unfolding v by simp
  have "4 * pi / 0.951 < 10\<^sup>2" using pi_less_4 by simp
  then have "sqrt (4 * pi / 0.951) < sqrt (10\<^sup>2)"
    by (simp only: real_sqrt_less_iff)
  then show "thermal_wavelength (neutron ex_eos) (proton ex_eos) (1 / 10) < 10"
    unfolding v by simp
qed

lemma ex_wavelength_cube:
  "1 < thermal_wavelength (neutron ex_eos) (proton ex_eos) (1 / 10) ^ 3"
  "thermal_wavelength (neutron ex_eos) (proton ex_eos) (1 / 10) ^ 3 < 1000"
proof -
  let ?l = "thermal_wavelength (neutron ex_eos) (proton ex_eos) (1 / 10)"
  show "1 < ?l ^ 3"
    using ex_wavelength_bounds(1) by (simp add: one_less_power)
  have "?l ^ 3 < 10 ^ 3"
    using ex_wavelength_bounds by (intro power_strict_mono) simp_all
  then show "?l ^ 3 < 1000" by simp
qed

lemma thermal_wavelength_f_n [simp]:
  "thermal_wavelength (n\<lparr>f_n := v\<rparr>) (p\<lparr>f_n := w\<rparr>) T = thermal_wavelength n p T"
  by (simp add: thermal_wavelength_def)

theorem virial_dilute_derivatives_counterexample:
  "(case free_energy_density_virial ex_externals ex_eos
           ((neutron ex_eos)\<lparr>f_n := 1 / 10 ^ 8\<rparr>) ((proton ex_eos)\<lparr>f_n := 1 / 10 ^ 8\<rparr>)
           (1 / 10) (th2 ex_eos) of
      Inl e \<Rightarrow> False
    | Inr (f_vir, dv, st', n', p', th') \<Rightarrow>
        1 / 10 ^ 8 * thermal_wavelength (neutron ex_eos) (proton ex_eos) (1 / 10) ^ 3 \<le> 0.00001 \<and>
        dmundnn dv \<noteq> (1 / 10) / (2 * exp (f_mu n' / (1 / 10))))"
proof -
  let ?n = "(neutron ex_eos)\<lparr>f_n := 1 / 10 ^ 8\<rparr>" and ?p = "(proton ex_eos)\<lparr>f_n := 1 / 10 ^ 8\<rparr>"
  let ?l = "thermal_wavelength (neutron ex_eos) (proton ex_eos) (1 / 10)"
  have dil: "f_n ?n * thermal_wavelength ?n ?p (1 / 10) ^ 3 \<le> 0.00001"
            "f_n ?p * thermal_wavelength ?n ?p (1 / 10) ^ 3 \<le> 0.00001"
    using ex_wavelength_cube(2) by simp_all
  obtain f_vir dv st' n' p' th' where
    ret: "free_energy_density_virial ex_externals ex_eos ?n ?p (1 / 10) (th2 ex_eos) =
            Inr (f_vir, dv, st', n', p', th')"
    using virial_dilute_returns[OF dil] by blast
  have d: "dmundnn dv = (1 / 10) * ?l ^ 3 / 2 / exp (f_mu n' / (1 / 10))"
    using virial_dilute(4)[OF ret dil] by simp
  have "dmundnn dv \<noteq> (1 / 10) / (2 * exp (f_mu n' / (1 / 10)))"
    unfolding d using ex_wavelength_cube(1) by (simp add: field_simps)
  then show ?thesis
    using ret dil by simp
qed

theorem virial_dilute_derivatives_witness:
  "(case free_energy_density_virial ex_externals ex_eos
           ((neutron ex_eos)\<lparr>f_n := 1 / 10 ^ 8\<rparr>) ((proton ex_eos)\<lparr>f_n := 1 / 10 ^ 8\<rparr>)
           (1 / 10) (th2 ex_eos) of
      Inl e \<Rightarrow> False
    | Inr (f_vir, dv, st', n', p', th') \<Rightarrow>
        dmundnn dv = 10 ^ 7 \<and> dmupdpn dv = 10 ^ 7 \<and> dmupdnn dv = 0 \<and> dmundpn dv = 0)"
proof -
  let ?n = "(neutron ex_eos)\<lparr>f_n := 1 / 10 ^ 8\<rparr>" and ?p = "(proton ex_eos)\<lparr>f_n := 1 / 10 ^ 8\<rparr>"
  have dil: "f_n ?n * thermal_wavelength ?n ?p (1 / 10) ^ 3 \<le> 0.00001"
            "f_n ?p * thermal_wavelength ?n ?p (1 / 10) ^ 3 \<le> 0.00001"
    using ex_wavelength_cube(2) by simp_all
  obtain f_vir dv st' n' p' th' where
    ret: "free_energy_density_virial ex_externals ex_eos ?n ?p (1 / 10) (th2 ex_eos) =
            Inr (f_vir, dv, st', n', p', th')"
    using virial_dilute_returns[OF dil] by blast
  have pos: "(0::real) < 1 / 10 \<and> 0 < f_m ?n + f_m ?p \<and> 0 < f_n ?n \<and> 0 < f_n ?p"
    by (simp add: ex_eos_def ex_fermion_def)
  from virial_dilute_derivatives[OF ret dil] pos
  have "dmundnn dv = 10 ^ 7 \<and> dmupdpn dv = 10 ^ 7 \<and> dmupdnn dv = 0 \<and> dmundpn dv = 0"
    by simp
  then show ?thesis
    using ret by simp
qed

theorem virial_regimes_witness:
  "(case free_energy_density_virial ex_externals ex_eos
           ((neutron ex_eos)\<lparr>f_n := 1 / 10 ^ 8\<rparr>) ((proton ex_eos)\<lparr>f_n := 1 / 10 ^ 8\<rparr>)
           (1 / 10) (th2 ex_eos) of
      Inl e \<Rightarrow> False
    | Inr (f_vir, dv, st', n', p', th') \<Rightarrow>
        exp (f_mu n' / (1 / 10)) =
          1 / 10 ^ 8 * thermal_wavelength (neutron ex_eos) (proton ex_eos) (1 / 10) ^ 3 / 2 \<and>
        th_pr th' = 2 * (1 / 10) / thermal_wavelength (neutron ex_eos) (proton ex_eos) (1 / 10) ^ 3 *
                      (exp (f_mu n' / (1 / 10)) + exp (f_mu p' / (1 / 10)))) \<and>
   (case free_energy_density_virial ex_externals ex_eos
           ((neutron ex_eos)\<lparr>f_n := 1 / 10\<rparr>) ((proton ex_eos)\<lparr>f_n := 1 / 10\<rparr>)
           (1 / 10) (th2 ex_eos) of
      Inl e \<Rightarrow> False
    | Inr (f_vir, dv, st', n', p', th') \<Rightarrow>
        f_mu n' = 0 \<and> f_mu p' = 0 \<and>
        th_pr th' = 2 * (1 / 10) / thermal_wavelength (neutron ex_eos) (proton ex_eos) (1 / 10) ^ 3 * 2)"
proof -
  let ?l = "thermal_wavelength (neutron ex_eos) (proton ex_eos) (1 / 10)"
  have A: "(case free_energy_density_virial ex_externals ex_eos
           ((neutron ex_eos)\<lparr>f_n := 1 / 10 ^ 8\<rparr>) ((proton ex_eos)\<lparr>f_n := 1 / 10 ^ 8\<rparr>)
           (1 / 10) (th2 ex_eos) of
      Inl e \<Rightarrow> False
    | Inr (f_vir, dv, st', n', p', th') \<Rightarrow>
        exp (f_mu n' / (1 / 10)) = 1 / 10 ^ 8 * ?l ^ 3 / 2 \<and>
        th_pr th' = 2 * (1 / 10) / ?l ^ 3 * (exp (f_mu n' / (1 / 10)) + exp (f_mu p' / (1 / 10))))"
  proof -
    let ?n = "(neutron ex_eos)\<lparr>f_n := 1 / 10 ^ 8\<rparr>" and ?p = "(proton ex_eos)\<lparr>f_n := 1 / 10 ^ 8\<rparr>"
    have dil: "f_n ?n * thermal_wavelength ?n ?p (1 / 10) ^ 3 \<le> 0.00001"
              "f_n ?p * thermal_wavelength ?n ?p (1 / 10) ^ 3 \<le> 0.00001"
      using ex_wavelength_cube(2) by simp_all
    obtain f_vir dv st' n' p' th' where
      ret: "free_energy_density_virial ex_externals ex_eos ?n ?p (1 / 10) (th2 ex_eos) =
              Inr (f_vir, dv, st', n', p', th')"
      using virial_dilute_returns[OF dil] by blast
    have pos: "(0::real) < 1 / 10" "0 < f_m ?n + f_m ?p" "0 < f_n ?n" "0 < f_n ?p"
      by (simp_all add: ex_eos_def ex_fermion_def)
    from virial_regimes[OF ret pos] dil
    have "exp (f_mu n' / (1 / 10)) = f_n ?n * thermal_wavelength ?n ?p (1 / 10) ^ 3 / 2 \<and>
          th_pr th' = 2 * (1 / 10) / thermal_wavelength ?n ?p (1 / 10) ^ 3 *
                        (exp (f_mu n' / (1 / 10)) + exp (f_mu p' / (1 / 10)))"
      by blast
    then show ?thesis using ret by simp
  qed
  have B: "(case free_energy_density_virial ex_externals ex_eos
           ((neutron ex_eos)\<lparr>f_n := 1 / 10\<rparr>) ((proton ex_eos)\<lparr>f_n := 1 / 10\<rparr>)
           (1 / 10) (th2 ex_eos) of
      Inl e \<Rightarrow> False
    | Inr (f_vir, dv, st', n', p', th') \<Rightarrow>
        f_mu n' = 0 \<and> f_mu p' = 0 \<and> th_pr th' = 2 * (1 / 10) / ?l ^ 3 * 2)"
  proof -
    let ?n = "(neutron ex_eos)\<lparr>f_n := 1 / 10\<rparr>" and ?p = "(proton ex_eos)\<lparr>f_n := 1 / 10\<rparr>"
    have den: "f_n ?n * thermal_wavelength ?n ?p (1 / 10) ^ 3 > 0.00001 \<or>
               f_n ?p * thermal_wavelength ?n ?p (1 / 10) ^ 3 > 0.00001"
      using ex_wavelength_cube(1) by simp
    have sol: "solve_fugacity ex_externals a = Some ((0, 0), a\<lparr>acl_zn := 1, acl_zp := 1\<rparr>)" for a
      by (simp add: ex_externals_def)
    obtain f_vir dv st' n' p' th' where
      ret: "free_energy_density_virial ex_externals ex_eos ?n ?p (1 / 10) (th2 ex_eos) =
              Inr (f_vir, dv, st', n', p', th')"
      using virial_dense_returns[OF den] sol by blast
    have pos: "(0::real) < 1 / 10" "0 < f_m ?n + f_m ?p" "0 < f_n ?n" "0 < f_n ?p"
      by (simp_all add: ex_eos_def ex_fermion_def)
    have b: "bn_f (ecv ex_eos) v = 0" "bpn_f (ecv ex_eos) v = 0" for v
      by (simp_all add: bn_f_def bn_func_def bpn_f_def bpn_func_def ex_eos_def)
    from virial_regimes[OF ret pos] den
    have "(\<exists>a. solve_fugacity ex_externals
                    ((acl ex_eos)\<lparr>acl_nn := f_n ?n, acl_pn := f_n ?p, acl_T := 1 / 10,
                       acl_b_n := bn_f (ecv ex_eos) (1 / 10 * hc_mev_fm ex_externals),
                       acl_b_pn := bpn_f (ecv ex_eos) (1 / 10 * hc_mev_fm ex_externals),
                       acl_lambda := thermal_wavelength ?n ?p (1 / 10)\<rparr>) =
                  Some ((f_mu n', f_mu p'), a)) \<and>
          th_pr th' = 2 * (1 / 10) / thermal_wavelength ?n ?p (1 / 10) ^ 3 *
              (exp (f_mu n' / (1 / 10)) + exp (f_mu p' / (1 / 10)) +
               (exp (f_mu n' / (1 / 10)) * exp (f_mu n' / (1 / 10)) +
                exp (f_mu p' / (1 / 10)) * exp (f_mu p' / (1 / 10))) *
                 bn_f (ecv ex_eos) (1 / 10 * hc_mev_fm ex_externals) +
               2 * exp (f_mu p' / (1 / 10)) * exp (f_mu n' / (1 / 10)) *
                 bpn_f (ecv ex_eos) (1 / 10 * hc_mev_fm ex_externals))"
      by blast
    then have "f_mu n' = 0 \<and> f_mu p' = 0 \<and>
               th_pr th' = 2 * (1 / 10) / thermal_wavelength ?n ?p (1 / 10) ^ 3 *
                 (exp (f_mu n' / (1 / 10)) + exp (f_mu p' / (1 / 10)))"
      by (auto simp: sol b)
    then show ?thesis using ret by simp
  qed
  from A B show ?thesis by simp
qed

section \<open>The free energy density: precondition, outputs and frame\<close>

lemma new_ns_eos_error:
  "new_ns_eos x st nb n = Inl e \<Longrightarrow> e = Solver_Not_Converged"
  unfolding new_ns_eos_def Let_def
  by (simp split: if_splits option.splits prod.splits)

lemma ns_test_loop_error:
  "ns_test_loop x st n nbs r = Inl e \<Longrightarrow> e = Solver_Not_Converged"
proof (induction nbs arbitrary: r)
  case Nil
  then show ?case by simp
next
  case (Cons nb nbs)
  show ?case
  proof (cases "new_ns_eos x st nb n")
    case (Inl e')
    with Cons.prems show ?thesis by (simp add: new_ns_eos_error)
  next
    case (Inr r')
    with Cons.prems show ?thesis by (auto dest: Cons.IH)
  qed
qed

lemma fed_neutron_star_error:
  assumes "fed_neutron_star x st nb n = Inl e"
  shows "e = Solver_Not_Converged"
proof (cases "new_ns_eos x st nb n")
  case (Inl e')
  with assms show ?thesis by (simp add: fed_neutron_star_def new_ns_eos_error)
next
  case (Inr r)
  show ?thesis
  proof (cases "test_ns_cs2 st")
    case True
    show ?thesis
    proof (cases "ns_test_loop x st n (for_range 0.08 2.0 0.01) r")
      case (Inl e')
      with assms Inr True show ?thesis
        by (simp add: fed_neutron_star_def ns_test_loop_error)
    next
      case (Inr r')
      with assms \<open>new_ns_eos x st nb n = Inr r\<close> True show ?thesis
        by (simp add: fed_neutron_star_def split: prod.splits)
    qed
  next
    case False
    with assms Inr show ?thesis by (simp add: fed_neutron_star_def)
  qed
qed


lemma virial_error:
  "free_energy_density_virial x st n p T th = Inl e \<Longrightarrow> e = Solver_Not_Converged"
  unfolding free_energy_density_virial_def Let_def
  by (simp split: if_splits option.splits prod.splits)


lemma fed_elim:
  assumes ret: "free_energy_density x st n p T th = Inr (f_total, st', n', p', th')"
  obtains f_vir dv st1 n1 p1 th1 sv st2 n2 p2 th2 nb e_ns densdnn cv
  where "model_selected st"
    and "free_energy_density_virial x st n p T th = Inr (f_vir, dv, st1, n1, p1, th1)"
    and "fed_skyrme x (f_n n) (f_n p) T
           (st1\<lparr>f_virial := f_vir, s_virial := th_en th1,
                g_virial := 1 / (a_virial st1 * exp (f_mu n1 / T) * exp (f_mu n1 / T) +
                                 a_virial st1 * exp (f_mu p1 / T) * exp (f_mu p1 / T) +
                                 b_virial st1 * exp (f_mu n1 / T) * exp (f_mu p1 / T) + 1)\<rparr>,
            n1, p1, th1) = (sv, st2, n2, p2, th2)"
    and "fed_neutron_star x st2 (f_n n + f_n p) n2 = Inr (nb, e_ns, densdnn)"
    and "cv = fed_combine x st2 T (f_n n) (f_n p) nb (f_n p / (f_n n + f_n p)) 0.16
                (- th_en th1) (f_mu n1) (f_mu p1) (exp (f_mu n1 / T)) (exp (f_mu p1 / T))
                dv sv (energy_density_qmc x st2 (f_n n) (f_n p)) e_ns densdnn"
    and "f_total = f_total_v cv"
    and "st' = st2\<lparr>f_deg := f_deg_v cv, dgvirialdT := dgvirialdT_v cv\<rparr>"
    and "n' = n2\<lparr>f_mu := n_mu_v cv, f_n := f_n n\<rparr>"
    and "p' = p2\<lparr>f_mu := p_mu_v cv, f_n := f_n p\<rparr>"
    and "th' = th2\<lparr>th_en := th_en_v cv,
                   th_pr := - f_total_v cv + f_n n * n_mu_v cv + f_n p * p_mu_v cv,
                   th_ed := f_total_v cv + T * th_en_v cv\<rparr>"
proof -
  have sel: "model_selected st"
    using ret by (cases "model_selected st") (simp_all add: free_energy_density_def)
  obtain r1 where v0: "free_energy_density_virial x st n p T th = Inr r1"
    using ret sel
    by (cases "free_energy_density_virial x st n p T th")
       (simp_all add: free_energy_density_def Let_def)
  obtain f_vir dv st1 n1 p1 th1 where r1: "r1 = (f_vir, dv, st1, n1, p1, th1)"
    by (metis prod_cases6)
  note v = v0[unfolded r1]
  define sta where "sta = st1\<lparr>f_virial := f_vir, s_virial := th_en th1,
                g_virial := 1 / (a_virial st1 * exp (f_mu n1 / T) * exp (f_mu n1 / T) +
                                 a_virial st1 * exp (f_mu p1 / T) * exp (f_mu p1 / T) +
                                 b_virial st1 * exp (f_mu n1 / T) * exp (f_mu p1 / T) + 1)\<rparr>"
  obtain sv st2 n2 p2 th2 where
    s: "fed_skyrme x (f_n n) (f_n p) T (sta, n1, p1, th1) = (sv, st2, n2, p2, th2)"
    by (metis prod_cases5)
  have ret2: "free_energy_density x st n p T th =
      (case fed_neutron_star x st2 (f_n n + f_n p) n2 of
                 Inl e \<Rightarrow> Inl e
               | Inr (nb, e_ns, densdnn) \<Rightarrow>
                   let cv = fed_combine x st2 T (f_n n) (f_n p) nb (f_n p / (f_n n + f_n p)) 0.16
                              (- th_en th1) (f_mu n1) (f_mu p1) (exp (f_mu n1 / T))
                              (exp (f_mu p1 / T)) dv sv
                              (energy_density_qmc x st2 (f_n n) (f_n p)) e_ns densdnn
                   in Inr (f_total_v cv,
                           st2\<lparr>f_deg := f_deg_v cv, dgvirialdT := dgvirialdT_v cv\<rparr>,
                           n2\<lparr>f_mu := n_mu_v cv, f_n := f_n n\<rparr>,
                           p2\<lparr>f_mu := p_mu_v cv, f_n := f_n p\<rparr>,
                           th2\<lparr>th_en := th_en_v cv,
                               th_pr := - f_total_v cv + f_n n * n_mu_v cv + f_n p * p_mu_v cv,
                               th_ed := f_total_v cv + T * th_en_v cv\<rparr>))"
  proof (cases "fed_neutron_star x st2 (f_n n + f_n p) n2")
    case (Inl e)
    then show ?thesis
      using sel s[unfolded sta_def]
      unfolding free_energy_density_def v
      by (simp add: Let_def)
  next
    case (Inr r)
    obtain nb e_ns densdnn where r: "r = (nb, e_ns, densdnn)"
      by (metis prod_cases3)
    show ?thesis
      using sel s[unfolded sta_def] Inr[unfolded r]
      unfolding free_energy_density_def v
      by (simp add: Let_def)
  qed
  obtain r3 where ns0: "fed_neutron_star x st2 (f_n n + f_n p) n2 = Inr r3"
    using ret unfolding ret2
    by (cases "fed_neutron_star x st2 (f_n n + f_n p) n2") simp_all
  obtain nb e_ns densdnn where r3: "r3 = (nb, e_ns, densdnn)"
    by (metis prod_cases3)
  note ns = ns0[unfolded r3]
  show ?thesis
    using ret unfolding ret2 ns
    by (intro that[OF sel v s[unfolded sta_def] ns refl]) (auto simp: Let_def)
qed


text \<open>
  Claim C2. Called while \<^verbatim>\<open>model_selected\<close> is false, \<^verbatim>\<open>free_energy_density\<close> ends in the
  error handler and returns no free energy, whatever its arguments. Called while
  \<^verbatim>\<open>model_selected\<close> is true it never ends in that error: the only way in which it then
  does not return is a solver that has not converged.
\<close>

theorem free_energy_density_precondition:
  "(\<not> model_selected st \<longrightarrow> free_energy_density x st n p T th = Inl No_Model_Selected) \<and>
   (model_selected st \<longrightarrow> free_energy_density x st n p T th \<noteq> Inl No_Model_Selected \<and>
      (\<forall>e. free_energy_density x st n p T th = Inl e \<longrightarrow> e = Solver_Not_Converged))"
proof -
  have A: "free_energy_density x st n p T th = Inl No_Model_Selected" if "\<not> model_selected st"
    using that by (simp add: free_energy_density_def)
  have B: "e = Solver_Not_Converged"
    if sel: "model_selected st" and err: "free_energy_density x st n p T th = Inl e" for e
  proof (cases "free_energy_density_virial x st n p T th")
    case (Inl e')
    with sel err show ?thesis
      by (simp add: free_energy_density_def Let_def virial_error)
  next
    case (Inr r1)
    obtain f_vir dv st1 n1 p1 th1 where r1: "r1 = (f_vir, dv, st1, n1, p1, th1)"
      by (metis prod_cases6)
    note v = Inr[unfolded r1]
    define sta where "sta = st1\<lparr>f_virial := f_vir, s_virial := th_en th1,
                g_virial := 1 / (a_virial st1 * exp (f_mu n1 / T) * exp (f_mu n1 / T) +
                                 a_virial st1 * exp (f_mu p1 / T) * exp (f_mu p1 / T) +
                                 b_virial st1 * exp (f_mu n1 / T) * exp (f_mu p1 / T) + 1)\<rparr>"
    obtain sv st2 n2 p2 th2 where
      s: "fed_skyrme x (f_n n) (f_n p) T (sta, n1, p1, th1) = (sv, st2, n2, p2, th2)"
      by (metis prod_cases5)
    show ?thesis
    proof (cases "fed_neutron_star x st2 (f_n n + f_n p) n2")
      case (Inl e')
      then have "e' = Solver_Not_Converged" by (rule fed_neutron_star_error)
      with Inl sel err s[unfolded sta_def] show ?thesis
        unfolding free_energy_density_def v
        by (simp add: Let_def)
    next
      case (Inr r)
      obtain nb e_ns densdnn where r: "r = (nb, e_ns, densdnn)"
        by (metis prod_cases3)
      from sel err s[unfolded sta_def] Inr[unfolded r] show ?thesis
        unfolding free_energy_density_def v
        by (simp add: Let_def)
    qed
  qed
  have C: "free_energy_density x st n p T th \<noteq> Inl No_Model_Selected" if sel: "model_selected st"
  proof
    assume "free_energy_density x st n p T th = Inl No_Model_Selected"
    from B[OF sel this] show False by simp
  qed
  from A B C show ?thesis by blast
qed

text \<open>
  Claim C4. When \<^verbatim>\<open>free_energy_density\<close> returns \<open>f_total\<close>, the pressure it has stored is
  \<open>- f_total + n\<^sub>n \<mu>\<^sub>n + n\<^sub>p \<mu>\<^sub>p\<close>, with the densities on entry and the chemical potentials
  it has written into \<^verbatim>\<open>n\<close> and \<^verbatim>\<open>p\<close>, and the energy density is
  \<open>f_total + T\<close> times the entropy it has stored.
\<close>

theorem free_energy_density_outputs:
  assumes "free_energy_density x st n p T th = Inr (f_total, st', n', p', th')"
  shows "th_pr th' = - f_total + f_n n * f_mu n' + f_n p * f_mu p' \<and>
         th_ed th' = f_total + T * th_en th'"
  using assms by (elim fed_elim) simp

text \<open>
  Claim C10. On return from \<^verbatim>\<open>free_energy_density\<close> the number densities of \<^verbatim>\<open>n\<close> and
  \<^verbatim>\<open>p\<close> are the ones on entry, although the function overwrites both with their mean
  before the Skyrme evaluations (see \<open>fed_skyrme\<close>, which works on the chiral objects of
  its own for the evaluations in neutron matter).
\<close>

theorem free_energy_density_restores_densities:
  assumes "free_energy_density x st n p T th = Inr (f_total, st', n', p', th')"
  shows "f_n n' = f_n n \<and> f_n p' = f_n p"
  using assms by (elim fed_elim) simp


lemma new_ns_eos_returns:
  assumes "\<And>f g. msolve_coeff x f g \<noteq> None"
  shows "\<exists>r. new_ns_eos x st nb n = Inr r"
proof (cases "new_ns_eos x st nb n")
  case (Inl e)
  then show ?thesis
    using assms[of "solve_coeff_big (ns_nb_max st) (phi st) (cs2_fit x st (ns_nb_max st))" "(1, 1)"]
      assms[of "solve_coeff_small (ns_nb_max st) (phi st) (cs2_fit x st (ns_nb_max st))"
        "(2.5, 1)"]
    unfolding new_ns_eos_def Let_def
    by (simp split: if_splits option.splits prod.splits)
next
  case (Inr r)
  then show ?thesis by blast
qed

lemma ns_test_loop_returns:
  assumes "\<And>f g. msolve_coeff x f g \<noteq> None"
  shows "\<exists>r'. ns_test_loop x st n nbs r = Inr r'"
proof (induction nbs arbitrary: r)
  case Nil
  show ?case by simp
next
  case (Cons nb nbs)
  obtain r1 where "new_ns_eos x st nb n = Inr r1"
    using new_ns_eos_returns[OF assms] by blast
  then show ?case using Cons.IH[of r1] by simp
qed

lemma fed_neutron_star_returns:
  assumes "\<And>f g. msolve_coeff x f g \<noteq> None"
  shows "\<exists>r. fed_neutron_star x st nb n = Inr r"
proof -
  obtain r1 where a: "new_ns_eos x st nb n = Inr r1"
    using new_ns_eos_returns[OF assms] by blast
  obtain r2 where b: "ns_test_loop x st n (for_range 0.08 2.0 0.01) r1 = Inr r2"
    using ns_test_loop_returns[OF assms] by blast
  show ?thesis
    using a b by (cases r2) (simp add: fed_neutron_star_def)
qed

lemma virial_returns:
  assumes "\<And>a. solve_fugacity x a \<noteq> None"
  shows "\<exists>r. free_energy_density_virial x st n p T th = Inr r"
proof (cases "f_n n * thermal_wavelength n p T ^ 3 > 0.00001 \<or>
              f_n p * thermal_wavelength n p T ^ 3 > 0.00001")
  case True
  then show ?thesis using virial_dense_returns[OF True assms] by blast
next
  case False
  then show ?thesis using virial_dilute_returns[of n p T x st th] by (simp add: not_less)
qed

lemma free_energy_density_returns:
  assumes "model_selected st"
    and "\<And>a. solve_fugacity x a \<noteq> None"
    and "\<And>f g. msolve_coeff x f g \<noteq> None"
  shows "\<exists>f_total st' n' p' th'.
           free_energy_density x st n p T th = Inr (f_total, st', n', p', th')"
proof (cases "free_energy_density x st n p T th")
  case (Inl e)
  obtain r1 where v0: "free_energy_density_virial x st n p T th = Inr r1"
    using virial_returns[OF assms(2)] by blast
  obtain f_vir dv st1 n1 p1 th1 where r1: "r1 = (f_vir, dv, st1, n1, p1, th1)"
    by (metis prod_cases6)
  note v = v0[unfolded r1]
  define sta where "sta = st1\<lparr>f_virial := f_vir, s_virial := th_en th1,
                g_virial := 1 / (a_virial st1 * exp (f_mu n1 / T) * exp (f_mu n1 / T) +
                                 a_virial st1 * exp (f_mu p1 / T) * exp (f_mu p1 / T) +
                                 b_virial st1 * exp (f_mu n1 / T) * exp (f_mu p1 / T) + 1)\<rparr>"
  obtain sv st2 n2 p2 th2 where
    s: "fed_skyrme x (f_n n) (f_n p) T (sta, n1, p1, th1) = (sv, st2, n2, p2, th2)"
    by (metis prod_cases5)
  obtain r3 where ns0: "fed_neutron_star x st2 (f_n n + f_n p) n2 = Inr r3"
    using fed_neutron_star_returns[OF assms(3)] by blast
  obtain nb e_ns densdnn where r3: "r3 = (nb, e_ns, densdnn)"
    by (metis prod_cases3)
  from assms(1) Inl s[unfolded sta_def] ns0[unfolded r3] show ?thesis
    unfolding free_energy_density_def v
    by (simp add: Let_def)
next
  case (Inr r)
  then show ?thesis by (metis prod_cases5)
qed

lemma ex_selected: "model_selected ex_eos"
  by (simp add: ex_eos_def)

lemma ex_solvers:
  "solve_fugacity ex_externals a \<noteq> None" "msolve_coeff ex_externals f g \<noteq> None"
  by (simp_all add: ex_externals_def)

theorem free_energy_density_precondition_witness:
  "free_energy_density ex_externals (ex_eos\<lparr>model_selected := False\<rparr>)
     ((neutron ex_eos)\<lparr>f_n := 0.08\<rparr>) ((proton ex_eos)\<lparr>f_n := 0.08\<rparr>) (1 / 10) (th2 ex_eos) =
     Inl No_Model_Selected \<and>
   free_energy_density ex_externals ex_eos
     ((neutron ex_eos)\<lparr>f_n := 0.08\<rparr>) ((proton ex_eos)\<lparr>f_n := 0.08\<rparr>) (1 / 10) (th2 ex_eos) \<noteq>
     Inl No_Model_Selected"
proof -
  have a: "\<not> model_selected (ex_eos\<lparr>model_selected := False\<rparr>)" by simp
  have b: "model_selected ex_eos" by (simp add: ex_eos_def)
  show ?thesis
    using free_energy_density_precondition[of "ex_eos\<lparr>model_selected := False\<rparr>" ex_externals]
      free_energy_density_precondition[of ex_eos ex_externals] a b
    by blast
qed

theorem free_energy_density_outputs_witness:
  "(case free_energy_density ex_externals ex_eos
           ((neutron ex_eos)\<lparr>f_n := 0.08\<rparr>) ((proton ex_eos)\<lparr>f_n := 0.08\<rparr>) (1 / 10)
           (th2 ex_eos) of
      Inl e \<Rightarrow> False
    | Inr (f_total, st', n', p', th') \<Rightarrow>
        th_pr th' = - f_total + 0.08 * f_mu n' + 0.08 * f_mu p' \<and>
        th_ed th' = f_total + 1 / 10 * th_en th')"
proof -
  obtain f_total st' n' p' th' where
    ret: "free_energy_density ex_externals ex_eos
           ((neutron ex_eos)\<lparr>f_n := 0.08\<rparr>) ((proton ex_eos)\<lparr>f_n := 0.08\<rparr>) (1 / 10)
           (th2 ex_eos) = Inr (f_total, st', n', p', th')"
    using free_energy_density_returns[OF ex_selected ex_solvers] by blast
  from free_energy_density_outputs[OF ret] show ?thesis
    using ret by simp
qed

theorem free_energy_density_restores_densities_witness:
  "(case free_energy_density ex_externals ex_eos
           ((neutron ex_eos)\<lparr>f_n := 0.08\<rparr>) ((proton ex_eos)\<lparr>f_n := 0.02\<rparr>) (1 / 10)
           (th2 ex_eos) of
      Inl e \<Rightarrow> False
    | Inr (f_total, st', n', p', th') \<Rightarrow> f_n n' = 0.08 \<and> f_n p' = 0.02)"
proof -
  obtain f_total st' n' p' th' where
    ret: "free_energy_density ex_externals ex_eos
           ((neutron ex_eos)\<lparr>f_n := 0.08\<rparr>) ((proton ex_eos)\<lparr>f_n := 0.02\<rparr>) (1 / 10)
           (th2 ex_eos) = Inr (f_total, st', n', p', th')"
    using free_energy_density_returns[OF ex_selected ex_solvers] by blast
  from free_energy_density_restores_densities[OF ret] show ?thesis
    using ret by simp
qed

section \<open>The regime weight\<close>

lemma virial_state:
  assumes "free_energy_density_virial x st n p T th = Inr (f_vir, dv, st1, n1, p1, th1)"
  shows "\<exists>a. st1 = st\<lparr>acl := a\<rparr>"
  using assms
  unfolding free_energy_density_virial_def Let_def
  by (simp split: if_splits option.splits prod.splits) blast+

lemma fed_skyrme_state:
  assumes "fed_skyrme x nn pn T (st, n, p, th) = (sv, st2, n2, p2, thb)"
  shows "\<exists>nc pc thc. st2 = st\<lparr>n_chiral := nc, p_chiral := pc, th_chiral := thc\<rparr>"
  using assms
  unfolding fed_skyrme_def Let_def
  by (simp split: prod.splits) blast

lemma g_virial_formula_pos:
  assumes "0 \<le> a" "0 \<le> b" "0 \<le> z_n" "0 \<le> z_p"
  shows "0 < g_virial_formula a b z_n z_p" "g_virial_formula a b z_n z_p \<le> 1"
proof -
  have s: "0 \<le> a * z_n\<^sup>2 + a * z_p\<^sup>2 + b * z_n * z_p"
    using assms by simp
  then show "0 < g_virial_formula a b z_n z_p"
    by (simp add: g_virial_formula_def add_nonneg_pos)
  from s show "g_virial_formula a b z_n z_p \<le> 1"
    by (simp add: g_virial_formula_def divide_simps add_nonneg_pos)
qed

lemma g_virial_formula_dilute:
  assumes a: "0 \<le> a" and b: "0 \<le> b" and e: "0 < \<epsilon>"
  shows "\<exists>\<delta>>0. \<forall>z_n z_p. 0 < z_n \<and> z_n < \<delta> \<and> 0 < z_p \<and> z_p < \<delta> \<longrightarrow>
           \<bar>g_virial_formula a b z_n z_p - 1\<bar> < \<epsilon>"
proof (intro exI conjI allI impI)
  define d where "d = min 1 (\<epsilon> / (2 * a + b + 1))"
  have c: "0 < 2 * a + b + 1" using a b by simp
  show d0: "0 < d" using e c by (simp add: d_def)
  have d1: "d \<le> 1" by (simp add: d_def)
  have d2: "d * (2 * a + b + 1) \<le> \<epsilon>"
  proof -
    have "d \<le> \<epsilon> / (2 * a + b + 1)" by (simp add: d_def)
    then show ?thesis using c by (simp add: pos_le_divide_eq)
  qed
  fix z_n z_p :: real
  assume z: "0 < z_n \<and> z_n < d \<and> 0 < z_p \<and> z_p < d"
  define s where "s = a * z_n\<^sup>2 + a * z_p\<^sup>2 + b * z_n * z_p"
  have zn2: "z_n\<^sup>2 \<le> d" 
  proof -
    have "z_n * z_n \<le> d * 1" using z d1 by (intro mult_mono) simp_all
    then show ?thesis by (simp add: power2_eq_square)
  qed
  have zp2: "z_p\<^sup>2 \<le> d"
  proof -
    have "z_p * z_p \<le> d * 1" using z d1 by (intro mult_mono) simp_all
    then show ?thesis by (simp add: power2_eq_square)
  qed
  have znp: "z_n * z_p \<le> d"
  proof -
    have "z_n * z_p \<le> d * 1" using z d1 by (intro mult_mono) simp_all
    then show ?thesis by simp
  qed
  have s0: "0 \<le> s" using a b z by (simp add: s_def)
  have "s \<le> a * d + a * d + b * d"
    unfolding s_def using a b zn2 zp2 znp
    by (intro add_mono mult_left_mono) (simp_all add: mult.assoc mult_left_mono)
  also have "\<dots> < d * (2 * a + b + 1)" using d0 by (simp add: algebra_simps)
  finally have s1: "s < \<epsilon>" using d2 by simp
  have "g_virial_formula a b z_n z_p - 1 = - (s / (s + 1))"
    using s0 by (simp add: g_virial_formula_def s_def field_simps)
  moreover have "s / (s + 1) \<le> s"
  proof -
    have "s * 1 \<le> s * (s + 1)" using s0 by (intro mult_left_mono) simp_all
    then show ?thesis using s0 by (simp add: divide_simps)
  qed
  moreover have "0 \<le> s / (s + 1)" using s0 by simp
  ultimately show "\<bar>g_virial_formula a b z_n z_p - 1\<bar> < \<epsilon>"
    using s1 by simp
qed

lemma g_virial_formula_dense:
  assumes a: "0 \<le> a" and b: "0 \<le> b" and ab: "0 < a + b" and e: "0 < \<epsilon>"
  shows "\<exists>M. \<forall>z_n z_p. M < z_n \<and> M < z_p \<longrightarrow> g_virial_formula a b z_n z_p < \<epsilon>"
proof (intro exI allI impI)
  define M where "M = max 1 (1 / (\<epsilon> * (a + b)))"
  fix z_n z_p :: real
  assume z: "M < z_n \<and> M < z_p"
  have M1: "1 \<le> M" by (simp add: M_def)
  have M2: "1 / (\<epsilon> * (a + b)) \<le> M" by (simp add: M_def)
  have zn: "1 < z_n" "M < z_n" and zp: "1 < z_p" "M < z_p" using z M1 by simp_all
  define s where "s = a * z_n\<^sup>2 + a * z_p\<^sup>2 + b * z_n * z_p"
  have n2: "M \<le> z_n\<^sup>2"
  proof -
    have "M * 1 \<le> z_n * z_n" using zn M1 by (intro mult_mono) simp_all
    then show ?thesis by (simp add: power2_eq_square)
  qed
  have np: "M \<le> z_n * z_p"
  proof -
    have "M * 1 \<le> z_n * z_p" using zn zp M1 by (intro mult_mono) simp_all
    then show ?thesis by simp
  qed
  have p2: "0 \<le> a * z_p\<^sup>2" using a by simp
  have "(a + b) * M = a * M + b * M" by (simp add: algebra_simps)
  also have "\<dots> \<le> a * z_n\<^sup>2 + b * (z_n * z_p)"
    using a b n2 np by (intro add_mono mult_left_mono)
  also have "\<dots> \<le> s" using p2 by (simp add: s_def mult.assoc)
  finally have sM: "(a + b) * M \<le> s" .
  have "1 / \<epsilon> \<le> (a + b) * M"
  proof -
    have "(a + b) * (1 / (\<epsilon> * (a + b))) \<le> (a + b) * M"
      using M2 ab by (intro mult_left_mono) simp_all
    then show ?thesis using ab e by simp
  qed
  with sM have se: "1 / \<epsilon> \<le> s" by simp
  have s0: "0 < s" using se e by (meson less_le_trans zero_less_divide_1_iff)
  have "g_virial_formula a b z_n z_p = 1 / (s + 1)"
    by (simp add: g_virial_formula_def s_def)
  also have "\<dots> < 1 / s" using s0 by (simp add: divide_simps)
  also have "\<dots> \<le> \<epsilon>"
    using se s0 e by (simp add: divide_simps mult.commute)
  finally show "g_virial_formula a b z_n z_p < \<epsilon>" .
qed


text \<open>
  Claim C8, as amended. The weight that \<^verbatim>\<open>free_energy_density\<close> stores in \<^verbatim>\<open>g_virial\<close> is
  \<open>1 / (a z\<^sub>n\<^sup>2 + a z\<^sub>p\<^sup>2 + b z\<^sub>n z\<^sub>p + 1)\<close> at the virial fugacities \<open>z = exp (\<mu> / T)\<close>, with
  \<open>a\<close> and \<open>b\<close> the members \<^verbatim>\<open>a_virial\<close> and \<^verbatim>\<open>b_virial\<close>. For nonnegative \<open>a\<close> and \<open>b\<close> it lies
  in \<open>(0, 1]\<close> and tends to 1 as both fugacities tend to 0. It tends to 0 as both fugacities
  grow when, in addition, \<open>a\<close> and \<open>b\<close> are not both zero: for \<open>a = b = 0\<close> the weight is 1
  at all fugacities, which is the counterexample to the claim as stated.
\<close>

theorem g_virial_weight:
  assumes "free_energy_density x st n p T th = Inr (f_total, st', n', p', th')"
    and "free_energy_density_virial x st n p T th = Inr (f_vir, dv, st1, n1, p1, th1)"
  shows "g_virial st' =
           g_virial_formula (a_virial st) (b_virial st) (exp (f_mu n1 / T)) (exp (f_mu p1 / T)) \<and>
         (0 \<le> a_virial st \<and> 0 \<le> b_virial st \<longrightarrow>
            0 < g_virial st' \<and> g_virial st' \<le> 1 \<and>
            (\<forall>\<epsilon>>0. \<exists>\<delta>>0. \<forall>z_n z_p. 0 < z_n \<and> z_n < \<delta> \<and> 0 < z_p \<and> z_p < \<delta> \<longrightarrow>
               \<bar>g_virial_formula (a_virial st) (b_virial st) z_n z_p - 1\<bar> < \<epsilon>)) \<and>
         (0 \<le> a_virial st \<and> 0 \<le> b_virial st \<and> 0 < a_virial st + b_virial st \<longrightarrow>
            (\<forall>\<epsilon>>0. \<exists>M. \<forall>z_n z_p. M < z_n \<and> M < z_p \<longrightarrow>
               g_virial_formula (a_virial st) (b_virial st) z_n z_p < \<epsilon>))"
  using assms(1)
proof (rule fed_elim)
  fix f_vir' dv' st1' n1' p1' th1' sv st2 n2 p2 thb nb e_ns densdnn cv
  assume v: "free_energy_density_virial x st n p T th = Inr (f_vir', dv', st1', n1', p1', th1')"
    and s: "fed_skyrme x (f_n n) (f_n p) T
           (st1'\<lparr>f_virial := f_vir', s_virial := th_en th1',
                g_virial := 1 / (a_virial st1' * exp (f_mu n1' / T) * exp (f_mu n1' / T) +
                                 a_virial st1' * exp (f_mu p1' / T) * exp (f_mu p1' / T) +
                                 b_virial st1' * exp (f_mu n1' / T) * exp (f_mu p1' / T) + 1)\<rparr>,
            n1', p1', th1') = (sv, st2, n2, p2, thb)"
    and st': "st' = st2\<lparr>f_deg := f_deg_v cv, dgvirialdT := dgvirialdT_v cv\<rparr>"
  from v assms(2) have eq: "st1' = st1" "n1' = n1" "p1' = p1" by simp_all
  obtain a where st1: "st1 = st\<lparr>acl := a\<rparr>"
    using virial_state[OF assms(2)] by blast
  obtain nc pc thc where
    st2: "st2 = (st1\<lparr>f_virial := f_vir', s_virial := th_en th1',
                g_virial := 1 / (a_virial st1 * exp (f_mu n1 / T) * exp (f_mu n1 / T) +
                                 a_virial st1 * exp (f_mu p1 / T) * exp (f_mu p1 / T) +
                                 b_virial st1 * exp (f_mu n1 / T) * exp (f_mu p1 / T) + 1)\<rparr>)
              \<lparr>n_chiral := nc, p_chiral := pc, th_chiral := thc\<rparr>"
    using fed_skyrme_state[OF s] unfolding eq by blast
  have g: "g_virial st' =
           g_virial_formula (a_virial st) (b_virial st) (exp (f_mu n1 / T)) (exp (f_mu p1 / T))"
    by (simp add: st' st2 st1 g_virial_formula_def power2_eq_square)
  have r: "0 < g_virial st' \<and> g_virial st' \<le> 1"
    if "0 \<le> a_virial st \<and> 0 \<le> b_virial st"
    unfolding g using g_virial_formula_pos[of "a_virial st" "b_virial st"
        "exp (f_mu n1 / T)" "exp (f_mu p1 / T)"] that by simp
  show ?thesis
    using g r g_virial_formula_dilute[of "a_virial st" "b_virial st"]
      g_virial_formula_dense[of "a_virial st" "b_virial st"]
    by blast
qed

theorem g_virial_weight_counterexample:
  "\<not> (\<forall>\<epsilon>>0. \<exists>M. \<forall>z_n z_p. M < z_n \<and> M < z_p \<longrightarrow> g_virial_formula 0 0 z_n z_p < \<epsilon>)"
proof
  assume "\<forall>\<epsilon>>0. \<exists>M. \<forall>z_n z_p. M < z_n \<and> M < z_p \<longrightarrow> g_virial_formula 0 0 z_n z_p < \<epsilon>"
  then obtain M where "\<forall>z_n z_p. M < z_n \<and> M < z_p \<longrightarrow> g_virial_formula 0 0 z_n z_p < 1 / 2"
    by (metis half_gt_zero_iff zero_less_one)
  then have "g_virial_formula 0 0 (M + 1) (M + 1) < 1 / 2" by simp
  then show False by (simp add: g_virial_formula_def)
qed


theorem g_virial_weight_witness:
  "(case free_energy_density ex_externals ex_eos
           ((neutron ex_eos)\<lparr>f_n := 0.08\<rparr>) ((proton ex_eos)\<lparr>f_n := 0.08\<rparr>) (1 / 10)
           (th2 ex_eos) of
      Inl e \<Rightarrow> False
    | Inr (f_total, st', n', p', th') \<Rightarrow>
        g_virial st' = 1 / 7 \<and> 0 < g_virial st' \<and> g_virial st' \<le> 1) \<and>
   (\<exists>\<delta>>0. \<forall>z_n z_p. 0 < z_n \<and> z_n < \<delta> \<and> 0 < z_p \<and> z_p < \<delta> \<longrightarrow>
      \<bar>g_virial_formula 3 0 z_n z_p - 1\<bar> < 1 / 2) \<and>
   (\<exists>M. \<forall>z_n z_p. M < z_n \<and> M < z_p \<longrightarrow> g_virial_formula 3 0 z_n z_p < 1 / 2)"
proof -
  let ?n = "(neutron ex_eos)\<lparr>f_n := 0.08\<rparr>" and ?p = "(proton ex_eos)\<lparr>f_n := 0.08\<rparr>"
  obtain f_total st' n' p' th' where
    ret: "free_energy_density ex_externals ex_eos ?n ?p (1 / 10) (th2 ex_eos) =
            Inr (f_total, st', n', p', th')"
    using free_energy_density_returns[OF ex_selected ex_solvers] by blast
  obtain f_vir dv st1 n1 p1 th1 where
    v: "free_energy_density_virial ex_externals ex_eos ?n ?p (1 / 10) (th2 ex_eos) =
          Inr (f_vir, dv, st1, n1, p1, th1)"
    using virial_returns[OF ex_solvers(1)] by (metis prod_cases6)
  have den: "f_n ?n * thermal_wavelength ?n ?p (1 / 10) ^ 3 > 0.00001 \<or>
             f_n ?p * thermal_wavelength ?n ?p (1 / 10) ^ 3 > 0.00001"
    using ex_wavelength_cube(1) by simp
  have mu: "f_mu n1 = 0" "f_mu p1 = 0"
    using virial_dense(1)[OF v den] by (auto simp: ex_externals_def)
  have ab: "a_virial ex_eos = 3" "b_virial ex_eos = 0"
    by (simp_all add: ex_eos_def)
  note w = g_virial_weight[OF ret v, unfolded ab mu]
  have g: "g_virial st' = 1 / 7"
    using w by (simp add: g_virial_formula_def)
  have "0 < g_virial st' \<and> g_virial st' \<le> 1"
    using w by simp
  moreover have "\<exists>\<delta>>0. \<forall>z_n z_p. 0 < z_n \<and> z_n < \<delta> \<and> 0 < z_p \<and> z_p < \<delta> \<longrightarrow>
      \<bar>g_virial_formula 3 0 z_n z_p - 1\<bar> < 1 / 2"
  proof -
    from w have "\<forall>\<epsilon>>0. \<exists>\<delta>>0. \<forall>z_n z_p. 0 < z_n \<and> z_n < \<delta> \<and> 0 < z_p \<and> z_p < \<delta> \<longrightarrow>
      \<bar>g_virial_formula 3 0 z_n z_p - 1\<bar> < \<epsilon>"
      by simp
    from this[rule_format, of "1 / 2"] show ?thesis by simp
  qed
  moreover have "\<exists>M. \<forall>z_n z_p. M < z_n \<and> M < z_p \<longrightarrow> g_virial_formula 3 0 z_n z_p < 1 / 2"
  proof -
    from w have "\<forall>\<epsilon>>0. \<exists>M. \<forall>z_n z_p. M < z_n \<and> M < z_p \<longrightarrow> g_virial_formula 3 0 z_n z_p < \<epsilon>"
      by simp
    from this[rule_format, of "1 / 2"] show ?thesis by simp
  qed
  ultimately show ?thesis
    using ret g by simp
qed

section \<open>Replay of an evaluation\<close>

lemma fed_unfold:
  assumes sel: "model_selected st"
    and v: "free_energy_density_virial x st n p T th = Inr (f_vir, dv, st1, n1, p1, th1)"
    and s: "fed_skyrme x (f_n n) (f_n p) T
           (st1\<lparr>f_virial := f_vir, s_virial := th_en th1,
                g_virial := 1 / (a_virial st1 * exp (f_mu n1 / T) * exp (f_mu n1 / T) +
                                 a_virial st1 * exp (f_mu p1 / T) * exp (f_mu p1 / T) +
                                 b_virial st1 * exp (f_mu n1 / T) * exp (f_mu p1 / T) + 1)\<rparr>,
            n1, p1, th1) = (sv, st2, n2, p2, thb)"
    and ns: "fed_neutron_star x st2 (f_n n + f_n p) n2 = Inr (nb, e_ns, densdnn)"
    and cv: "cv = fed_combine x st2 T (f_n n) (f_n p) nb (f_n p / (f_n n + f_n p)) 0.16
                (- th_en th1) (f_mu n1) (f_mu p1) (exp (f_mu n1 / T)) (exp (f_mu p1 / T))
                dv sv (energy_density_qmc x st2 (f_n n) (f_n p)) e_ns densdnn"
  shows "free_energy_density x st n p T th =
           Inr (f_total_v cv,
                st2\<lparr>f_deg := f_deg_v cv, dgvirialdT := dgvirialdT_v cv\<rparr>,
                n2\<lparr>f_mu := n_mu_v cv, f_n := f_n n\<rparr>,
                p2\<lparr>f_mu := p_mu_v cv, f_n := f_n p\<rparr>,
                thb\<lparr>th_en := th_en_v cv,
                    th_pr := - f_total_v cv + f_n n * n_mu_v cv + f_n p * p_mu_v cv,
                    th_ed := f_total_v cv + T * th_en_v cv\<rparr>)"
  using sel s ns
  unfolding free_energy_density_def v cv
  by (simp add: Let_def)

lemma thermo_all_fields:
  "(th :: thermo)\<lparr>th_pr := a, th_en := b, th_ed := c\<rparr> = th'\<lparr>th_pr := a, th_en := b, th_ed := c\<rparr>"
  by (cases th, cases th') simp

lemma acl_final_eq:
  assumes "acl_mu_eq b b'"
  shows "b\<lparr>acl_dbndT := u, acl_dbpndT := v, acl_dlambdadT := w\<rparr> =
         b'\<lparr>acl_dbndT := u, acl_dbpndT := v, acl_dlambdadT := w\<rparr>"
  using assms
  by (cases b, cases b') (simp add: acl_mu_eq_def acl_fugacity_eq_def acl_inputs_eq_def)

lemma acl_all_fields:
  "(a :: virial_solver)\<lparr>acl_nn := v1, acl_pn := v2, acl_T := v3, acl_b_n := v4, acl_b_pn := v5,
       acl_lambda := v6, acl_zn := v7, acl_zp := v8, acl_mfn2_mu_p := v9, acl_mfn2_mu_n := v10,
       acl_dbndT := v11, acl_dbpndT := v12, acl_dlambdadT := v13\<rparr> =
   a'\<lparr>acl_nn := v1, acl_pn := v2, acl_T := v3, acl_b_n := v4, acl_b_pn := v5,
       acl_lambda := v6, acl_zn := v7, acl_zp := v8, acl_mfn2_mu_p := v9, acl_mfn2_mu_n := v10,
       acl_dbndT := v11, acl_dbpndT := v12, acl_dlambdadT := v13\<rparr>"
  by (cases a, cases a') simp


lemma virial_frame:
  assumes "free_energy_density_virial x st n p T th = Inr (f_vir, dv, st1, n1, p1, th1)"
  shows "st1 = st\<lparr>acl := acl st1\<rparr>" "n1 = n\<lparr>f_mu := f_mu n1\<rparr>" "p1 = p\<lparr>f_mu := f_mu p1\<rparr>"
  using assms
  unfolding free_energy_density_virial_def Let_def
  by (auto split: if_splits option.splits prod.splits)

lemma virial_replay_dilute:
  assumes v: "free_energy_density_virial x st n p T th = Inr (f_vir, dv, st1, n1, p1, th1)"
    and dil: "\<not> (f_n n * thermal_wavelength n p T ^ 3 > 0.00001 \<or>
                 f_n p * thermal_wavelength n p T ^ 3 > 0.00001)"
    and e: "ecv st' = ecv st"
    and nn: "f_n n' = f_n n" "f_m n' = f_m n" "f_n p' = f_n p" "f_m p' = f_m p"
  shows "free_energy_density_virial x st' n' p' T th' =
           Inr (f_vir, dv, st'\<lparr>acl := acl st1\<rparr>, n'\<lparr>f_mu := f_mu n1\<rparr>, p'\<lparr>f_mu := f_mu p1\<rparr>, th1)"
  using v dil e nn
  unfolding free_energy_density_virial_def Let_def thermal_wavelength_def
  by (auto simp: not_less)


lemma read_inputs_solve_fugacity:
  assumes "collaborators_read_inputs x" and "acl_inputs_eq a' a"
    and "solve_fugacity x a = Some (xv, b)"
  obtains b' where "solve_fugacity x a' = Some (xv, b')" and "acl_fugacity_eq b' b"
proof -
  have "\<forall>a a'. acl_inputs_eq a a' \<longrightarrow>
          rel_option (\<lambda>r r'. fst r = fst r' \<and> acl_fugacity_eq (snd r) (snd r'))
            (solve_fugacity x a) (solve_fugacity x a')"
    using assms(1) unfolding collaborators_read_inputs_def by (rule conjunct1)
  with assms(2) have "rel_option (\<lambda>r r'. fst r = fst r' \<and> acl_fugacity_eq (snd r) (snd r'))
          (solve_fugacity x a') (solve_fugacity x a)"
    by simp
  with assms(3) obtain r where "solve_fugacity x a' = Some r" and "fst r = xv"
    and "acl_fugacity_eq (snd r) b"
    by (cases "solve_fugacity x a'") auto
  then show ?thesis
    by (intro that[of "snd r"]) (cases r, simp_all)
qed

lemma read_inputs_mfn:
  assumes "collaborators_read_inputs x" and "acl_mu_eq a' a"
  shows "fst (mfn21 x a') = fst (mfn21 x a)" "acl_mu_eq (snd (mfn21 x a')) (snd (mfn21 x a))"
    "fst (mfn31 x a') = fst (mfn31 x a)" "acl_mu_eq (snd (mfn31 x a')) (snd (mfn31 x a))"
proof -
  note c = assms(1)[unfolded collaborators_read_inputs_def]
  have a: "\<forall>a a'. acl_mu_eq a a' \<longrightarrow>
        fst (mfn21 x a) = fst (mfn21 x a') \<and> acl_mu_eq (snd (mfn21 x a)) (snd (mfn21 x a'))"
    by (rule c[THEN conjunct2, THEN conjunct1])
  have b: "\<forall>a a'. acl_mu_eq a a' \<longrightarrow>
        fst (mfn31 x a) = fst (mfn31 x a') \<and> acl_mu_eq (snd (mfn31 x a)) (snd (mfn31 x a'))"
    by (rule c[THEN conjunct2, THEN conjunct2, THEN conjunct1])
  from a assms(2) show "fst (mfn21 x a') = fst (mfn21 x a)"
    "acl_mu_eq (snd (mfn21 x a')) (snd (mfn21 x a))" by simp_all
  from b assms(2) show "fst (mfn31 x a') = fst (mfn31 x a)"
    "acl_mu_eq (snd (mfn31 x a')) (snd (mfn31 x a))" by simp_all
qed

lemma read_inputs_skyrme:
  assumes "collaborators_read_inputs x"
  shows "f_n n = f_n n' \<Longrightarrow> f_m n = f_m n' \<Longrightarrow> f_n p = f_n p' \<Longrightarrow> f_m p = f_m p' \<Longrightarrow>
           calc_e x s n p th = calc_e x s n' p' th'"
    and "f_n n = f_n n' \<Longrightarrow> f_m n = f_m n' \<Longrightarrow> f_n p = f_n p' \<Longrightarrow> f_m p = f_m p' \<Longrightarrow>
           calc_temp_e x s n p T th = calc_temp_e x s n' p' T th'"
    and "f_m (fst (calc_e x s n p th)) = f_m n"
    and "f_m (fst (snd (calc_e x s n p th))) = f_m p"
    and "f_m (fst (calc_temp_e x s n p T th)) = f_m n"
    and "f_m (fst (snd (calc_temp_e x s n p T th))) = f_m p"
proof -
  note c = assms(1)[unfolded collaborators_read_inputs_def fermion_inputs_eq_def]
  note c4 = c[THEN conjunct2, THEN conjunct2, THEN conjunct2, THEN conjunct1]
  note c5 = c[THEN conjunct2, THEN conjunct2, THEN conjunct2, THEN conjunct2, THEN conjunct1]
  note c6 = c[THEN conjunct2, THEN conjunct2, THEN conjunct2, THEN conjunct2, THEN conjunct2,
      THEN conjunct1]
  note c7 = c[THEN conjunct2, THEN conjunct2, THEN conjunct2, THEN conjunct2, THEN conjunct2,
      THEN conjunct2]
  show "f_n n = f_n n' \<Longrightarrow> f_m n = f_m n' \<Longrightarrow> f_n p = f_n p' \<Longrightarrow> f_m p = f_m p' \<Longrightarrow>
           calc_e x s n p th = calc_e x s n' p' th'"
    using c4 by blast
  show "f_n n = f_n n' \<Longrightarrow> f_m n = f_m n' \<Longrightarrow> f_n p = f_n p' \<Longrightarrow> f_m p = f_m p' \<Longrightarrow>
           calc_temp_e x s n p T th = calc_temp_e x s n' p' T th'"
    using c5 by blast
  show "f_m (fst (calc_e x s n p th)) = f_m n" "f_m (fst (snd (calc_e x s n p th))) = f_m p"
    using c6 by simp_all
  show "f_m (fst (calc_temp_e x s n p T th)) = f_m n"
    "f_m (fst (snd (calc_temp_e x s n p T th))) = f_m p"
    using c7 by simp_all
qed

lemma virial_replay_dense:
  assumes H: "collaborators_read_inputs x"
    and v: "free_energy_density_virial x st n p T th = Inr (f_vir, dv, st1, n1, p1, th1)"
    and den: "f_n n * thermal_wavelength n p T ^ 3 > 0.00001 \<or>
              f_n p * thermal_wavelength n p T ^ 3 > 0.00001"
    and e: "ecv st' = ecv st"
    and nn: "f_n n' = f_n n" "f_m n' = f_m n" "f_n p' = f_n p" "f_m p' = f_m p"
  shows "free_energy_density_virial x st' n' p' T th' =
           Inr (f_vir, dv, st'\<lparr>acl := acl st1\<rparr>, n'\<lparr>f_mu := f_mu n1\<rparr>, p'\<lparr>f_mu := f_mu p1\<rparr>, th1)"
proof -
  define a1 where "a1 = (acl st)\<lparr>acl_nn := f_n n, acl_pn := f_n p, acl_T := T,
               acl_b_n := bn_f (ecv st) (T * hc_mev_fm x),
               acl_b_pn := bpn_f (ecv st) (T * hc_mev_fm x),
               acl_lambda := thermal_wavelength n p T\<rparr>"
  define a1' where "a1' = (acl st')\<lparr>acl_nn := f_n n, acl_pn := f_n p, acl_T := T,
               acl_b_n := bn_f (ecv st) (T * hc_mev_fm x),
               acl_b_pn := bpn_f (ecv st) (T * hc_mev_fm x),
               acl_lambda := thermal_wavelength n p T\<rparr>"
  have i1: "acl_inputs_eq a1' a1"
    by (simp add: a1_def a1'_def acl_inputs_eq_def)
  obtain xv a2 where sf: "solve_fugacity x a1 = Some (xv, a2)"
    using v den unfolding free_energy_density_virial_def Let_def thermal_wavelength_def a1_def
    by (cases "solve_fugacity x a1"; simp add: a1_def thermal_wavelength_def; fastforce)
  obtain a2' where sf': "solve_fugacity x a1' = Some (xv, a2')" and e2: "acl_fugacity_eq a2' a2"
    using read_inputs_solve_fugacity[OF H i1 sf] by blast
  define a3 where "a3 = a2\<lparr>acl_mfn2_mu_p := snd xv, acl_mfn2_mu_n := fst xv\<rparr>"
  define a3' where "a3' = a2'\<lparr>acl_mfn2_mu_p := snd xv, acl_mfn2_mu_n := fst xv\<rparr>"
  have e3: "acl_mu_eq a3' a3"
    using e2 by (simp add: a3_def a3'_def acl_mu_eq_def acl_fugacity_eq_def acl_inputs_eq_def)
  note m21 = read_inputs_mfn(1,2)[OF H e3]
  note m31 = read_inputs_mfn(3,4)[OF H m21(2)]
  have fin: "(snd (mfn31 x (snd (mfn21 x a3'))))\<lparr>acl_dbndT := u, acl_dbpndT := w,
                acl_dlambdadT := z\<rparr> =
             (snd (mfn31 x (snd (mfn21 x a3))))\<lparr>acl_dbndT := u, acl_dbpndT := w,
                acl_dlambdadT := z\<rparr>" for u w z
    by (rule acl_final_eq[OF m31(2)])
  show ?thesis
    using v den e nn sf[unfolded a1_def] sf'[unfolded a1'_def] m21(1)[unfolded a3_def a3'_def]
      m31(1)[unfolded a3_def a3'_def] fin[unfolded a3_def a3'_def]
    unfolding free_energy_density_virial_def Let_def thermal_wavelength_def
    by (auto simp: case_prod_beta)
qed


lemma virial_replay:
  assumes H: "collaborators_read_inputs x"
    and v: "free_energy_density_virial x st n p T th = Inr (f_vir, dv, st1, n1, p1, th1)"
    and e: "ecv st' = ecv st"
    and nn: "f_n n' = f_n n" "f_m n' = f_m n" "f_n p' = f_n p" "f_m p' = f_m p"
  shows "free_energy_density_virial x st' n' p' T th' =
           Inr (f_vir, dv, st'\<lparr>acl := acl st1\<rparr>, n'\<lparr>f_mu := f_mu n1\<rparr>, p'\<lparr>f_mu := f_mu p1\<rparr>, th1)"
proof (cases "f_n n * thermal_wavelength n p T ^ 3 > 0.00001 \<or>
              f_n p * thermal_wavelength n p T ^ 3 > 0.00001")
  case True
  show ?thesis by (rule virial_replay_dense[OF H v True e nn])
next
  case False
  show ?thesis by (rule virial_replay_dilute[OF v False e nn])
qed

lemma fed_skyrme_replay:
  assumes H: "collaborators_read_inputs x"
    and s: "fed_skyrme x nn pn T (st, n, p, th) = (sv, st2, n2, p2, thb)"
    and e: "sk st' = sk st" "sk_chiral st' = sk_chiral st"
      "f_m (n_chiral st') = f_m (n_chiral st)" "f_m (p_chiral st') = f_m (p_chiral st)"
      "f_m n' = f_m n" "f_m p' = f_m p"
  shows "fed_skyrme x nn pn T (st', n', p', th') =
           (sv, st'\<lparr>n_chiral := n_chiral st2, p_chiral := p_chiral st2,
                   th_chiral := th_chiral st2\<rparr>, n2, p2, thb)"
proof -
  have a: "calc_e x (sk st) (n'\<lparr>f_n := (nn + pn) / 2\<rparr>) (p'\<lparr>f_n := (nn + pn) / 2\<rparr>) th' =
           calc_e x (sk st) (n\<lparr>f_n := (nn + pn) / 2\<rparr>) (p\<lparr>f_n := (nn + pn) / 2\<rparr>) th"
    by (rule read_inputs_skyrme(1)[OF H]) (simp_all add: e)
  have b: "calc_temp_e x (sk_chiral st) ((n_chiral st')\<lparr>f_n := (nn + pn) / 2\<rparr>)
             ((p_chiral st')\<lparr>f_n := (nn + pn) / 2\<rparr>) T (th_chiral st') =
           calc_temp_e x (sk_chiral st) ((n_chiral st)\<lparr>f_n := (nn + pn) / 2\<rparr>)
             ((p_chiral st)\<lparr>f_n := (nn + pn) / 2\<rparr>) T (th_chiral st)"
    by (rule read_inputs_skyrme(2)[OF H]) (simp_all add: e)
  show ?thesis
    using s unfolding fed_skyrme_def Let_def
    by (auto simp: e a b case_prod_beta)
qed

lemma fed_skyrme_masses:
  assumes H: "collaborators_read_inputs x"
    and s: "fed_skyrme x nn pn T (st, n, p, th) = (sv, st2, n2, p2, thb)"
  shows "f_m n2 = f_m n" "f_m p2 = f_m p"
    "f_m (n_chiral st2) = f_m (n_chiral st)" "f_m (p_chiral st2) = f_m (p_chiral st)"
proof -
  obtain n3 p3 th3 where
    c0: "calc_e x (sk st) (n\<lparr>f_n := (nn + pn) / 2\<rparr>) (p\<lparr>f_n := (nn + pn) / 2\<rparr>) th = (n3, p3, th3)"
    by (metis prod_cases3)
  obtain nc1 pc1 thc1 where
    c1: "calc_temp_e x (sk_chiral st) ((n_chiral st)\<lparr>f_n := (nn + pn) / 2\<rparr>)
           ((p_chiral st)\<lparr>f_n := (nn + pn) / 2\<rparr>) T (th_chiral st) = (nc1, pc1, thc1)"
    by (metis prod_cases3)
  obtain nc2 pc2 thc2 where
    c2: "calc_e x (sk_chiral st) nc1 pc1 thc1 = (nc2, pc2, thc2)"
    by (metis prod_cases3)
  obtain nc4 pc4 thc4 where
    c4: "calc_temp_e x (sk_chiral st) (nc2\<lparr>f_n := nn + pn\<rparr>) (pc2\<lparr>f_n := 0\<rparr>) T thc2 =
           (nc4, pc4, thc4)"
    by (metis prod_cases3)
  obtain nc5 pc5 thc5 where
    c5: "calc_e x (sk_chiral st) nc4 pc4 thc4 = (nc5, pc5, thc5)"
    by (metis prod_cases3)
  from s have r: "n2 = n3" "p2 = p3" "n_chiral st2 = nc5" "p_chiral st2 = pc5"
    unfolding fed_skyrme_def Let_def by (auto simp: c0 c1 c2 c4 c5)
  note m = read_inputs_skyrme(3-6)[OF H]
  from m(1,2)[of "sk st" "n\<lparr>f_n := (nn + pn) / 2\<rparr>" "p\<lparr>f_n := (nn + pn) / 2\<rparr>" th]
  show "f_m n2 = f_m n" "f_m p2 = f_m p"
    by (simp_all add: c0 r)
  from m(3,4)[of "sk_chiral st" "(n_chiral st)\<lparr>f_n := (nn + pn) / 2\<rparr>"
      "(p_chiral st)\<lparr>f_n := (nn + pn) / 2\<rparr>" T "th_chiral st"]
  have m1: "f_m nc1 = f_m (n_chiral st)" "f_m pc1 = f_m (p_chiral st)"
    by (simp_all add: c1)
  from m(1,2)[of "sk_chiral st" nc1 pc1 thc1]
  have m2: "f_m nc2 = f_m nc1" "f_m pc2 = f_m pc1"
    by (simp_all add: c2)
  from m(3,4)[of "sk_chiral st" "nc2\<lparr>f_n := nn + pn\<rparr>" "pc2\<lparr>f_n := 0\<rparr>" T thc2]
  have m4: "f_m nc4 = f_m nc2" "f_m pc4 = f_m pc2"
    by (simp_all add: c4)
  from m(1,2)[of "sk_chiral st" nc4 pc4 thc4]
  have m5: "f_m nc5 = f_m nc4" "f_m pc5 = f_m pc4"
    by (simp_all add: c5)
  show "f_m (n_chiral st2) = f_m (n_chiral st)" "f_m (p_chiral st2) = f_m (p_chiral st)"
    by (simp_all add: r m1 m2 m4 m5)
qed

lemma fit_cong:
  assumes "old_ns_fit st' = old_ns_fit st" "ns_fit_parms st' = ns_fit_parms st"
  shows "ed_fit x st' = ed_fit x st" "mu_fit x st' = mu_fit x st" "cs2_fit x st' = cs2_fit x st"
    "energy_density_ns x st' = energy_density_ns x st"
  by (auto simp: ed_fit_def mu_fit_def cs2_fit_def dmudn_fit_def energy_density_ns_def fun_eq_iff
      assms)

lemma new_ns_eos_cong:
  assumes "old_ns_fit st' = old_ns_fit st" "ns_fit_parms st' = ns_fit_parms st"
    "ns_nb_max st' = ns_nb_max st" "phi st' = phi st" "f_m n' = f_m n"
  shows "new_ns_eos x st' nb n' = new_ns_eos x st nb n"
  unfolding new_ns_eos_def fit_cong[OF assms(1,2)] assms(3,4,5) ..

lemma ns_test_loop_cong:
  assumes "old_ns_fit st' = old_ns_fit st" "ns_fit_parms st' = ns_fit_parms st"
    "ns_nb_max st' = ns_nb_max st" "phi st' = phi st" "f_m n' = f_m n"
  shows "ns_test_loop x st' n' nbs r = ns_test_loop x st n nbs r"
  by (induction nbs arbitrary: r) (auto simp: new_ns_eos_cong[OF assms] split: sum.splits)

lemma fed_neutron_star_cong:
  assumes "old_ns_fit st' = old_ns_fit st" "ns_fit_parms st' = ns_fit_parms st"
    "ns_nb_max st' = ns_nb_max st" "phi st' = phi st" "f_m n' = f_m n"
    "test_ns_cs2 st' = test_ns_cs2 st"
  shows "fed_neutron_star x st' nb n' = fed_neutron_star x st nb n"
  unfolding fed_neutron_star_def new_ns_eos_cong[OF assms(1-5)] ns_test_loop_cong[OF assms(1-5)]
    assms(6) ..

lemma fed_combine_cong:
  assumes "a_virial st' = a_virial st" "b_virial st' = b_virial st" "f_virial st' = f_virial st"
    "g_virial st' = g_virial st" "qmc_a st' = qmc_a st" "qmc_alpha st' = qmc_alpha st"
    "qmc_b st' = qmc_b st" "qmc_beta st' = qmc_beta st" "qmc_n0 st' = qmc_n0 st"
  shows "fed_combine x st' = fed_combine x st"
  unfolding fed_combine_def assms ..

lemma energy_density_qmc_cong:
  assumes "qmc_a st' = qmc_a st" "qmc_alpha st' = qmc_alpha st"
    "qmc_b st' = qmc_b st" "qmc_beta st' = qmc_beta st" "qmc_n0 st' = qmc_n0 st"
  shows "energy_density_qmc x st' = energy_density_qmc x st"
  unfolding energy_density_qmc_def assms ..

lemma record_same_acl: "acl s = a \<Longrightarrow> s\<lparr>acl := a\<rparr> = s"
  by auto

lemma record_same_virial:
  "f_virial s = a \<Longrightarrow> s_virial s = b \<Longrightarrow> g_virial s = c \<Longrightarrow>
   s\<lparr>f_virial := a, s_virial := b, g_virial := c\<rparr> = s"
  by auto

lemma record_same_chiral:
  "n_chiral s = a \<Longrightarrow> p_chiral s = b \<Longrightarrow> th_chiral s = c \<Longrightarrow>
   s\<lparr>n_chiral := a, p_chiral := b, th_chiral := c\<rparr> = s"
  by auto

lemma record_same_deg:
  "f_deg s = a \<Longrightarrow> dgvirialdT s = b \<Longrightarrow> s\<lparr>f_deg := a, dgvirialdT := b\<rparr> = s"
  by auto

text \<open>
  Claim C9. Evaluating twice at the same densities and temperature with the same selected
  model returns the same outputs: when \<^verbatim>\<open>free_energy_density\<close> has returned, a second call
  on the objects it has written (the state, the two particles and the thermodynamic object
  as the first call left them) returns the same free energy and leaves every object as it
  is, so pressure, entropy, energy density and chemical potentials are those of the first
  call. What the function reads of its mutable members it has written before. The
  collaborators are taken to read only what their caller has set
  (\<^const>\<open>collaborators_read_inputs\<close>).
\<close>

theorem free_energy_density_replay:
  assumes H: "collaborators_read_inputs x"
    and ret: "free_energy_density x st n p T th = Inr (f_total, st', n', p', th')"
  shows "free_energy_density x st' n' p' T th' = Inr (f_total, st', n', p', th')"
  using ret
proof (rule fed_elim)
  fix f_vir dv st1 n1 p1 th1 sv st2 n2 p2 thb nb e_ns densdnn cv
  assume sel: "model_selected st"
    and v: "free_energy_density_virial x st n p T th = Inr (f_vir, dv, st1, n1, p1, th1)"
    and s: "fed_skyrme x (f_n n) (f_n p) T
           (st1\<lparr>f_virial := f_vir, s_virial := th_en th1,
                g_virial := 1 / (a_virial st1 * exp (f_mu n1 / T) * exp (f_mu n1 / T) +
                                 a_virial st1 * exp (f_mu p1 / T) * exp (f_mu p1 / T) +
                                 b_virial st1 * exp (f_mu n1 / T) * exp (f_mu p1 / T) + 1)\<rparr>,
            n1, p1, th1) = (sv, st2, n2, p2, thb)"
    and ns: "fed_neutron_star x st2 (f_n n + f_n p) n2 = Inr (nb, e_ns, densdnn)"
    and cv: "cv = fed_combine x st2 T (f_n n) (f_n p) nb (f_n p / (f_n n + f_n p)) 0.16
                (- th_en th1) (f_mu n1) (f_mu p1) (exp (f_mu n1 / T)) (exp (f_mu p1 / T))
                dv sv (energy_density_qmc x st2 (f_n n) (f_n p)) e_ns densdnn"
    and ft: "f_total = f_total_v cv"
    and st': "st' = st2\<lparr>f_deg := f_deg_v cv, dgvirialdT := dgvirialdT_v cv\<rparr>"
    and n': "n' = n2\<lparr>f_mu := n_mu_v cv, f_n := f_n n\<rparr>"
    and p': "p' = p2\<lparr>f_mu := p_mu_v cv, f_n := f_n p\<rparr>"
    and th': "th' = thb\<lparr>th_en := th_en_v cv,
                   th_pr := - f_total_v cv + f_n n * n_mu_v cv + f_n p * p_mu_v cv,
                   th_ed := f_total_v cv + T * th_en_v cv\<rparr>"
  define G where "G = 1 / (a_virial st1 * exp (f_mu n1 / T) * exp (f_mu n1 / T) +
                                 a_virial st1 * exp (f_mu p1 / T) * exp (f_mu p1 / T) +
                                 b_virial st1 * exp (f_mu n1 / T) * exp (f_mu p1 / T) + 1)"
  define sta where "sta = st1\<lparr>f_virial := f_vir, s_virial := th_en th1, g_virial := G\<rparr>"
  note s0 = s[folded G_def, folded sta_def]
  obtain a where st1: "st1 = st\<lparr>acl := a\<rparr>"
    using virial_state[OF v] by blast
  obtain nc pc thc where st2: "st2 = sta\<lparr>n_chiral := nc, p_chiral := pc, th_chiral := thc\<rparr>"
    using fed_skyrme_state[OF s0] by blast
  note fr = virial_frame[OF v]
  have m1: "f_m n1 = f_m n" "f_m p1 = f_m p" "f_n n1 = f_n n" "f_n p1 = f_n p"
    using fr(2) fr(3) by (metis fermion.select_convs fermion.surjective fermion.update_convs)+
  note ms = fed_skyrme_masses[OF H s0]
  have in': "f_n n' = f_n n" "f_m n' = f_m n" "f_n p' = f_n p" "f_m p' = f_m p"
    by (simp_all add: n' p' ms m1)
  have F: "acl st' = acl st1" "f_virial st' = f_vir" "s_virial st' = th_en th1"
    "g_virial st' = G" "a_virial st' = a_virial st1" "b_virial st' = b_virial st1"
    "n_chiral st' = n_chiral st2" "p_chiral st' = p_chiral st2" "th_chiral st' = th_chiral st2"
    "f_deg st' = f_deg_v cv" "dgvirialdT st' = dgvirialdT_v cv" "ecv st' = ecv st"
    "model_selected st'"
    by (simp_all add: st' st2 sta_def st1 sel)
  have P: "sk st' = sk sta" "sk_chiral st' = sk_chiral sta"
    "old_ns_fit st' = old_ns_fit st2" "ns_fit_parms st' = ns_fit_parms st2"
    "ns_nb_max st' = ns_nb_max st2" "phi st' = phi st2" "test_ns_cs2 st' = test_ns_cs2 st2"
    "a_virial st' = a_virial st2" "b_virial st' = b_virial st2" "f_virial st' = f_virial st2"
    "g_virial st' = g_virial st2" "qmc_a st' = qmc_a st2" "qmc_alpha st' = qmc_alpha st2"
    "qmc_b st' = qmc_b st2" "qmc_beta st' = qmc_beta st2" "qmc_n0 st' = qmc_n0 st2"
    by (simp_all add: st' st2 sta_def st1)
  have v1: "free_energy_density_virial x st' n' p' T th' =
      Inr (f_vir, dv, st', n'\<lparr>f_mu := f_mu n1\<rparr>, p'\<lparr>f_mu := f_mu p1\<rparr>, th1)"
    using virial_replay[OF H v F(12) in', of th'] by (simp add: record_same_acl[OF F(1)])
  have s1: "fed_skyrme x (f_n n) (f_n p) T (st', n'\<lparr>f_mu := f_mu n1\<rparr>, p'\<lparr>f_mu := f_mu p1\<rparr>, th1) =
      (sv, st', n2, p2, thb)"
    using fed_skyrme_replay[OF H s0 P(1,2), of "n'\<lparr>f_mu := f_mu n1\<rparr>" "p'\<lparr>f_mu := f_mu p1\<rparr>" th1]
    by (simp add: F(7,8) ms in' m1 record_same_chiral[OF F(7,8,9)])
  have s2: "fed_skyrme x (f_n n') (f_n p') T
           (st'\<lparr>f_virial := f_vir, s_virial := th_en th1,
                g_virial := 1 / (a_virial st' * exp (f_mu (n'\<lparr>f_mu := f_mu n1\<rparr>) / T) *
                                   exp (f_mu (n'\<lparr>f_mu := f_mu n1\<rparr>) / T) +
                                 a_virial st' * exp (f_mu (p'\<lparr>f_mu := f_mu p1\<rparr>) / T) *
                                   exp (f_mu (p'\<lparr>f_mu := f_mu p1\<rparr>) / T) +
                                 b_virial st' * exp (f_mu (n'\<lparr>f_mu := f_mu n1\<rparr>) / T) *
                                   exp (f_mu (p'\<lparr>f_mu := f_mu p1\<rparr>) / T) + 1)\<rparr>,
            n'\<lparr>f_mu := f_mu n1\<rparr>, p'\<lparr>f_mu := f_mu p1\<rparr>, th1) = (sv, st', n2, p2, thb)"
    using s1 record_same_virial[OF F(2,3,4)] by (simp add: in' F(5,6) G_def)
  have ns1: "fed_neutron_star x st' (f_n n' + f_n p') n2 = Inr (nb, e_ns, densdnn)"
    using ns fed_neutron_star_cong[OF P(3,4,5,6) refl P(7), of x "f_n n + f_n p" n2]
    by (simp add: in')
  have cv1: "cv = fed_combine x st' T (f_n n') (f_n p') nb (f_n p' / (f_n n' + f_n p')) 0.16
                (- th_en th1) (f_mu (n'\<lparr>f_mu := f_mu n1\<rparr>)) (f_mu (p'\<lparr>f_mu := f_mu p1\<rparr>))
                (exp (f_mu (n'\<lparr>f_mu := f_mu n1\<rparr>) / T)) (exp (f_mu (p'\<lparr>f_mu := f_mu p1\<rparr>) / T))
                dv sv (energy_density_qmc x st' (f_n n') (f_n p')) e_ns densdnn"
    unfolding cv fed_combine_cong[OF P(8-16)] energy_density_qmc_cong[OF P(12-16)]
    by (simp add: in')
  have "free_energy_density x st' n' p' T th' =
           Inr (f_total_v cv,
                st'\<lparr>f_deg := f_deg_v cv, dgvirialdT := dgvirialdT_v cv\<rparr>,
                n2\<lparr>f_mu := n_mu_v cv, f_n := f_n n'\<rparr>,
                p2\<lparr>f_mu := p_mu_v cv, f_n := f_n p'\<rparr>,
                thb\<lparr>th_en := th_en_v cv,
                    th_pr := - f_total_v cv + f_n n' * n_mu_v cv + f_n p' * p_mu_v cv,
                    th_ed := f_total_v cv + T * th_en_v cv\<rparr>)"
    by (rule fed_unfold[OF F(13) v1 s2 ns1 cv1])
  then show ?thesis
    by (simp add: record_same_deg[OF F(10,11)] in' ft n' p' th')
qed


lemma ex_collaborators: "collaborators_read_inputs ex_externals"
  unfolding collaborators_read_inputs_def
  by (simp add: ex_externals_def ex_fermion_def acl_inputs_eq_def acl_fugacity_eq_def
      acl_mu_eq_def fermion_inputs_eq_def)

theorem free_energy_density_replay_witness:
  "collaborators_read_inputs ex_externals \<and>
   (case free_energy_density ex_externals ex_eos
           ((neutron ex_eos)\<lparr>f_n := 0.08\<rparr>) ((proton ex_eos)\<lparr>f_n := 0.02\<rparr>) (1 / 10)
           (th2 ex_eos) of
      Inl e \<Rightarrow> False
    | Inr (f_total, st', n', p', th') \<Rightarrow>
        free_energy_density ex_externals st' n' p' (1 / 10) th' =
          Inr (f_total, st', n', p', th'))"
proof -
  obtain f_total st' n' p' th' where
    ret: "free_energy_density ex_externals ex_eos
           ((neutron ex_eos)\<lparr>f_n := 0.08\<rparr>) ((proton ex_eos)\<lparr>f_n := 0.02\<rparr>) (1 / 10)
           (th2 ex_eos) = Inr (f_total, st', n', p', th')"
    using free_energy_density_returns[OF ex_selected ex_solvers] by blast
  from free_energy_density_replay[OF ex_collaborators ret] show ?thesis
    using ret ex_collaborators by simp
qed

section \<open>Rejection outside the corridor\<close>

lemma Inr_if_elim:
  assumes "(if c then Inl e else r) = Inr s"
  obtains "\<not> c" and "r = Inr s"
  using assms by (cases c) simp_all

lemma Inr_option_elim:
  assumes "(case v of None \<Rightarrow> Inl e | Some a \<Rightarrow> f a) = Inr s"
  obtains a where "v = Some a" and "f a = Inr s"
  using assms by (cases v) simp_all

lemma Inr_prod_elim:
  assumes "(case v of (a, b) \<Rightarrow> f a b) = Inr s"
  obtains a b where "v = (a, b)" and "f a b = Inr s"
  using assms by (cases v) simp_all

lemma ns_fit_last:
  assumes "Inr (if c then s\<lparr>ns_nb_max := v\<rparr> else s) = (Inr s1 :: error + eos)"
    and "eos_S s = eos_S st \<and> eos_L s = eos_L st"
  shows "eos_S s1 = eos_S st \<and> eos_L s1 = eos_L st"
  using assms by (cases c) auto

lemma ns_fit_frame:
  assumes "ns_fit x st row = Inr st1"
  shows "eos_S st1 = eos_S st \<and> eos_L st1 = eos_L st"
  using assms unfolding ns_fit_def Let_def
  apply (elim Inr_if_elim Inr_option_elim Inr_prod_elim)
  apply (erule ns_fit_last)
  apply simp
  done

text \<open>
  Claim C5. When the fit to the neutron star table returns and the smallest squared sound
  speed that \<^verbatim>\<open>min_max_cs2\<close> finds is not negative, a pair \<open>(S, L)\<close> outside the corridor
  \<open>9.17 S - 266 \<le> L \<le> 14.3 S - 379\<close> makes \<^verbatim>\<open>select_internal\<close> return the code 2 with
  \<^verbatim>\<open>model_selected\<close> false, whatever its value was before the call (the object \<open>st\<close> of the
  call is arbitrary). The statement holds for every sequence of densities that the loop of
  \<^verbatim>\<open>min_max_cs2\<close> may visit, so also for the one that the sums of \<^verbatim>\<open>double\<close>s give. The two
  comparisons with the corridor are those of the source, read in exact arithmetic.
\<close>

theorem select_internal_corridor:
  assumes fit: "ns_fit x (st\<lparr>i_ns := i, i_skyrme := k, qmc_alpha := qa, qmc_a := a, eos_L := L,
                           eos_S := S, phi := ph, model_selected := True\<rparr>) i = Inr st1"
    and cs2: "\<not> fst (min_max_cs2 x st1) < 0"
    and out: "9.17 * S - 266 > L \<or> 14.3 * S - 379 < L"
  shows "\<exists>st'. select_internal x st i k qa a L S ph = Inr (2, st') \<and> \<not> model_selected st'"
proof -
  have SL: "eos_S st1 = S" "eos_L st1 = L"
    using ns_fit_frame[OF fit] by simp_all
  have "select_internal x st i k qa a L S ph = Inr (2, st1\<lparr>model_selected := False\<rparr>)"
    using cs2 out
    unfolding select_internal_def Let_def
    by (simp add: fit SL case_prod_beta)
  then show ?thesis by simp
qed

lemma upt_100: "[0..<100] = 0 # 1 # [2..<100]"
  by (simp add: upt_conv_Cons)

lemma ex_ns_fit:
  assumes "nstar_tab st = \<lparr>get_nlines = 1, tab_get = (\<lambda>c r. Some 0.05)\<rparr>"
    and "\<not> ns_record st"
  shows "ns_fit ex_externals_select st 0 =
           Inr (st\<lparr>i_ns := 0, ns_fit_parms := [469.7825, 0, 0, 0, 0], ns_nb_max := 0.05,
                   chi2_ns := 0\<rparr>)"
  unfolding ns_fit_def Let_def
  by (simp add: assms upt_100 ex_externals_select_def ex_externals_def)

lemma cs2_fit_nonneg:
  assumes "\<not> old_ns_fit st" "ns_fit_parms st = [c, 0, 0, 0, 0]" "0 \<le> c" "0 \<le> nb"
    "0 < hc_mev_fm x"
  shows "0 \<le> cs2_fit x st nb"
  unfolding cs2_fit_def dmudn_fit_def mu_fit_def
  using assms by (simp add: add_nonneg_nonneg)

lemma for_range_ge: "v \<in> set (for_range lo hi step) \<Longrightarrow> lo \<le> v \<and> v < hi"
proof (induction lo hi step rule: for_range.induct)
  case (1 lo hi step)
  show ?case
  proof (cases "lo < hi \<and> 0 < step")
    case True
    with "1.prems" have "v = lo \<or> v \<in> set (for_range (lo + step) hi step)"
      by (subst (asm) for_range.simps) simp
    with "1.IH"[OF True] True show ?thesis by auto
  next
    case False
    with "1.prems" show ?thesis by (subst (asm) for_range.simps) simp
  qed
qed

lemma fold_min_nonneg:
  assumes "\<forall>v\<in>set vs. 0 \<le> f v" "0 \<le> fst acc"
  shows "0 \<le> fst (fold (\<lambda>nb (cs2_min, cs2_max).
                 (if f nb < cs2_min then f nb else cs2_min,
                  if cs2_max < f nb then f nb else cs2_max)) vs acc)"
  using assms
  by (induction vs arbitrary: acc) (auto simp: case_prod_beta)

lemma min_max_cs2_nonneg:
  assumes "\<not> old_ns_fit st" "ns_fit_parms st = [c, 0, 0, 0, 0]" "0 \<le> c" "0 < hc_mev_fm x"
    and "\<forall>v\<in>set (double_range x 0.04 (ns_nb_max st) 0.02). 0 \<le> v"
  shows "\<not> fst (min_max_cs2 x st) < 0"
proof -
  have "0 \<le> fst (min_max_cs2 x st)"
    unfolding min_max_cs2_def Let_def
  proof (rule fold_min_nonneg)
    show "\<forall>v\<in>set (double_range x 0.04 (ns_nb_max st) 0.02). 0 \<le> cs2_fit x st v"
    proof
      fix v assume "v \<in> set (double_range x 0.04 (ns_nb_max st) 0.02)"
      then have "0 \<le> v" using assms(5) by blast
      then show "0 \<le> cs2_fit x st v" by (rule cs2_fit_nonneg[OF assms(1,2,3) _ assms(4)])
    qed
    show "0 \<le> fst (cs2_fit x st 0.08, cs2_fit x st 0.08)"
      using cs2_fit_nonneg[OF assms(1,2,3) _ assms(4), of "0.08"] by simp
  qed
  then show ?thesis by simp
qed

lemma ex_select_hc: "0 < hc_mev_fm ex_externals_select"
  by (simp add: ex_externals_select_def ex_externals_def)

lemma ex_select_range:
  "\<forall>v\<in>set (double_range ex_externals_select 0.04 hi 0.02). 0 \<le> v"
proof
  fix v assume "v \<in> set (double_range ex_externals_select 0.04 hi 0.02)"
  then have "v \<in> set (for_range 0.04 hi 0.02)"
    by (simp add: ex_externals_select_def ex_externals_def)
  then show "0 \<le> v" using for_range_ge[of v] by fastforce
qed

theorem select_internal_corridor_witness:
  "(9.17 * 30 - 266 > (100 :: real) \<or> 14.3 * 30 - 379 < (100 :: real)) \<and>
   (\<exists>st'. select_internal ex_externals_select ex_eos_select 0 0 0.48 12.7 100 30 0.6 =
            Inr (2, st') \<and> \<not> model_selected st') \<and>
   (\<exists>st'. select_internal ex_externals_select (ex_eos_select\<lparr>model_selected := False\<rparr>)
            0 0 0.48 12.7 100 30 0.6 = Inr (2, st') \<and> \<not> model_selected st')"
proof -
  have out: "9.17 * 30 - 266 > (100 :: real) \<or> 14.3 * 30 - 379 < (100 :: real)"
    by simp
  have a: "\<exists>st'. select_internal ex_externals_select (ex_eos_select\<lparr>model_selected := b\<rparr>)
            0 0 0.48 12.7 100 30 0.6 = Inr (2, st') \<and> \<not> model_selected st'" for b
  proof (rule select_internal_corridor[OF _ _ out])
    show "ns_fit ex_externals_select
            (ex_eos_select\<lparr>model_selected := b, i_ns := 0, i_skyrme := 0, qmc_alpha := 0.48,
               qmc_a := 12.7, eos_L := 100, eos_S := 30, phi := 0.6, model_selected := True\<rparr>) 0 =
          Inr (ex_eos_select\<lparr>model_selected := b, i_ns := 0, i_skyrme := 0, qmc_alpha := 0.48,
               qmc_a := 12.7, eos_L := 100, eos_S := 30, phi := 0.6, model_selected := True,
               i_ns := 0, ns_fit_parms := [469.7825, 0, 0, 0, 0], ns_nb_max := 0.05,
               chi2_ns := 0\<rparr>)"
      by (rule ex_ns_fit) (simp_all add: ex_eos_select_def ex_eos_def)
    show "\<not> fst (min_max_cs2 ex_externals_select
                 (ex_eos_select\<lparr>model_selected := b, i_ns := 0, i_skyrme := 0,
                    qmc_alpha := 0.48, qmc_a := 12.7, eos_L := 100, eos_S := 30, phi := 0.6,
                    model_selected := True, i_ns := 0,
                    ns_fit_parms := [469.7825, 0, 0, 0, 0], ns_nb_max := 0.05,
                    chi2_ns := 0\<rparr>)) < 0"
      by (rule min_max_cs2_nonneg[where c = "469.7825"])
         (simp_all add: ex_eos_select_def ex_eos_def ex_select_hc ex_select_range)
  qed
  have e: "ex_eos_select\<lparr>model_selected := True\<rparr> = ex_eos_select"
    by (simp add: ex_eos_select_def ex_eos_def)
  show ?thesis
    using out a[of True] a[of False] unfolding e by blast
qed

section \<open>The validation of the sound speed\<close>










































lemma for_range_nonempty: "lo < hi \<Longrightarrow> 0 < step \<Longrightarrow> for_range lo hi step \<noteq> []"
  by (subst for_range.simps) simp












end
